theory Spec2Isabelle
  imports Complex_Main "HOL-Library.Multiset"
begin

section \<open>Go library values shared by the services\<close>

text \<open>
  Times are nanoseconds since the Unix epoch (Go's \<open>time.Time\<close>, and the
  \<open>TIMESTAMP\<close> columns of the relational store read on the same clock).
\<close>

type_synonym time = int

definition second :: int where
  "second = 1000000000"

definition minute :: int where
  "minute = 60 * second"

definition hour :: int where
  "hour = 60 * minute"

text \<open>\<open>t.Unix()\<close>: whole seconds since the epoch; \<open>time.Unix(s, 0)\<close>: the way back.\<close>

definition Unix :: "time \<Rightarrow> int" where
  "Unix t = t div second"

definition time_Unix :: "int \<Rightarrow> time" where
  "time_Unix s = s * second"

text \<open>
  Go errors. \<open>Upstream\<close> is an error handed up by an external collaborator (database
  driver, GitHub API, LLM API, random source, base64 or JSON decoder); \<open>Errorf\<close> is
  \<open>fmt.Errorf\<close> with a plain message; \<open>Wrap m e\<close> is \<open>fmt.Errorf(m + ": %w", e)\<close>;
  \<open>Joined\<close> is the value of \<open>errors.Join\<close>. \<open>Panic\<close> is a run-time panic: it is not
  returned but unwinds the calls it passes through, so a function in which it is raised, or
  whose callee raised it, has it as its outcome.
\<close>

datatype error =
    Upstream string
  | Errorf string
  | Wrap string error
  | InvalidRepositoryName string
  | RepositoryFailed string error
  | Joined "error list"
  | Panic string

text \<open>
  \<open>fmt.Errorf(m + ": %w", err)\<close> in the branch \<open>err != nil\<close> after a call: it wraps the
  error the callee returned; a panic of the callee does not reach the branch.
\<close>

definition wrap_returned :: "string \<Rightarrow> error \<Rightarrow> error" where
  "wrap_returned m e = (case e of Panic r \<Rightarrow> Panic r | _ \<Rightarrow> Wrap m e)"

text \<open>\<open>errors.Join\<close>: nil when there is no error to join.\<close>

definition errors_Join :: "error list \<Rightarrow> error option" where
  "errors_Join errs = (if errs = [] then None else Some (Joined errs))"

text \<open>\<open>strings.Split(s, sep)\<close> for a one-byte separator; the empty string gives one empty part.\<close>

fun Split :: "string \<Rightarrow> char \<Rightarrow> string list" where
  "Split [] sep = [[]]"
| "Split (c # cs) sep =
     (if c = sep then [] # Split cs sep
      else (case Split cs sep of
              [] \<Rightarrow> [[c]]
            | p # ps \<Rightarrow> (c # p) # ps))"

text \<open>Decimal digits of a natural number and \<open>%d\<close> of a Go \<open>int\<close>.\<close>

function nat_to_dec :: "nat \<Rightarrow> string" where
  "nat_to_dec n =
     (if n < 10 then [''0123456789'' ! n]
      else nat_to_dec (n div 10) @ [''0123456789'' ! (n mod 10)])"
  by pat_completeness auto
termination
  by (relation "measure id") auto

declare nat_to_dec.simps [simp del]

definition itoa :: "int \<Rightarrow> string" where
  "itoa i = (if i < 0 then CHR ''-'' # nat_to_dec (nat (- i)) else nat_to_dec (nat i))"

text \<open>An HTTP response of a handler: \<open>echo.NewHTTPError(code, message)\<close> or \<open>c.JSON(code, body)\<close>.\<close>

datatype 'b response = HTTPError nat string | JSON nat 'b

definition StatusOK :: nat where "StatusOK = 200"
definition StatusBadRequest :: nat where "StatusBadRequest = 400"
definition StatusUnauthorized :: nat where "StatusUnauthorized = 401"
definition StatusInternalServerError :: nat where "StatusInternalServerError = 500"

text \<open>The fallible statements sent to the relational store; each may fail with a driver error.\<close>

datatype db_op =
    GetRepositoryListQ
  | SetRepositoryListQ
  | InvalidateAllRepositoryListsQ
  | ProfileCacheGetQ
  | ProfileCacheSetQ

section \<open>Data model\<close>

text \<open>
  The structs of package \<open>models\<close>, field by field. A Go \<open>int\<close> or \<open>int64\<close> field is
  an \<open>int\<close> here (values come from JSON or SQL and are within the 64-bit range), a
  \<open>time.Time\<close> is a \<open>time\<close>, a \<open>float64\<close> that is only copied is a \<open>real\<close>, a
  pointer that may be nil is an \<open>option\<close>, and a Go map is the list of its entries.
\<close>

record User =
  usr_ID :: int
  usr_GitHubID :: int
  usr_Username :: string
  usr_Email :: string
  usr_AvatarURL :: string
  usr_Bio :: string
  usr_Location :: string
  usr_Company :: string
  usr_Blog :: string
  usr_AccessToken :: string
  usr_RefreshToken :: string
  usr_TokenExpiresAt :: time
  usr_CreatedAt :: time
  usr_UpdatedAt :: time
  usr_LastLoginAt :: time

record Repository =
  repo_ID :: int
  repo_GitHubID :: int
  repo_Name :: string
  repo_FullName :: string
  repo_Description :: string
  repo_Private :: bool
  repo_Fork :: bool
  repo_Language :: string
  repo_StargazersCount :: int
  repo_ForksCount :: int
  repo_OpenIssuesCount :: int
  repo_DefaultBranch :: string
  repo_Topics :: "string list"
  repo_HTMLURL :: string
  repo_CloneURL :: string
  repo_CreatedAt :: time
  repo_UpdatedAt :: time
  repo_PushedAt :: time

record RepositoryAnalysis =
  ra_Repository :: "Repository option"
  ra_Languages :: "(string \<times> int) list"
  ra_Files :: "string list"
  ra_Dependencies :: "(string \<times> string list) list"
  ra_KeyFiles :: "(string \<times> string) list"
  ra_CommitCount :: int
  ra_ContributorCount :: int

text \<open>The entries of a Go map: no key occurs twice.\<close>

definition go_map :: "('k \<times> 'v) list \<Rightarrow> bool" where
  "go_map m \<longleftrightarrow> distinct (map fst m)"

definition valid_analysis :: "RepositoryAnalysis \<Rightarrow> bool" where
  "valid_analysis p \<longleftrightarrow>
     go_map (ra_Languages p) \<and> go_map (ra_Dependencies p) \<and> go_map (ra_KeyFiles p)"

text \<open>What \<open>echo.Context\<close> holds for the handlers: the keys set by the auth middleware.\<close>

record ctx =
  ctx_user :: "User option"
  ctx_user_id :: "int option"
  ctx_username :: "string option"
  ctx_access_token :: "string option"
  ctx_jwt_jti :: "string option"
  ctx_jwt_exp :: "int option"

definition empty_ctx :: ctx where
  "empty_ctx = \<lparr>ctx_user = None, ctx_user_id = None, ctx_username = None,
     ctx_access_token = None, ctx_jwt_jti = None, ctx_jwt_exp = None\<rparr>"

section \<open>Repository list cache and the GitHub service\<close>

text \<open>
  Table \<open>repository_list_cache\<close>: one row per \<open>(user_id, include_private)\<close> holding the
  JSON of the repository list and its expiry. The service state also carries the lines
  written through \<open>slog\<close>.
\<close>

record github_state =
  repository_list_cache :: "(int \<times> bool) \<rightharpoonup> (string \<times> time)"
  service_log :: "string list"

text \<open>
  A repository as the GitHub API client hands it over: what the getters that
  \<open>ListUserRepositories\<close> calls return (the zero value for a field the API left out).
\<close>

record github_Repository =
  gr_ID :: int
  gr_Name :: string
  gr_FullName :: string
  gr_Description :: string
  gr_Private :: bool
  gr_Fork :: bool
  gr_Language :: string
  gr_StargazersCount :: int
  gr_ForksCount :: int
  gr_OpenIssuesCount :: int
  gr_DefaultBranch :: string
  gr_Topics :: "string list"
  gr_HTMLURL :: string
  gr_CloneURL :: string
  gr_CreatedAt :: time
  gr_UpdatedAt :: time
  gr_PushedAt :: time

text \<open>The \<open>models.Repository\<close> that the loop of \<open>ListUserRepositories\<close> builds from one.\<close>

definition to_Repository :: "github_Repository \<Rightarrow> Repository" where
  "to_Repository gr =
     \<lparr>repo_ID = gr_ID gr, repo_GitHubID = gr_ID gr, repo_Name = gr_Name gr,
      repo_FullName = gr_FullName gr, repo_Description = gr_Description gr,
      repo_Private = gr_Private gr, repo_Fork = gr_Fork gr, repo_Language = gr_Language gr,
      repo_StargazersCount = gr_StargazersCount gr, repo_ForksCount = gr_ForksCount gr,
      repo_OpenIssuesCount = gr_OpenIssuesCount gr, repo_DefaultBranch = gr_DefaultBranch gr,
      repo_Topics = gr_Topics gr, repo_HTMLURL = gr_HTMLURL gr, repo_CloneURL = gr_CloneURL gr,
      repo_CreatedAt = gr_CreatedAt gr, repo_UpdatedAt = gr_UpdatedAt gr,
      repo_PushedAt = gr_PushedAt gr\<rparr>"

text \<open>
  The collaborators of the GitHub service: the clock, the faults of the store, the GitHub
  API client and \<open>encoding/json\<close> on repository lists (\<open>None\<close> from the decoder stands
  for a decoding error or a JSON \<open>null\<close>; the caller treats both as a miss). A fault of a
  statement is any error the driver returns for it, a violated constraint included.
\<close>

record github_env =
  gh_now :: time
  gh_db_fault :: "db_op \<Rightarrow> error option"
  gh_ListRepositories :: "string \<Rightarrow> bool \<Rightarrow> error + github_Repository list"
  gh_marshal_repos :: "Repository list \<Rightarrow> error + string"
  gh_unmarshal_repos :: "string \<Rightarrow> Repository list option"

definition slog_Warn :: "string \<Rightarrow> github_state \<Rightarrow> github_state" where
  "slog_Warn msg s = s\<lparr>service_log := service_log s @ [msg]\<rparr>"

definition GetRepositoryList ::
  "github_env \<Rightarrow> github_state \<Rightarrow> int \<Rightarrow> bool \<Rightarrow> error + Repository list option" where
  "GetRepositoryList E s userID includePrivate =
     (case gh_db_fault E GetRepositoryListQ of
        Some e \<Rightarrow> Inl (Wrap ''failed to get cached repository list'' e)
      | None \<Rightarrow>
          (case repository_list_cache s (userID, includePrivate) of
             None \<Rightarrow> Inr None
           | Some (reposJSON, expires_at) \<Rightarrow>
               if expires_at > gh_now E then Inr (gh_unmarshal_repos E reposJSON)
               else Inr None))"

definition SetRepositoryList ::
  "github_env \<Rightarrow> github_state \<Rightarrow> int \<Rightarrow> bool \<Rightarrow> Repository list \<Rightarrow> error option \<times> github_state" where
  "SetRepositoryList E s userID includePrivate repos =
     (case gh_marshal_repos E repos of
        Inl e \<Rightarrow> (Some (Wrap ''failed to marshal repositories'' e), s)
      | Inr reposJSON \<Rightarrow>
          (case gh_db_fault E SetRepositoryListQ of
             Some e \<Rightarrow> (Some (Wrap ''failed to set repository list cache'' e), s)
           | None \<Rightarrow>
               (None, s\<lparr>repository_list_cache :=
                  (repository_list_cache s)((userID, includePrivate) \<mapsto>
                     (reposJSON, gh_now E + 5 * minute))\<rparr>)))"

definition InvalidateAllRepositoryLists ::
  "github_env \<Rightarrow> github_state \<Rightarrow> int \<Rightarrow> error option \<times> github_state" where
  "InvalidateAllRepositoryLists E s userID =
     (case gh_db_fault E InvalidateAllRepositoryListsQ of
        Some e \<Rightarrow> (Some (Wrap ''failed to invalidate all repository lists'' e), s)
      | None \<Rightarrow>
          (None, s\<lparr>repository_list_cache :=
             (\<lambda>k. if fst k = userID then None else repository_list_cache s k)\<rparr>))"

text \<open>
  \<open>ListUserRepositories\<close>: cache hit, else fetch from GitHub, drop private repositories
  unless asked for, convert the others, write the cache (a failed write is logged) and return
  the list.
\<close>

definition ListUserRepositories ::
  "github_env \<Rightarrow> github_state \<Rightarrow> int \<Rightarrow> string \<Rightarrow> bool \<Rightarrow> (error + Repository list) \<times> github_state" where
  "ListUserRepositories E s userID accessToken includePrivate =
     (case GetRepositoryList E s userID includePrivate of
        Inr (Some cachedRepos) \<Rightarrow> (Inr cachedRepos, s)
      | _ \<Rightarrow>
          (case gh_ListRepositories E accessToken includePrivate of
             Inl e \<Rightarrow> (Inl (Wrap ''failed to list repositories'' e), s)
           | Inr githubRepos \<Rightarrow>
               (let repos = map to_Repository
                              (filter (\<lambda>gr. includePrivate \<or> \<not> gr_Private gr) githubRepos) in
                (case SetRepositoryList E s userID includePrivate repos of
                   (Some e, s') \<Rightarrow> (Inr repos, slog_Warn ''Failed to cache repository list'' s')
                 | (None, s') \<Rightarrow> (Inr repos, s')))))"

text \<open>\<open>ClearUserCache\<close>: a failed invalidation is logged; the function returns nil.\<close>

definition ClearUserCache ::
  "github_env \<Rightarrow> github_state \<Rightarrow> int \<Rightarrow> error option \<times> github_state" where
  "ClearUserCache E s userID =
     (case InvalidateAllRepositoryLists E s userID of
        (Some e, s') \<Rightarrow> (None, slog_Warn ''Failed to invalidate repository list cache'' s')
      | (None, s') \<Rightarrow> (None, s'))"

text \<open>Handler \<open>ClearCache\<close> (DELETE /cache).\<close>

definition ClearCache ::
  "github_env \<Rightarrow> ctx \<Rightarrow> github_state \<Rightarrow> (string \<times> string) list response \<times> github_state" where
  "ClearCache E c s =
     (case ctx_user_id c of
        None \<Rightarrow> (HTTPError StatusUnauthorized ''Unauthorized'', s)
      | Some userID \<Rightarrow>
          (case ClearUserCache E s userID of
             (Some e, s') \<Rightarrow> (HTTPError StatusInternalServerError ''Failed to clear cache'', s')
           | (None, s') \<Rightarrow> (JSON StatusOK [(''message'', ''Cache cleared successfully'')], s')))"

section \<open>Batch analysis\<close>

text \<open>
  \<open>BatchAnalyzeRepositories\<close> calls \<open>AnalyzeRepository\<close> once per well-formed entry. The
  callee (GitHub API, analysis cache, analyzer) is a parameter: any function of the access
  token, owner and repository name that reads and updates a state \<open>'s\<close> and returns an
  analysis or an error.
\<close>

type_synonym ('a, 's) analyze = "string \<Rightarrow> string \<Rightarrow> string \<Rightarrow> 's \<Rightarrow> (error + 'a) \<times> 's"

text \<open>The loop body and the loop over \<open>repos\<close>, with the map \<open>results\<close> and the slice \<open>errs\<close>.\<close>

fun batch_loop ::
  "('a, 's) analyze \<Rightarrow> string \<Rightarrow> string list \<Rightarrow> (string \<rightharpoonup> 'a) \<Rightarrow> error list \<Rightarrow> 's
     \<Rightarrow> (string \<rightharpoonup> 'a) \<times> error list \<times> 's" where
  "batch_loop analyze accessToken [] results errs s = (results, errs, s)"
| "batch_loop analyze accessToken (fullName # rest) results errs s =
     (case Split fullName (CHR ''/'') of
        [owner, repo] \<Rightarrow>
          (case analyze accessToken owner repo s of
             (Inl err, s') \<Rightarrow>
               batch_loop analyze accessToken rest results
                 (errs @ [RepositoryFailed fullName err]) s'
           | (Inr analysis, s') \<Rightarrow>
               batch_loop analyze accessToken rest (results(fullName \<mapsto> analysis)) errs s')
      | _ \<Rightarrow>
          batch_loop analyze accessToken rest results
            (errs @ [InvalidRepositoryName fullName]) s)"

definition BatchAnalyzeRepositories ::
  "('a, 's) analyze \<Rightarrow> string \<Rightarrow> string list \<Rightarrow> 's
     \<Rightarrow> ((string \<rightharpoonup> 'a) \<times> error option) \<times> 's" where
  "BatchAnalyzeRepositories analyze accessToken repos s =
     (case batch_loop analyze accessToken repos Map.empty [] s of
        (results, errs, s') \<Rightarrow> ((results, errors_Join errs), s'))"

text \<open>
  Handler \<open>BatchAnalyze\<close> (POST /repositories/batch-analyze). \<open>bind\<close> is the outcome of
  \<open>c.Bind\<close> on the request body: a binding error, or the \<open>repositories\<close> field. The service
  is a parameter of the same shape as \<open>BatchAnalyzeRepositories analyze\<close>.
\<close>

type_synonym ('a, 's) batch_service =
  "string \<Rightarrow> string list \<Rightarrow> 's \<Rightarrow> ((string \<rightharpoonup> 'a) \<times> error option) \<times> 's"

definition BatchAnalyze ::
  "('a, 's) batch_service \<Rightarrow> ctx \<Rightarrow> error + string list \<Rightarrow> 's
     \<Rightarrow> (string \<rightharpoonup> 'a) response \<times> 's" where
  "BatchAnalyze service c bind s =
     (case ctx_access_token c of
        None \<Rightarrow> (HTTPError StatusUnauthorized ''Unauthorized'', s)
      | Some accessToken \<Rightarrow>
          (case bind of
             Inl e \<Rightarrow> (HTTPError StatusBadRequest ''Invalid request body'', s)
           | Inr repositories \<Rightarrow>
               if length repositories = 0
               then (HTTPError StatusBadRequest ''At least one repository is required'', s)
               else if length repositories > 10
               then (HTTPError StatusBadRequest ''Maximum 10 repositories allowed'', s)
               else (case service accessToken repositories s of
                       ((results, Some err), s') \<Rightarrow>
                         (HTTPError StatusInternalServerError ''Failed to analyze repositories'', s')
                     | ((results, None), s') \<Rightarrow> (JSON StatusOK results, s'))))"




section \<open>Progress channel of the WebSocket handler\<close>

definition em_dash :: string where
  "em_dash = [CHR 0xE2, CHR 0x80, CHR 0x94]"

record ProgressUpdate =
  pu_Stage :: string
  pu_Progress :: real
  pu_Message :: string
  pu_Error :: string

text \<open>
  A buffered Go channel that is open: the queued values, oldest first, and the capacity given
  to \<open>make\<close>.
\<close>

record 'a chan =
  chan_buf :: "'a list"
  chan_cap :: nat

definition make_chan :: "nat \<Rightarrow> 'a chan" where
  "make_chan n = \<lparr>chan_buf = [], chan_cap = n\<rparr>"

text \<open>
  The plain send \<open>ch <- v\<close>: it proceeds when the buffer has room and blocks (\<open>None\<close>)
  when the buffer is full. A receiver that is waiting has emptied the buffer, so the hand-over
  to it is a send into a buffer with room.
\<close>

definition chan_send :: "'a chan \<Rightarrow> 'a \<Rightarrow> 'a chan option" where
  "chan_send ch v =
     (if length (chan_buf ch) < chan_cap ch then Some (ch\<lparr>chan_buf := chan_buf ch @ [v]\<rparr>)
      else None)"

text \<open>
  \<open>select { case ch <- v: default: }\<close>: the send when it can proceed, else the empty default
  branch. The flag tells whether the value was queued.
\<close>

definition select_send_default :: "'a chan \<Rightarrow> 'a \<Rightarrow> 'a chan \<times> bool" where
  "select_send_default ch v =
     (case chan_send ch v of
        Some ch' \<Rightarrow> (ch', True)
      | None \<Rightarrow> (ch, False))"

text \<open>The consumer goroutine taking \<open>k\<close> updates off the channel (fewer when fewer are queued).\<close>

definition chan_receive :: "nat \<Rightarrow> 'a chan \<Rightarrow> 'a chan" where
  "chan_receive k ch = ch\<lparr>chan_buf := drop k (chan_buf ch)\<rparr>"

text \<open>The closure \<open>send\<close> of \<open>generateWithProgress\<close>.\<close>

definition send ::
  "ProgressUpdate chan \<Rightarrow> string \<Rightarrow> real \<Rightarrow> string \<Rightarrow> ProgressUpdate chan \<times> bool" where
  "send progressCh stage pct msg =
     select_send_default progressCh
       \<lparr>pu_Stage = stage, pu_Progress = pct, pu_Message = msg, pu_Error = []\<rparr>"

text \<open>
  \<open>generateWithProgress\<close>. \<open>generated\<close> is the outcome of \<open>GenerateProfile\<close>,
  \<open>projects\<close> is \<open>len(req.Projects)\<close>, and \<open>consumed i\<close> is the number of
  updates the consumer goroutine takes off the channel before the \<open>i\<close>-th send. The result
  carries the channel and, for each send made, whether its update was queued.
\<close>

definition generateWithProgress ::
  "error + 'r \<Rightarrow> nat \<Rightarrow> (nat \<Rightarrow> nat) \<Rightarrow> ProgressUpdate chan
     \<Rightarrow> (error + 'r) \<times> ProgressUpdate chan \<times> bool list" where
  "generateWithProgress generated projects consumed progressCh =
     (let (ch1, q1) = send (chan_receive (consumed 0) progressCh)
                        ''init'' 0.0 ''Starting profile generation...'';
          (ch2, q2) = send (chan_receive (consumed 1) ch1)
                        ''analyzing'' 0.1
                        (''Preparing '' @ itoa (int projects) @ '' project(s) for analysis...'');
          (ch3, q3) = send (chan_receive (consumed 2) ch2)
                        ''generating'' 0.4
                        (''Sending to AI '' @ em_dash @ '' this may take up to 30 seconds...'')
      in (case generated of
            Inl err \<Rightarrow> (Inl err, ch3, [q1, q2, q3])
          | Inr response \<Rightarrow>
              (let (ch4, q4) = send (chan_receive (consumed 3) ch3)
                                 ''finalizing'' 0.95 ''Assembling final profile...''
               in (Inr response, ch4, [q1, q2, q3, q4]))))"

text \<open>The channel \<open>HandleProfileGeneration\<close> creates for one request.\<close>

definition progressCh :: "ProgressUpdate chan" where
  "progressCh = make_chan 10"


section \<open>Go string functions used by the profile service\<close>

text \<open>Go strings are byte sequences; text in them is UTF-8.\<close>

definition HasPrefix :: "string \<Rightarrow> string \<Rightarrow> bool" where
  "HasPrefix s p \<longleftrightarrow> take (length p) s = p"

text \<open>
  UTF-8. \<open>utf8.DecodeRuneInString\<close>: the code point at the head of the string and the number
  of bytes it takes. A byte that does not begin a well-formed sequence (a continuation byte, a
  truncated or overlong sequence, a surrogate, a value above U+10FFFF) is read alone, as
  \<open>RuneError\<close> (U+FFFD).
\<close>

definition RuneError :: nat where
  "RuneError = 0xFFFD"

definition between :: "nat \<Rightarrow> char \<Rightarrow> nat \<Rightarrow> bool" where
  "between lo c hi \<longleftrightarrow> lo \<le> of_char c \<and> (of_char c :: nat) \<le> hi"

definition low6 :: "char \<Rightarrow> nat" where
  "low6 c = of_char c mod 64"

fun DecodeRune :: "string \<Rightarrow> nat \<times> nat" where
  "DecodeRune [] = (RuneError, 0)"
| "DecodeRune (c0 # rest) =
     (let b0 = of_char c0 :: nat in
      if b0 < 0x80 then (b0, 1)
      else if 0xC2 \<le> b0 \<and> b0 \<le> 0xDF then
        (case rest of
           c1 # _ \<Rightarrow>
             if between 0x80 c1 0xBF then ((b0 mod 32) * 64 + low6 c1, 2) else (RuneError, 1)
         | _ \<Rightarrow> (RuneError, 1))
      else if 0xE0 \<le> b0 \<and> b0 \<le> 0xEF then
        (case rest of
           c1 # c2 # _ \<Rightarrow>
             if between (if b0 = 0xE0 then 0xA0 else 0x80) c1 (if b0 = 0xED then 0x9F else 0xBF)
                \<and> between 0x80 c2 0xBF
             then ((b0 mod 16) * 4096 + low6 c1 * 64 + low6 c2, 3)
             else (RuneError, 1)
         | _ \<Rightarrow> (RuneError, 1))
      else if 0xF0 \<le> b0 \<and> b0 \<le> 0xF4 then
        (case rest of
           c1 # c2 # c3 # _ \<Rightarrow>
             if between (if b0 = 0xF0 then 0x90 else 0x80) c1 (if b0 = 0xF4 then 0x8F else 0xBF)
                \<and> between 0x80 c2 0xBF \<and> between 0x80 c3 0xBF
             then ((b0 mod 8) * 262144 + low6 c1 * 4096 + low6 c2 * 64 + low6 c3, 4)
             else (RuneError, 1)
         | _ \<Rightarrow> (RuneError, 1))
      else (RuneError, 1))"

text \<open>\<open>utf8.ValidString\<close>: no byte of the string is read as an error.\<close>

fun ValidString :: "string \<Rightarrow> bool" where
  "ValidString [] = True"
| "ValidString (c # cs) =
     (case DecodeRune (c # cs) of
        (r, n) \<Rightarrow> \<not> (r = RuneError \<and> n = 1) \<and> ValidString (drop (n - 1) cs))"

text \<open>
  A Go string after a round trip through \<open>encoding/json\<close>: \<open>json.Marshal\<close> writes a string
  coerced to valid UTF-8, every byte that is read as an error replaced by U+FFFD, and
  \<open>json.Unmarshal\<close> reads back what was written.
\<close>

fun coerce_utf8 :: "string \<Rightarrow> string" where
  "coerce_utf8 [] = []"
| "coerce_utf8 (c # cs) =
     (case DecodeRune (c # cs) of
        (r, n) \<Rightarrow>
          if r = RuneError \<and> n = 1 then [CHR 0xEF, CHR 0xBF, CHR 0xBD] @ coerce_utf8 cs
          else c # take (n - 1) cs @ coerce_utf8 (drop (n - 1) cs))"

text \<open>
  \<open>for _, r := range s\<close>: the code points of a string, a byte that is read as an error
  giving U+FFFD; and \<open>utf8.AppendRune\<close>, which writes a surrogate or a value above U+10FFFF
  as U+FFFD.
\<close>

fun runes :: "string \<Rightarrow> nat list" where
  "runes [] = []"
| "runes (c # cs) = (case DecodeRune (c # cs) of (r, n) \<Rightarrow> r # runes (drop (n - 1) cs))"

definition AppendRune :: "nat \<Rightarrow> string" where
  "AppendRune r =
     (if r < 0x80 then [char_of r]
      else if r < 0x800 then [char_of (0xC0 + r div 64), char_of (0x80 + r mod 64)]
      else if (0xD800 \<le> r \<and> r \<le> 0xDFFF) \<or> 0x10FFFF < r then [CHR 0xEF, CHR 0xBF, CHR 0xBD]
      else if r < 0x10000
      then [char_of (0xE0 + r div 4096), char_of (0x80 + r div 64 mod 64),
            char_of (0x80 + r mod 64)]
      else [char_of (0xF0 + r div 262144), char_of (0x80 + r div 4096 mod 64),
            char_of (0x80 + r div 64 mod 64), char_of (0x80 + r mod 64)])"

text \<open>
  \<open>strings.ToLower\<close>. A string of ASCII bytes (every byte has its top bit clear) has its
  letters A to Z lower-cased. Any other string goes through \<open>strings.Map(unicode.ToLower, s)\<close>:
  it is read code point by code point, each one is mapped and written back in UTF-8.
  \<open>unicode.ToLower\<close> lower-cases A to Z itself and looks every code point above ASCII up
  in the case tables of the Unicode standard; that lookup is the parameter \<open>lc\<close>.
\<close>

type_synonym case_table = "nat \<Rightarrow> nat"

definition upper_to_lower :: "(char \<times> char) list" where
  "upper_to_lower = zip ''ABCDEFGHIJKLMNOPQRSTUVWXYZ'' ''abcdefghijklmnopqrstuvwxyz''"

definition ascii_lower :: "char \<Rightarrow> char" where
  "ascii_lower c = (case map_of upper_to_lower c of Some l \<Rightarrow> l | None \<Rightarrow> c)"

definition unicode_ToLower :: "case_table \<Rightarrow> nat \<Rightarrow> nat" where
  "unicode_ToLower lc r =
     (if r < 0x80 then (if 0x41 \<le> r \<and> r \<le> 0x5A then r + 0x20 else r) else lc r)"

definition ToLower :: "case_table \<Rightarrow> string \<Rightarrow> string" where
  "ToLower lc s =
     (if list_all (\<lambda>c. \<not> digit7 c) s then map ascii_lower s
      else concat (map (\<lambda>r. AppendRune (unicode_ToLower lc r)) (runes s)))"

text \<open>
  \<open>strings.TrimSpace\<close> removes the leading and the trailing code points that
  \<open>unicode.IsSpace\<close> accepts: U+0009 to U+000D, U+0020, U+0085, U+00A0, U+1680, U+2000 to
  U+200A, U+2028, U+2029, U+202F, U+205F and U+3000. A string begins (ends) with such a code
  point exactly when it begins (ends) with its UTF-8 encoding.
\<close>

definition space_encodings :: "string list" where
  "space_encodings =
     [[CHR 0x09], [CHR 0x0A], [CHR 0x0B], [CHR 0x0C], [CHR 0x0D], [CHR 0x20],
      [CHR 0xC2, CHR 0x85], [CHR 0xC2, CHR 0xA0], [CHR 0xE1, CHR 0x9A, CHR 0x80],
      [CHR 0xE2, CHR 0x80, CHR 0x80], [CHR 0xE2, CHR 0x80, CHR 0x81],
      [CHR 0xE2, CHR 0x80, CHR 0x82], [CHR 0xE2, CHR 0x80, CHR 0x83],
      [CHR 0xE2, CHR 0x80, CHR 0x84], [CHR 0xE2, CHR 0x80, CHR 0x85],
      [CHR 0xE2, CHR 0x80, CHR 0x86], [CHR 0xE2, CHR 0x80, CHR 0x87],
      [CHR 0xE2, CHR 0x80, CHR 0x88], [CHR 0xE2, CHR 0x80, CHR 0x89],
      [CHR 0xE2, CHR 0x80, CHR 0x8A], [CHR 0xE2, CHR 0x80, CHR 0xA8],
      [CHR 0xE2, CHR 0x80, CHR 0xA9], [CHR 0xE2, CHR 0x80, CHR 0xAF],
      [CHR 0xE2, CHR 0x81, CHR 0x9F], [CHR 0xE3, CHR 0x80, CHR 0x80]]"

fun trim_prefixes :: "string list \<Rightarrow> string \<Rightarrow> string" where
  "trim_prefixes ws [] = []"
| "trim_prefixes ws (c # cs) =
     (case find (\<lambda>w. w \<noteq> [] \<and> HasPrefix (c # cs) w) ws of
        None \<Rightarrow> c # cs
      | Some w \<Rightarrow> trim_prefixes ws (drop (length w - 1) cs))"

definition TrimSpace :: "string \<Rightarrow> string" where
  "TrimSpace s =
     rev (trim_prefixes (map rev space_encodings) (rev (trim_prefixes space_encodings s)))"

text \<open>\<open>strings.ReplaceAll(s, old, new)\<close> for a one-byte \<open>old\<close>.\<close>

definition ReplaceAll :: "string \<Rightarrow> char \<Rightarrow> string \<Rightarrow> string" where
  "ReplaceAll s old new = concat (map (\<lambda>c. if c = old then new else [c]) s)"

definition TrimPrefix :: "string \<Rightarrow> string \<Rightarrow> string" where
  "TrimPrefix s p = (if HasPrefix s p then drop (length p) s else s)"

fun Join :: "string list \<Rightarrow> string \<Rightarrow> string" where
  "Join [] sep = []"
| "Join [x] sep = x"
| "Join (x # y # ys) sep = x @ sep @ Join (y # ys) sep"

text \<open>Addition of Go's 64-bit \<open>int\<close>: the sum wraps around.\<close>

definition wrap64 :: "int \<Rightarrow> int" where
  "wrap64 i = (i + 2 ^ 63) mod 2 ^ 64 - 2 ^ 63"

section \<open>Profile generation: data\<close>

record ContactPreferences =
  cp_LinkedIn :: string
  cp_PersonalWebsite :: string
  cp_Email :: string
  cp_Twitter :: string
  cp_PreferredOrder :: "string list"

record ContentGenerationRequest =
  req_TargetRole :: string
  req_EmphasizedSkills :: "string list"
  req_ToneOfVoice :: string
  req_ContactPrefs :: ContactPreferences
  req_Projects :: "RepositoryAnalysis list"
  req_UserAPIKey :: string

text \<open>
  \<open>ProfileConfig\<close> and \<open>ProjectSummary\<close> with the fields that \<open>GenerateProfile\<close> sets
  when it builds them; their other fields keep Go's zero value and are read nowhere in the
  service.
\<close>

record ProfileConfig =
  cfg_TargetRole :: string
  cfg_SkillsEmphasis :: "string list"
  cfg_ToneOfVoice :: string
  cfg_ContactPrefs :: ContactPreferences

record Badge =
  b_Name :: string
  b_URL :: string
  b_Color :: string

record ProjectSummary =
  ps_Repository :: "Repository option"
  ps_Summary :: string
  ps_TechStack :: "string list"

record ContentGenerationResponse =
  resp_Markdown :: string
  resp_ExtractedSkills :: "string list"
  resp_SuggestedBadges :: "Badge list"
  resp_Confidence :: real

record ProjectSummaryData =
  psd_ProjectName :: string
  psd_Summary :: string
  psd_Skills :: "string list"

record BatchProfileResponse =
  br_ProfilePitch :: string
  br_ProjectSummaries :: "ProjectSummaryData list"
  br_ExtractedSkills :: "string list"
  br_Confidence :: real

record BatchProfileRequest =
  bq_Username :: string
  bq_Bio :: string
  bq_Location :: string
  bq_Company :: string
  bq_TargetRole :: string
  bq_ToneOfVoice :: string
  bq_EmphasizedSkills :: "string list"
  bq_Projects :: "RepositoryAnalysis list"

text \<open>
  The order in which a \<open>range\<close> statement visits a Go map is not fixed by the language and
  changes from run to run. A run is therefore given by the orders it happens to take: one
  function per key and value type, from the entries of a map to the sequence in which the loop
  sees them. Only functions that return a permutation of their argument are orders of a run.
\<close>

record map_order =
  range_languages :: "(string \<times> int) list \<Rightarrow> (string \<times> int) list"
  range_dependencies :: "(string \<times> string list) list \<Rightarrow> (string \<times> string list) list"
  range_badges :: "(string \<times> Badge) list \<Rightarrow> (string \<times> Badge) list"

definition is_map_order :: "map_order \<Rightarrow> bool" where
  "is_map_order ord \<longleftrightarrow>
     (\<forall>m. mset (range_languages ord m) = mset m)
     \<and> (\<forall>m. mset (range_dependencies ord m) = mset m)
     \<and> (\<forall>m. mset (range_badges ord m) = mset m)"

section \<open>Badges\<close>

definition mk_badge :: "string \<times> string \<Rightarrow> Badge" where
  "mk_badge e = \<lparr>b_Name = fst e, b_URL = [], b_Color = snd e\<rparr>"

definition badge_entries :: "Badge list" where
  \<open>badge_entries = map mk_badge
     [(''Go'', ''00ADD8''), (''Python'', ''3776AB''), (''JavaScript'', ''F7DF1E''),
      (''TypeScript'', ''3178C6''), (''Rust'', ''000000''), (''Java'', ''ED8B00''),
      (''Kotlin'', ''7F52FF''), (''Swift'', ''FA7343''), (''C++'', ''00599C''),
      (''C'', ''A8B9CC''), (''C#'', ''239120''), (''PHP'', ''777BB4''),
      (''Ruby'', ''CC342D''), (''Dart'', ''0175C2''), (''Scala'', ''DC322F''),
      (''Elixir'', ''4B275F''), (''Haskell'', ''5D4F85''), (''Lua'', ''2C2D72''),
      (''Shell'', ''4EAA25''), (''HTML5'', ''E34F26''), (''CSS3'', ''1572B6''),
      (''React'', ''61DAFB''), (''Vue.js'', ''4FC08D''), (''Angular'', ''DD0031''),
      (''Svelte'', ''FF3E00''), (''Next.js'', ''000000''), (''Nuxt.js'', ''00DC82''),
      (''Gatsby'', ''663399''), (''Remix'', ''000000''), (''Astro'', ''FF5D01''),
      (''TailwindCSS'', ''06B6D4''), (''Vite'', ''646CFF''), (''Node.js'', ''339933''),
      (''Express.js'', ''000000''), (''Fastify'', ''000000''), (''NestJS'', ''E0234E''),
      (''Django'', ''092E20''), (''Flask'', ''000000''), (''FastAPI'', ''009688''),
      (''Spring Boot'', ''6DB33F''), (''Laravel'', ''FF2D20''),
      (''Ruby on Rails'', ''CC0000''), (''Fiber'', ''00ADD8''), (''Gin'', ''00ADD8''),
      (''Echo'', ''00ADD8''), (''Flutter'', ''02569B''), (''React Native'', ''61DAFB''),
      (''PostgreSQL'', ''316192''), (''MySQL'', ''00000F''), (''MongoDB'', ''47A248''),
      (''Redis'', ''DC382D''), (''SQLite'', ''07405E''), (''Cassandra'', ''1287B1''),
      (''Elasticsearch'', ''005571''), (''Supabase'', ''3ECF8E''),
      (''Firebase'', ''FFCA28''), (''Neon'', ''00E699''), (''Prisma'', ''2D3748''),
      (''Drizzle'', ''C5F74F''), (''Docker'', ''2496ED''), (''Kubernetes'', ''326CE5''),
      (''Terraform'', ''7B42BC''), (''Ansible'', ''EE0000''), (''AWS'', ''FF9900''),
      (''GCP'', ''4285F4''), (''Azure'', ''0078D4''), (''Vercel'', ''000000''),
      (''Netlify'', ''00C7B7''), (''Heroku'', ''430098''), (''Nginx'', ''009639''),
      (''Git'', ''F05032''), (''GraphQL'', ''E10098''), (''gRPC'', ''244C5A''),
      (''Apache Kafka'', ''231F20''), (''RabbitMQ'', ''FF6600''),
      (''Prometheus'', ''E6522C''), (''Grafana'', ''F46800''), (''Linux'', ''FCC624''),
      (''OpenAI'', ''412991'')]\<close>

definition badge_aliases :: "(string \<times> string) list" where
  \<open>badge_aliases =
     [(''golang'', ''Go''), (''js'', ''JavaScript''), (''ts'', ''TypeScript''),
      (''cpp'', ''C++''), (''csharp'', ''C#''), (''html'', ''HTML5''), (''css'', ''CSS3''),
      (''vue'', ''Vue.js''), (''next'', ''Next.js''), (''nextjs'', ''Next.js''),
      (''nuxt'', ''Nuxt.js''), (''express'', ''Express.js''), (''nestjs'', ''NestJS''),
      (''@nestjs/core'', ''NestJS''), (''spring'', ''Spring Boot''),
      (''spring-boot'', ''Spring Boot''), (''rails'', ''Ruby on Rails''),
      (''k8s'', ''Kubernetes''), (''postgres'', ''PostgreSQL''), (''node'', ''Node.js''),
      (''tailwind'', ''TailwindCSS''), (''react-native'', ''React Native''),
      (''kafka'', ''Apache Kafka''), (''grpc'', ''gRPC''), (''bash'', ''Shell'')]\<close>

text \<open>
  \<open>buildBadgeCatalog\<close>. The assignments to the lookup map \<open>m\<close> in program order: every
  entry under its lower-cased name, then every alias whose canonical name is an entry (the alias
  keys are distinct, so the order in which the source ranges over its alias map does not
  matter). A later assignment to a key replaces an earlier one, so the map reads the reversed
  list.
\<close>

definition catalog_byName :: "case_table \<Rightarrow> (string \<times> Badge) list" where
  "catalog_byName lc = map (\<lambda>e. (ToLower lc (b_Name e), e)) badge_entries"

definition catalog_assignments :: "case_table \<Rightarrow> (string \<times> Badge) list" where
  "catalog_assignments lc =
     catalog_byName lc
     @ concat (map (\<lambda>(alias, canonical).
                      case map_of (rev (catalog_byName lc)) (ToLower lc canonical) of
                        Some b \<Rightarrow> [(ToLower lc alias, b)]
                      | None \<Rightarrow> [])
                 badge_aliases)"

definition buildBadgeCatalog :: "case_table \<Rightarrow> string \<rightharpoonup> Badge" where
  "buildBadgeCatalog lc = map_of (rev (catalog_assignments lc))"

text \<open>The closure \<open>add\<close>; \<open>badgeMap\<close> keeps its entries in the order they were put in.\<close>

definition add_badge ::
  "case_table \<Rightarrow> (string \<times> Badge) list \<Rightarrow> string \<Rightarrow> (string \<times> Badge) list" where
  "add_badge lc badgeMap key =
     (case buildBadgeCatalog lc (ToLower lc key) of
        Some badge \<Rightarrow>
          if map_of badgeMap (b_Name badge) = None then badgeMap @ [(b_Name badge, badge)]
          else badgeMap
      | None \<Rightarrow> badgeMap)"

text \<open>A dependency name as the third loop normalises it: \<open>@angular/core\<close> gives \<open>angular\<close>.\<close>

definition dependency_key :: "case_table \<Rightarrow> string \<Rightarrow> string" where
  "dependency_key lc dep =
     (let key = ToLower lc dep
      in if HasPrefix key ''@'' then takeWhile (\<lambda>c. c \<noteq> CHR ''/'') (drop 1 key) else key)"

definition buildBadgesFromProjectData ::
  "case_table \<Rightarrow> map_order \<Rightarrow> RepositoryAnalysis list \<Rightarrow> string list \<Rightarrow> string list
     \<Rightarrow> Badge list" where
  "buildBadgesFromProjectData lc ord projects llmSkills emphasizedSkills =
     (let m1 = foldl (add_badge lc) [] emphasizedSkills;
          m2 = foldl (\<lambda>m p. foldl (\<lambda>m' (lang, b). add_badge lc m' lang) m
                              (range_languages ord (ra_Languages p)))
                 m1 projects;
          m3 = foldl (\<lambda>m p. foldl (\<lambda>m' (k, deps).
                                       foldl (\<lambda>m'' dep. add_badge lc m'' (dependency_key lc dep))
                                         m' deps)
                              m (range_dependencies ord (ra_Dependencies p)))
                 m2 projects;
          m4 = foldl (add_badge lc) m3 llmSkills
      in map snd (range_badges ord m4))"

definition logo_special :: "(string \<times> string) list" where
  \<open>logo_special =
     [(''C++'', ''cplusplus''), (''C#'', ''csharp''), (''Vue.js'', ''vuedotjs''),
      (''Next.js'', ''nextdotjs''), (''Nuxt.js'', ''nuxtdotjs''),
      (''Express.js'', ''express''), (''Node.js'', ''nodedotjs''),
      (''Ruby on Rails'', ''rubyonrails''), (''React Native'', ''react''),
      (''Spring Boot'', ''springboot''), (''Apache Kafka'', ''apachekafka''),
      (''TailwindCSS'', ''tailwindcss''), (''HTML5'', ''html5''), (''CSS3'', ''css3''),
      (''gRPC'', ''grpc''), (''GCP'', ''googlecloud''), (''AWS'', ''amazonaws''),
      (''Drizzle'', ''drizzle''), (''Neon'', ''neon''), (''Vite'', ''vite''),
      (''Astro'', ''astro''), (''Gatsby'', ''gatsby''), (''OpenAI'', ''openai''),
      (''Prometheus'', ''prometheus''), (''Grafana'', ''grafana''),
      (''Elasticsearch'', ''elasticsearch''), (''Supabase'', ''supabase''),
      (''Firebase'', ''firebase''), (''Prisma'', ''prisma'')]\<close>

definition toLogoSlug :: "case_table \<Rightarrow> string \<Rightarrow> string" where
  "toLogoSlug lc name =
     (case map_of logo_special name of
        Some slug \<Rightarrow> slug
      | None \<Rightarrow>
          ReplaceAll
            (ReplaceAll (ReplaceAll (ReplaceAll (ToLower lc name) (CHR '' '') []) (CHR ''.'') [])
               (CHR ''+'') ''plus'')
            (CHR ''#'') ''sharp'')"

definition langSet :: "string list" where
  \<open>langSet =
     [''Go'', ''Python'', ''JavaScript'', ''TypeScript'', ''Rust'', ''Java'', ''Kotlin'',
      ''Swift'', ''C++'', ''C'', ''C#'', ''PHP'', ''Ruby'', ''Dart'', ''Scala'',
      ''Elixir'', ''Haskell'', ''Lua'', ''Shell'', ''HTML5'', ''CSS3'']\<close>

definition frameworkSet :: "string list" where
  \<open>frameworkSet =
     [''React'', ''Vue.js'', ''Angular'', ''Svelte'', ''Next.js'', ''Nuxt.js'', ''Gatsby'',
      ''Remix'', ''Astro'', ''TailwindCSS'', ''Vite'', ''Node.js'', ''Express.js'',
      ''Fastify'', ''NestJS'', ''Django'', ''Flask'', ''FastAPI'', ''Spring Boot'',
      ''Laravel'', ''Ruby on Rails'', ''Fiber'', ''Gin'', ''Echo'', ''Flutter'',
      ''React Native'']\<close>

definition dbSet :: "string list" where
  \<open>dbSet =
     [''PostgreSQL'', ''MySQL'', ''MongoDB'', ''Redis'', ''SQLite'', ''Cassandra'',
      ''Elasticsearch'', ''Supabase'', ''Firebase'', ''Neon'', ''Prisma'', ''Drizzle'']\<close>

definition badge_category :: "Badge \<Rightarrow> string" where
  "badge_category b =
     (if b_Name b \<in> set langSet then ''Languages''
      else if b_Name b \<in> set frameworkSet then ''Frameworks & Libraries''
      else if b_Name b \<in> set dbSet then ''Databases''
      else ''Tools & Platforms'')"

text \<open>\<open>organizeBadgesByCategory\<close>: the four buckets in the order of the badges, empty ones dropped.\<close>

definition organizeBadgesByCategory :: "Badge list \<Rightarrow> string \<rightharpoonup> Badge list" where
  "organizeBadgesByCategory badges =
     map_of (filter (\<lambda>kv. snd kv \<noteq> [])
       (map (\<lambda>cat. (cat, filter (\<lambda>b. badge_category b = cat) badges))
          [''Languages'', ''Frameworks & Libraries'', ''Databases'', ''Tools & Platforms'']))"

section \<open>Aggregates over the projects\<close>

definition totals_add :: "(string \<times> int) list \<Rightarrow> string \<Rightarrow> int \<Rightarrow> (string \<times> int) list" where
  "totals_add totals lang b =
     (case map_of totals lang of
        None \<Rightarrow> totals @ [(lang, wrap64 b)]
      | Some v \<Rightarrow> map (\<lambda>kv. if fst kv = lang then (lang, wrap64 (v + b)) else kv) totals)"

text \<open>
  \<open>sort.Slice\<close> with \<open>bytes[i] > bytes[j]\<close>: descending by bytes. The library does not fix
  the order of equal elements; here they keep the order of the slice handed in, which is the
  order the preceding \<open>range\<close> over \<open>totals\<close> took, so every sorted result is covered by some
  map order.
\<close>

fun insert_desc :: "string \<times> int \<Rightarrow> (string \<times> int) list \<Rightarrow> (string \<times> int) list" where
  "insert_desc x [] = [x]"
| "insert_desc x (y # ys) = (if snd x > snd y then x # y # ys else y # insert_desc x ys)"

definition sort_desc :: "(string \<times> int) list \<Rightarrow> (string \<times> int) list" where
  "sort_desc xs = foldl (\<lambda>acc x. insert_desc x acc) [] xs"

definition collectTopLanguages :: "map_order \<Rightarrow> RepositoryAnalysis list \<Rightarrow> nat \<Rightarrow> string list" where
  "collectTopLanguages ord projects n =
     (let totals = foldl (\<lambda>t p. foldl (\<lambda>t' (lang, b). totals_add t' lang b) t
                                  (range_languages ord (ra_Languages p)))
                     [] projects;
          sorted = sort_desc (range_languages ord totals)
      in take n (map fst sorted))"

definition collectAllTopics :: "RepositoryAnalysis list \<Rightarrow> string list" where
  "collectAllTopics projects =
     foldl (\<lambda>topics p.
              case ra_Repository p of
                None \<Rightarrow> topics
              | Some r \<Rightarrow>
                  foldl (\<lambda>ts t. if t \<in> set ts then ts else ts @ [t]) topics (repo_Topics r))
       [] projects"

definition portfolioURL :: "ProfileConfig \<Rightarrow> User \<Rightarrow> string" where
  "portfolioURL config user =
     (if cp_PersonalWebsite (cfg_ContactPrefs config) \<noteq> []
      then cp_PersonalWebsite (cfg_ContactPrefs config)
      else usr_Blog user)"

definition encode :: "string \<Rightarrow> string" where
  "encode s = ReplaceAll (TrimSpace s) (CHR '' '') ''+''"

definition buildTypingLines :: "ProfileConfig \<Rightarrow> string list \<Rightarrow> string list \<Rightarrow> string list" where
  "buildTypingLines config topLangs topics =
     (let lines1 = (if cfg_TargetRole config \<noteq> [] then [encode (cfg_TargetRole config)] else []);
          lines2 = lines1 @
            (case topLangs of
               [] \<Rightarrow> []
             | [l] \<Rightarrow> [l @ ''+Developer'']
             | l0 # l1 # rest \<Rightarrow> [encode l0 @ '' & '' @ encode l1 @ '' Developer'']);
          lines3 = lines2 @
            (case cfg_SkillsEmphasis config of
               [] \<Rightarrow> []
             | skill # rest \<Rightarrow> [''Expert+in+'' @ encode skill]);
          lines4 = foldl (\<lambda>ls t. if length ls \<ge> 5 then ls else ls @ [encode t]) lines3 topics
      in if lines4 = [] then [''Software+Developer''] else lines4)"

section \<open>The Markdown builder\<close>

text \<open>
  \<open>buildMarkdown\<close> writes eight blocks into one \<open>strings.Builder\<close>; each block is a
  function here and \<open>buildMarkdown\<close> is their concatenation in the order of the source.
\<close>

definition separator :: string where
  \<open>separator = '' &nbsp;'' @ [CHR 0xC2, CHR 0xB7] @ ''&nbsp; ''\<close>

definition hero_block :: "User \<Rightarrow> ProfileConfig \<Rightarrow> string list \<Rightarrow> string list \<Rightarrow> string" where
  \<open>hero_block user config topLangs allTopics =
     (let username = usr_Username user;
          meta =
            (if usr_Location user \<noteq> [] then [[CHR 0xF0, CHR 0x9F, CHR 0x93, CHR 0x8D] @ '' '' @ usr_Location user] else [])
            @ (if usr_Company user \<noteq> []
               then (let c = usr_Company user
                     in if HasPrefix c ''@''
                        then [[CHR 0xF0, CHR 0x9F, CHR 0x8F, CHR 0xA2] @ '' ['' @ c @ ''](https://github.com/'' @ TrimPrefix c ''@'' @ '')'']
                        else [[CHR 0xF0, CHR 0x9F, CHR 0x8F, CHR 0xA2] @ '' '' @ c])
               else []);
          typingLines = buildTypingLines config topLangs allTopics
      in ''<div align="center">\<newline>\<newline>''
         @ (if usr_AvatarURL user \<noteq> []
            then ''<img src="'' @ usr_AvatarURL user @ ''" width="120" height="120" style="border-radius:50%" alt="@'' @ username @ ''" />\<newline>\<newline>''
            else [])
         @ ''# Hi, I'' @ [CHR 0x27] @ ''m @'' @ username @ '' <img src="https://raw.githubusercontent.com/MartinHeinz/MartinHeinz/master/wave.gif" width="28px" />\<newline>\<newline>''
         @ (if usr_Bio user \<noteq> [] then ''**'' @ usr_Bio user @ ''**\<newline>\<newline>'' else [])
         @ (if meta \<noteq> [] then Join meta separator @ ''\<newline>\<newline>'' else [])
         @ ''[![Typing SVG](https://readme-typing-svg.demolab.com?font=Fira+Code&size=22&duration=3000&pause=1000&color=2E97F7&center=true&vCenter=true&width=650&height=80&lines='' @ Join typingLines '';'' @ '')](https://git.io/typing-svg)\<newline>\<newline>''
         @ ''![Profile Views](https://komarev.com/ghpvc/?username='' @ username @ ''&label=Profile%20Views&color=0e75b6&style=flat)\<newline>''
         @ ''[![Followers](https://img.shields.io/github/followers/'' @ username @ ''?label=Followers&style=social)](https://github.com/'' @ username @ ''?tab=followers)\<newline>''
         @ ''[![Stars](https://img.shields.io/github/stars/'' @ username @ ''?label=Stars&style=social)](https://github.com/'' @ username @ '')\<newline>\<newline>''
         @ ''</div>\<newline>\<newline>'')\<close>

definition about_block ::
  "ProfileConfig \<Rightarrow> string \<Rightarrow> ProjectSummary list \<Rightarrow> string list \<Rightarrow> string \<Rightarrow> string" where
  \<open>about_block config pitch summaries topLangs contactEmail =
     (let names = concat (map (\<lambda>summary. case ps_Repository summary of
                                        None \<Rightarrow> []
                                      | Some r \<Rightarrow> [''['' @ repo_Name r @ '']('' @ repo_HTMLURL r @ '')''])
                           (take (min 2 (length summaries)) summaries))
      in ''## '' @ [CHR 0xF0, CHR 0x9F, CHR 0x91, CHR 0xA8, CHR 0xE2, CHR 0x80, CHR 0x8D, CHR 0xF0, CHR 0x9F, CHR 0x92, CHR 0xBB] @ '' About Me\<newline>\<newline>''
         @ pitch
         @ ''\<newline>\<newline>''
         @ (if cfg_TargetRole config \<noteq> []
            then ''- '' @ [CHR 0xF0, CHR 0x9F, CHR 0x8E, CHR 0xAF] @ '' Growing as a **'' @ cfg_TargetRole config @ ''**\<newline>'' else [])
         @ (if length summaries > 0 \<and> length names > 0
            then ''- '' @ [CHR 0xF0, CHR 0x9F, CHR 0x94, CHR 0xAD] @ '' Currently building **'' @ Join names '' & '' @ ''**\<newline>'' else [])
         @ (if length (cfg_SkillsEmphasis config) > 0
            then ''- '' @ [CHR 0xF0, CHR 0x9F, CHR 0x8C, CHR 0xB1] @ '' Deepening expertise in **'' @ Join (take (min 2 (length (cfg_SkillsEmphasis config))) (cfg_SkillsEmphasis config)) '' & '' @ ''**\<newline>''
            else (case topLangs of
                    [] \<Rightarrow> []
                  | l # rest \<Rightarrow> ''- '' @ [CHR 0xF0, CHR 0x9F, CHR 0x8C, CHR 0xB1] @ '' Deepening expertise in **'' @ l @ ''**\<newline>''))
         @ (if length topLangs > 0
            then ''- '' @ [CHR 0xF0, CHR 0x9F, CHR 0x92, CHR 0xAC] @ '' Ask me about **'' @ Join (take (min 3 (length topLangs)) topLangs) '', '' @ ''**\<newline>''
            else [])
         @ (if contactEmail \<noteq> []
            then ''- '' @ [CHR 0xF0, CHR 0x9F, CHR 0x93, CHR 0xAB] @ '' Reach me at **'' @ contactEmail @ ''**\<newline>'' else [])
         @ ''\<newline>'')\<close>

definition connect_block :: "ProfileConfig \<Rightarrow> string \<Rightarrow> string \<Rightarrow> string \<Rightarrow> string" where
  \<open>connect_block config contactEmail siteURL username =
     ''## '' @ [CHR 0xF0, CHR 0x9F, CHR 0x8C, CHR 0x90] @ '' Connect\<newline>\<newline>''
     @ ''<div align="center">\<newline>\<newline>''
     @ (if cp_LinkedIn (cfg_ContactPrefs config) \<noteq> []
        then ''[![LinkedIn](https://img.shields.io/badge/LinkedIn-0077B5?style=for-the-badge&logo=linkedin&logoColor=white)]('' @ cp_LinkedIn (cfg_ContactPrefs config) @ '')\<newline>''
        else [])
     @ (if cp_Twitter (cfg_ContactPrefs config) \<noteq> []
        then ''[![Twitter/X](https://img.shields.io/badge/Twitter-000000?style=for-the-badge&logo=x&logoColor=white)]('' @ cp_Twitter (cfg_ContactPrefs config) @ '')\<newline>''
        else [])
     @ (if contactEmail \<noteq> []
        then ''[![Email](https://img.shields.io/badge/Email-D14836?style=for-the-badge&logo=gmail&logoColor=white)](mailto:'' @ contactEmail @ '')\<newline>''
        else [])
     @ (if siteURL \<noteq> []
        then ''[![Website](https://img.shields.io/badge/Website-FF5722?style=for-the-badge&logo=googlechrome&logoColor=white)]('' @ siteURL @ '')\<newline>''
        else [])
     @ ''[![GitHub](https://img.shields.io/badge/GitHub-100000?style=for-the-badge&logo=github&logoColor=white)](https://github.com/'' @ username @ '')\<newline>\<newline>''
     @ ''</div>\<newline>\<newline>''\<close>

definition badge_image :: "case_table \<Rightarrow> Badge \<Rightarrow> string" where
  \<open>badge_image lc b =
     ''!['' @ b_Name b @ ''](https://img.shields.io/badge/'' @ ReplaceAll (b_Name b) (CHR '' '') ''%20'' @ ''-'' @ b_Color b @ ''?style=flat-square&logo='' @ toLogoSlug lc (b_Name b) @ ''&logoColor=white) ''\<close>

definition tech_stack_block :: "case_table \<Rightarrow> Badge list \<Rightarrow> string" where
  \<open>tech_stack_block lc badges =
     (if length badges > 0
      then (let categories = organizeBadgesByCategory badges
            in ''## '' @ [CHR 0xF0, CHR 0x9F, CHR 0x9B, CHR 0xA0, CHR 0xEF, CHR 0xB8, CHR 0x8F] @ '' Tech Stack\<newline>\<newline>''
               @ ''<div align="center">\<newline>\<newline>''
               @ concat (map (\<lambda>cat. case categories cat of
                                        None \<Rightarrow> []
                                      | Some catBadges \<Rightarrow>
                                          if length catBadges = 0 then []
                                          else ''**'' @ cat @ ''**\<newline>\<newline>''
                                               @ concat (map (badge_image lc) catBadges)
                                               @ ''\<newline>\<newline>'')
                           [''Languages'', ''Frameworks & Libraries'', ''Databases'',
                            ''Tools & Platforms''])
               @ ''</div>\<newline>\<newline>'')
      else [])\<close>

definition stats_block :: "string \<Rightarrow> string" where
  \<open>stats_block username =
     ''## '' @ [CHR 0xF0, CHR 0x9F, CHR 0x93, CHR 0x8A] @ '' GitHub Stats\<newline>\<newline>''
     @ ''<div align="center">\<newline>\<newline>''
     @ ''!['' @ username @ [CHR 0x27] @ ''s stats](https://github-readme-stats.vercel.app/api?username='' @ username @ ''&show_icons=true&count_private=true&theme=tokyonight&hide_border=true)\<newline>''
     @ ''![Top langs](https://github-readme-stats.vercel.app/api/top-langs/?username='' @ username @ ''&layout=compact&theme=tokyonight&hide_border=true)\<newline>\<newline>''
     @ ''![Streak](https://streak-stats.demolab.com?user='' @ username @ ''&theme=tokyonight&hide_border=true)\<newline>\<newline>''
     @ ''[![Trophies](https://github-profile-trophy.vercel.app/?username='' @ username @ ''&theme=tokyonight&no-frame=true&margin-w=4)](https://github.com/ryo-ma/github-profile-trophy)\<newline>\<newline>''
     @ ''</div>\<newline>\<newline>''\<close>

text \<open>One pass of the loop over \<open>summaries\<close> (\<open>n\<close> of them): index \<open>i\<close>, element \<open>summary\<close>.\<close>

definition featured_project ::
  "map_order \<Rightarrow> string \<Rightarrow> ContentGenerationRequest \<Rightarrow> nat \<Rightarrow> nat \<Rightarrow> ProjectSummary \<Rightarrow> string" where
  \<open>featured_project ord username req n i summary =
     (case ps_Repository summary of
        None \<Rightarrow> []
      | Some repo \<Rightarrow>
          (let owner = (if CHR ''/'' \<in> set (repo_FullName repo)
                        then (case Split (repo_FullName repo) (CHR ''/'') of
                                [] \<Rightarrow> username
                              | p # ps \<Rightarrow> p)
                        else username);
               stats =
                 (if repo_StargazersCount repo > 0
                  then [[CHR 0xE2, CHR 0xAD, CHR 0x90] @ '' '' @ itoa (repo_StargazersCount repo) @ '' stars''] else [])
                 @ (if repo_ForksCount repo > 0
                    then [[CHR 0xF0, CHR 0x9F, CHR 0x8D, CHR 0xB4] @ '' '' @ itoa (repo_ForksCount repo) @ '' forks''] else [])
                 @ (if i < length (req_Projects req)
                    then (let analysis = req_Projects req ! i;
                              topProjLangs = collectTopLanguages ord [analysis] 3
                          in (if ra_CommitCount analysis > 0
                              then [[CHR 0xF0, CHR 0x9F, CHR 0x93, CHR 0x9D] @ '' '' @ itoa (ra_CommitCount analysis) @ '' commits''] else [])
                             @ (if ra_ContributorCount analysis > 0
                                then [[CHR 0xF0, CHR 0x9F, CHR 0x91, CHR 0xA5] @ '' '' @ itoa (ra_ContributorCount analysis) @ '' contributors'']
                                else [])
                             @ (if length topProjLangs > 0
                                then [[CHR 0xF0, CHR 0x9F, CHR 0x94, CHR 0xA4] @ '' '' @ Join topProjLangs '' / ''] else []))
                    else [])
                 @ (if length (repo_Topics repo) > 0
                    then [[CHR 0xF0, CHR 0x9F, CHR 0x8F, CHR 0xB7, CHR 0xEF, CHR 0xB8, CHR 0x8F] @ '' ''
                          @ Join (take (min 5 (length (repo_Topics repo))) (repo_Topics repo)) '', '']
                    else [])
           in ''### ['' @ repo_Name repo @ '']('' @ repo_HTMLURL repo @ '')\<newline>\<newline>''
              @ (if repo_Description repo \<noteq> []
                 then ''> '' @ repo_Description repo @ ''\<newline>\<newline>'' else [])
              @ ''[![Repo Card](https://github-readme-stats.vercel.app/api/pin/?username='' @ owner @ ''&repo='' @ repo_Name repo @ ''&theme=tokyonight&hide_border=true)]('' @ repo_HTMLURL repo @ '')\<newline>\<newline>''
              @ (if ps_Summary summary \<noteq> [] then ps_Summary summary @ ''\<newline>\<newline>'' else [])
              @ (if length (ps_TechStack summary) > 0
                 then ''**Tech:** ''
                      @ concat (map (\<lambda>tech. ''`'' @ tech @ ''` '') (ps_TechStack summary))
                      @ ''\<newline>\<newline>''
                 else [])
              @ (if length stats > 0 then Join stats separator @ ''\<newline>\<newline>'' else [])
              @ (if int i < int n - 1 then ''---\<newline>\<newline>'' else [])))\<close>

definition featured_block ::
  "map_order \<Rightarrow> string \<Rightarrow> ContentGenerationRequest \<Rightarrow> ProjectSummary list \<Rightarrow> string" where
  \<open>featured_block ord username req summaries =
     (if length summaries > 0
      then ''## '' @ [CHR 0xF0, CHR 0x9F, CHR 0x9A, CHR 0x80] @ '' Featured Projects\<newline>\<newline>''
           @ concat (map (\<lambda>(i, summary). featured_project ord username req (length summaries) i summary)
                       (zip [0..<length summaries] summaries))
      else [])\<close>

definition activity_block :: "string \<Rightarrow> string" where
  \<open>activity_block username =
     ''## '' @ [CHR 0xF0, CHR 0x9F, CHR 0x93, CHR 0x88] @ '' Contribution Activity\<newline>\<newline>''
     @ ''<div align="center">\<newline>\<newline>''
     @ ''[![Activity Graph](https://github-readme-activity-graph.vercel.app/graph?username='' @ username @ ''&theme=tokyo-night&hide_border=true)](https://github.com/ashutosh00710/github-readme-activity-graph)\<newline>\<newline>''
     @ ''</div>\<newline>\<newline>''\<close>

definition footer_block :: "string \<Rightarrow> string" where
  \<open>footer_block username =
     ''---\<newline>\<newline>''
     @ ''<div align="center">\<newline>\<newline>''
     @ ''*Generated with [GitRight](https://github.com/'' @ username @ '') '' @ [CHR 0xC2, CHR 0xB7] @ '' ![](https://komarev.com/ghpvc/?username='' @ username @ ''&style=flat-square)*\<newline>\<newline>''
     @ ''</div>\<newline>''\<close>

definition buildMarkdown ::
  "case_table \<Rightarrow> map_order \<Rightarrow> User \<Rightarrow> ContentGenerationRequest \<Rightarrow> string
     \<Rightarrow> ProjectSummary list \<Rightarrow> Badge list \<Rightarrow> ProfileConfig \<Rightarrow> string" where
  "buildMarkdown lc ord user req pitch summaries badges config =
     (let username = usr_Username user;
          topLangs = collectTopLanguages ord (req_Projects req) 5;
          allTopics = collectAllTopics (req_Projects req);
          siteURL = portfolioURL config user;
          contactEmail = (if cp_Email (cfg_ContactPrefs config) = [] then usr_Email user
                          else cp_Email (cfg_ContactPrefs config))
      in hero_block user config topLangs allTopics
         @ about_block config pitch summaries topLangs contactEmail
         @ connect_block config contactEmail siteURL username
         @ tech_stack_block lc badges
         @ stats_block username
         @ featured_block ord username req summaries
         @ activity_block username
         @ footer_block username)"

section \<open>Profile cache and \<open>GenerateProfile\<close>\<close>

text \<open>
  Table \<open>generated_profiles\<close>, keyed by \<open>cache_key\<close>, with the columns the cache reads
  and writes. The hit counters that \<open>Get\<close> updates in the background are not part of the row.
\<close>

record profile_row =
  pr_user_id :: int
  pr_config_id :: int
  pr_content :: string
  pr_markdown_preview :: string
  pr_expires_at :: time

text \<open>
  The schema declares \<open>config_id BIGINT NOT NULL REFERENCES profile_configs(id)\<close>, so the
  state holds the ids of table \<open>profile_configs\<close> next to the rows of
  \<open>generated_profiles\<close>. No statement of the program writes \<open>profile_configs\<close>, and its
  \<open>BIGSERIAL\<close> ids start at 1. The state also carries the lines written through \<open>slog\<close>.
\<close>

record profile_state =
  generated_profiles :: "string \<rightharpoonup> profile_row"
  profile_configs :: "int set"
  profile_log :: "string list"

text \<open>
  The collaborators of the profile service: the clock; the faults of the store (any error the
  driver returns for a statement other than the violation of the reference to
  \<open>profile_configs\<close>, which the state decides); the creation of the LLM client for an API
  key (\<open>NewGeminiClient\<close>); the LLM call proper, that is the request sent with the prompts
  built from the batch request, the extraction of the JSON text from the answer and its
  decoding (an error of one of the three as \<open>GenerateBatchedProfile\<close> returns it, or the
  decoded response); \<open>encoding/json\<close> on responses (\<open>None\<close> from the decoder is a decoding
  error); the case tables of package \<open>unicode\<close>; and the map orders of the run.
\<close>

record profile_env =
  pe_now :: time
  pe_db_fault :: "db_op \<Rightarrow> error option"
  pe_NewGeminiClient :: "string \<Rightarrow> error option"
  pe_generate :: "string \<Rightarrow> BatchProfileRequest \<Rightarrow> error + BatchProfileResponse"
  pe_marshal_response :: "ContentGenerationResponse \<Rightarrow> error + string"
  pe_unmarshal_response :: "string \<Rightarrow> ContentGenerationResponse option"
  pe_LowerCase :: case_table
  pe_map_order :: map_order

definition GetCacheKey :: "string \<Rightarrow> string \<Rightarrow> string \<Rightarrow> nat \<Rightarrow> string" where
  "GetCacheKey username targetRole toneOfVoice projectCount =
     ''profile:v3:'' @ username @ '':'' @ targetRole @ '':'' @ toneOfVoice @ '':''
       @ itoa (int projectCount)"

definition profile_cache_Get ::
  "profile_env \<Rightarrow> profile_state \<Rightarrow> string \<Rightarrow> error + ContentGenerationResponse option" where
  "profile_cache_Get E s cacheKey =
     (case pe_db_fault E ProfileCacheGetQ of
        Some e \<Rightarrow> Inl (Wrap ''failed to get cached profile'' e)
      | None \<Rightarrow>
          (case generated_profiles s cacheKey of
             None \<Rightarrow> Inr None
           | Some row \<Rightarrow>
               if pr_expires_at row > pe_now E then Inr (pe_unmarshal_response E (pr_content row))
               else Inr None))"

text \<open>
  \<open>Set\<close>: \<open>INSERT ... ON CONFLICT (cache_key) DO UPDATE\<close>. A row with the key is updated in
  place. Without one the new row is inserted, and the store rejects it when its \<open>config_id\<close>
  is not the id of a row of \<open>profile_configs\<close>.
\<close>

definition profile_cache_Set ::
  "profile_env \<Rightarrow> profile_state \<Rightarrow> int \<Rightarrow> int \<Rightarrow> string \<Rightarrow> ContentGenerationResponse \<Rightarrow> int
     \<Rightarrow> error option \<times> profile_state" where
  \<open>profile_cache_Set E s userID configID cacheKey response ttl =
     (case pe_marshal_response E response of
        Inl e \<Rightarrow> (Some (Wrap ''failed to marshal response'' e), s)
      | Inr contentJSON \<Rightarrow>
          (case pe_db_fault E ProfileCacheSetQ of
             Some e \<Rightarrow> (Some (Wrap ''failed to set cached profile'' e), s)
           | None \<Rightarrow>
               (case generated_profiles s cacheKey of
                  Some row \<Rightarrow>
                    (None, s\<lparr>generated_profiles :=
                       (generated_profiles s)(cacheKey \<mapsto>
                          row\<lparr>pr_content := contentJSON,
                              pr_markdown_preview := resp_Markdown response,
                              pr_expires_at := pe_now E + ttl\<rparr>)\<rparr>)
                | None \<Rightarrow>
                    if configID \<in> profile_configs s
                    then (None, s\<lparr>generated_profiles :=
                            (generated_profiles s)(cacheKey \<mapsto>
                               \<lparr>pr_user_id = userID, pr_config_id = configID,
                                pr_content = contentJSON,
                                pr_markdown_preview = resp_Markdown response,
                                pr_expires_at = pe_now E + ttl\<rparr>)\<rparr>)
                    else (Some (Wrap ''failed to set cached profile''
                                  (Upstream ''insert or update on table "generated_profiles" violates foreign key constraint "generated_profiles_config_id_fkey"'')),
                          s))))\<close>

text \<open>
  \<open>GenerateBatchedProfile\<close> of the content generator. After the client is created,
  \<open>buildBatchedUserPrompt\<close> reads \<open>project.Repository.Name\<close> of every project, so a project
  whose \<open>Repository\<close> is nil makes it panic before the request is sent. A decoded response
  without a pitch or without project summaries is an error.
\<close>

definition GenerateBatchedProfile ::
  "profile_env \<Rightarrow> string \<Rightarrow> BatchProfileRequest \<Rightarrow> error + BatchProfileResponse" where
  "GenerateBatchedProfile E apiKey req =
     (case pe_NewGeminiClient E apiKey of
        Some e \<Rightarrow> Inl (Wrap ''failed to create client'' e)
      | None \<Rightarrow>
          if None \<in> set (map ra_Repository (bq_Projects req))
          then Inl (Panic ''runtime error: invalid memory address or nil pointer dereference'')
          else
            (case pe_generate E apiKey req of
               Inl e \<Rightarrow> Inl e
             | Inr response \<Rightarrow>
                 if br_ProfilePitch response = []
                 then Inl (Errorf ''missing profile_pitch in response'')
                 else if length (br_ProjectSummaries response) = 0
                 then Inl (Errorf ''missing project_summaries in response'')
                 else Inr response))"

text \<open>The \<open>llm.BatchProfileRequest\<close> that \<open>GenerateProfile\<close> builds.\<close>

definition batch_request :: "User \<Rightarrow> ContentGenerationRequest \<Rightarrow> BatchProfileRequest" where
  "batch_request user req =
     \<lparr>bq_Username = usr_Username user, bq_Bio = usr_Bio user,
      bq_Location = usr_Location user, bq_Company = usr_Company user,
      bq_TargetRole = req_TargetRole req, bq_ToneOfVoice = req_ToneOfVoice req,
      bq_EmphasizedSkills = req_EmphasizedSkills req,
      bq_Projects = req_Projects req\<rparr>"

text \<open>
  The part of \<open>GenerateProfile\<close> between the LLM call and the cache write: summaries, config,
  badges, Markdown and the response assembled from them.
\<close>

definition assemble_response ::
  "case_table \<Rightarrow> map_order \<Rightarrow> User \<Rightarrow> ContentGenerationRequest \<Rightarrow> BatchProfileResponse
     \<Rightarrow> ContentGenerationResponse" where
  "assemble_response lc ord user req batchResp =
     (let summaries =
            map (\<lambda>(proj, p).
                   \<lparr>ps_Repository = ra_Repository p,
                    ps_Summary = psd_Summary proj,
                    ps_TechStack = psd_Skills proj\<rparr>)
              (zip (br_ProjectSummaries batchResp) (req_Projects req));
          config =
            \<lparr>cfg_TargetRole = req_TargetRole req,
             cfg_SkillsEmphasis = req_EmphasizedSkills req,
             cfg_ToneOfVoice = req_ToneOfVoice req,
             cfg_ContactPrefs = req_ContactPrefs req\<rparr>;
          badges = buildBadgesFromProjectData lc ord (req_Projects req)
                     (br_ExtractedSkills batchResp) (req_EmphasizedSkills req);
          markdown = buildMarkdown lc ord user req (br_ProfilePitch batchResp) summaries badges
                       config
      in \<lparr>resp_Markdown = markdown,
          resp_ExtractedSkills = br_ExtractedSkills batchResp,
          resp_SuggestedBadges = badges,
          resp_Confidence = br_Confidence batchResp\<rparr>)"

text \<open>\<open>GenerateProfile\<close>; the cache write passes the literal \<open>0\<close> as \<open>configID\<close>.\<close>

definition GenerateProfile ::
  "profile_env \<Rightarrow> profile_state \<Rightarrow> ContentGenerationRequest \<Rightarrow> User
     \<Rightarrow> (error + ContentGenerationResponse) \<times> profile_state" where
  "GenerateProfile E s req user =
     (if req_UserAPIKey req = []
      then (Inl (Errorf ''API key required - get free key: https://aistudio.google.com/app/apikey''), s)
      else if length (req_Projects req) = 0
      then (Inl (Errorf ''at least one project required''), s)
      else
        (let cacheKey = GetCacheKey (usr_Username user) (req_TargetRole req) (req_ToneOfVoice req)
                          (length (req_Projects req))
         in (case profile_cache_Get E s cacheKey of
               Inr (Some cached) \<Rightarrow> (Inr cached, s)
             | _ \<Rightarrow>
                 (case GenerateBatchedProfile E (req_UserAPIKey req) (batch_request user req) of
                    Inl err \<Rightarrow> (Inl (wrap_returned ''generation failed'' err), s)
                  | Inr batchResp \<Rightarrow>
                      (let response = assemble_response (pe_LowerCase E) (pe_map_order E) user req batchResp
                       in (case profile_cache_Set E s (usr_ID user) 0 cacheKey response
                                  (24 * hour) of
                             (Some e, s') \<Rightarrow>
                               (Inr response,
                                s'\<lparr>profile_log := profile_log s'
                                      @ [''Failed to cache profile generation result'']\<rparr>)
                           | (None, s') \<Rightarrow> (Inr response, s')))))))"

section \<open>JWT issuance and validation\<close>

record JWTClaims =
  claims_UserID :: int
  claims_Username :: string
  claims_JTI :: string
  claims_ExpiresAt :: int

text \<open>
  The library functions the middleware calls: HMAC-SHA256 (key, then message),
  \<open>base64.RawURLEncoding\<close> and \<open>encoding/json\<close> on \<open>JWTClaims\<close>. They are
  parameters; the decoders return \<open>None\<close> where the library returns an error.
\<close>

record jwt_lib =
  hmac_sha256 :: "string \<Rightarrow> string \<Rightarrow> string"
  b64_EncodeToString :: "string \<Rightarrow> string"
  b64_DecodeString :: "string \<Rightarrow> string option"
  json_Marshal :: "JWTClaims \<Rightarrow> error + string"
  json_Unmarshal :: "string \<Rightarrow> JWTClaims option"

text \<open>\<open>hex.EncodeToString\<close>: two lower-case hexadecimal digits per byte.\<close>

definition hex_digit :: "nat \<Rightarrow> char" where
  "hex_digit n = ''0123456789abcdef'' ! (n mod 16)"

definition hex_EncodeToString :: "string \<Rightarrow> string" where
  "hex_EncodeToString bs =
     concat (map (\<lambda>b. [hex_digit (of_char b div 16), hex_digit (of_char b mod 16)]) bs)"

definition createSignature :: "jwt_lib \<Rightarrow> string \<Rightarrow> string \<Rightarrow> string" where
  "createSignature L message secret = b64_EncodeToString L (hmac_sha256 L secret message)"

definition jwt_header_json :: string where
  \<open>jwt_header_json = ''{"alg":"HS256","typ":"JWT"}''\<close>

text \<open>
  \<open>crypto/rand.Read(b)\<close>: an error, or \<open>len(b)\<close> bytes of the random source. The source is
  a parameter: the error it fails with, or the sequence of bytes it yields.
\<close>

type_synonym random_source = "error + (nat \<Rightarrow> char)"

definition rand_Read :: "random_source \<Rightarrow> nat \<Rightarrow> error + string" where
  "rand_Read src n = (case src of Inl e \<Rightarrow> Inl e | Inr bytes \<Rightarrow> Inr (map bytes [0..<n]))"

text \<open>
  \<open>GenerateJWT\<close>. \<open>src\<close> is the random source and \<open>now\<close> the reading of the clock;
  \<open>expiresIn\<close> is a \<open>time.Duration\<close> in nanoseconds.
\<close>

definition GenerateJWT ::
  "jwt_lib \<Rightarrow> random_source \<Rightarrow> time \<Rightarrow> int \<Rightarrow> string \<Rightarrow> string \<Rightarrow> int \<Rightarrow> error + string" where
  "GenerateJWT L src now userID username secret expiresIn =
     (case rand_Read src 16 of
        Inl e \<Rightarrow> Inl (Wrap ''failed to generate JTI'' e)
      | Inr jtiBytes \<Rightarrow>
          (let jti = hex_EncodeToString jtiBytes;
               claims = \<lparr>claims_UserID = userID, claims_Username = username,
                         claims_JTI = jti, claims_ExpiresAt = Unix (now + expiresIn)\<rparr>;
               header = b64_EncodeToString L jwt_header_json
           in (case json_Marshal L claims of
                 Inl e \<Rightarrow> Inl e
               | Inr payloadBytes \<Rightarrow>
                   (let payload = b64_EncodeToString L payloadBytes;
                        message = header @ ''.'' @ payload
                    in Inr (message @ ''.'' @ createSignature L message secret)))))"

definition validateJWT :: "jwt_lib \<Rightarrow> string \<Rightarrow> string \<Rightarrow> error + JWTClaims" where
  "validateJWT L token secret =
     (case Split token (CHR ''.'') of
        [p0, p1, p2] \<Rightarrow>
          (let message = p0 @ ''.'' @ p1 in
           if p2 \<noteq> createSignature L message secret then Inl (Errorf ''invalid signature'')
           else (case b64_DecodeString L p1 of
                   None \<Rightarrow> Inl (Upstream ''illegal base64 data'')
                 | Some payloadBytes \<Rightarrow>
                     (case json_Unmarshal L payloadBytes of
                        None \<Rightarrow> Inl (Upstream ''invalid JSON payload'')
                      | Some claims \<Rightarrow> Inr claims)))
      | _ \<Rightarrow> Inl (Errorf ''invalid token format''))"

section \<open>Sessions table, revocation and the auth middleware\<close>

text \<open>
  Table \<open>sessions\<close>, keyed by \<open>id\<close>. Each statement below is the table after the SQL
  statement succeeded; a statement that fails with a driver error leaves the table as it was.
\<close>

record session_row =
  row_state_type :: string
  row_state_value :: string
  row_expires_at :: time

type_synonym sessions = "string \<rightharpoonup> session_row"

text \<open>\<open>INSERT ... ON CONFLICT (id) DO UPDATE SET expires_at, state_value\<close>.\<close>

definition upsert_session :: "sessions \<Rightarrow> string \<Rightarrow> string \<Rightarrow> string \<Rightarrow> time \<Rightarrow> sessions" where
  "upsert_session tbl ident state_type state_value expiresAt =
     tbl(ident \<mapsto>
       (case tbl ident of
          None \<Rightarrow> \<lparr>row_state_type = state_type, row_state_value = state_value,
                    row_expires_at = expiresAt\<rparr>
        | Some row \<Rightarrow> row\<lparr>row_expires_at := expiresAt, row_state_value := state_value\<rparr>))"

definition RevokeToken ::
  "error option \<Rightarrow> sessions \<Rightarrow> string \<Rightarrow> time \<Rightarrow> error option \<times> sessions" where
  "RevokeToken fault tbl jti expiresAt =
     (case fault of
        Some e \<Rightarrow> (Some (Wrap ''failed to revoke token'' e), tbl)
      | None \<Rightarrow>
          (None, upsert_session tbl (''revoked:'' @ jti) ''revoked_token'' ''revoked'' expiresAt))"

definition IsTokenRevoked ::
  "error option \<Rightarrow> time \<Rightarrow> sessions \<Rightarrow> string \<Rightarrow> error + bool" where
  "IsTokenRevoked fault now tbl jti =
     (case fault of
        Some e \<Rightarrow> Inl (Wrap ''failed to check token revocation'' e)
      | None \<Rightarrow>
          (case tbl (''revoked:'' @ jti) of
             None \<Rightarrow> Inr False
           | Some row \<Rightarrow>
               Inr (row_state_type row = ''revoked_token'' \<and> row_expires_at row > now)))"

definition CreateOAuthState :: "sessions \<Rightarrow> string \<Rightarrow> time \<Rightarrow> sessions" where
  "CreateOAuthState tbl state expiresAt =
     upsert_session tbl (''oauth_state:'' @ state) ''oauth_state'' ''valid'' expiresAt"

definition DeleteOAuthState :: "sessions \<Rightarrow> string \<Rightarrow> sessions" where
  "DeleteOAuthState tbl state =
     (case tbl (''oauth_state:'' @ state) of
        None \<Rightarrow> tbl
      | Some row \<Rightarrow>
          if row_state_type row = ''oauth_state'' then tbl((''oauth_state:'' @ state) := None)
          else tbl)"

text \<open>\<open>cleanup_expired_data()\<close> on this table: \<open>DELETE FROM sessions WHERE expires_at < NOW()\<close>.\<close>

definition CleanupExpiredSessions :: "sessions \<Rightarrow> time \<Rightarrow> sessions" where
  "CleanupExpiredSessions tbl now =
     (\<lambda>ident. case tbl ident of
                 None \<Rightarrow> None
               | Some row \<Rightarrow> if row_expires_at row < now then None else Some row)"

text \<open>The statements the program runs on the table after a logout, each with the time it runs at.\<close>

datatype session_op =
    OpRevokeToken string time
  | OpCreateOAuthState string time
  | OpDeleteOAuthState string
  | OpCleanup

fun apply_op :: "sessions \<Rightarrow> time \<times> session_op \<Rightarrow> sessions" where
  "apply_op tbl (t, OpRevokeToken jti expiresAt) = snd (RevokeToken None tbl jti expiresAt)"
| "apply_op tbl (t, OpCreateOAuthState state expiresAt) = CreateOAuthState tbl state expiresAt"
| "apply_op tbl (t, OpDeleteOAuthState state) = DeleteOAuthState tbl state"
| "apply_op tbl (t, OpCleanup) = CleanupExpiredSessions tbl t"

definition run_ops :: "sessions \<Rightarrow> (time \<times> session_op) list \<Rightarrow> sessions" where
  "run_ops tbl ops = foldl apply_op tbl ops"

text \<open>
  The program writes ids with prefix \<open>revoked:\<close> only through \<open>RevokeToken\<close>; a table it has
  built satisfies this.
\<close>

definition revoked_rows_typed :: "sessions \<Rightarrow> bool" where
  "revoked_rows_typed tbl \<longleftrightarrow>
     (\<forall>jti row. tbl (''revoked:'' @ jti) = Some row \<longrightarrow> row_state_type row = ''revoked_token'')"

text \<open>
  The collaborators of the middleware for one request: the clock, the fault of the revocation
  query, and the \<open>users\<close> table with the fault of its query (\<open>userRepo.GetByID\<close>).
\<close>

record auth_env =
  au_now :: time
  au_revocation_fault :: "error option"
  au_users :: "int \<rightharpoonup> User"
  au_users_fault :: "error option"

definition GetByID :: "auth_env \<Rightarrow> int \<Rightarrow> error + User" where
  "GetByID E ident =
     (case au_users_fault E of
        Some e \<Rightarrow> Inl e
      | None \<Rightarrow>
          (case au_users E ident of
             None \<Rightarrow> Inl (Errorf ''user not found'')
           | Some user \<Rightarrow> Inr user))"

text \<open>
  What the middleware returns: \<open>echo.ErrUnauthorized\<close> (401), or whatever \<open>next\<close> returns on
  the context it filled in.
\<close>

datatype 'r middleware_result = ErrUnauthorized | Forwarded 'r

definition AuthMiddleware ::
  "jwt_lib \<Rightarrow> auth_env \<Rightarrow> string \<Rightarrow> sessions \<Rightarrow> (ctx \<Rightarrow> 'r) \<Rightarrow> string \<Rightarrow> ctx
     \<Rightarrow> 'r middleware_result" where
  "AuthMiddleware L E secret tbl next authHeader c =
     (if authHeader = [] then ErrUnauthorized
      else
        (case Split authHeader (CHR '' '') of
           [bearer, token] \<Rightarrow>
             if bearer \<noteq> ''Bearer'' then ErrUnauthorized
             else
               (case validateJWT L token secret of
                  Inl e \<Rightarrow> ErrUnauthorized
                | Inr claims \<Rightarrow>
                    if Unix (au_now E) > claims_ExpiresAt claims then ErrUnauthorized
                    else if claims_JTI claims \<noteq> []
                          \<and> (case IsTokenRevoked (au_revocation_fault E) (au_now E) tbl
                                     (claims_JTI claims) of
                               Inl e \<Rightarrow> True
                             | Inr revoked \<Rightarrow> revoked)
                    then ErrUnauthorized
                    else
                      (case GetByID E (claims_UserID claims) of
                         Inl e \<Rightarrow> ErrUnauthorized
                       | Inr user \<Rightarrow>
                           Forwarded (next (c\<lparr>ctx_user := Some user,
                                              ctx_user_id := Some (claims_UserID claims),
                                              ctx_username := Some (claims_Username claims),
                                              ctx_access_token := Some (usr_AccessToken user),
                                              ctx_jwt_jti := Some (claims_JTI claims),
                                              ctx_jwt_exp := Some (claims_ExpiresAt claims)\<rparr>))))
         | _ \<Rightarrow> ErrUnauthorized))"

text \<open>Handler \<open>Logout\<close>; \<open>RevokeSession\<close> of the auth service is \<open>RevokeToken\<close>.\<close>

definition Logout ::
  "error option \<Rightarrow> ctx \<Rightarrow> sessions \<Rightarrow> (string \<times> string) list response \<times> sessions" where
  "Logout fault c tbl =
     (case ctx_jwt_jti c of
        None \<Rightarrow> (HTTPError StatusUnauthorized ''Unauthorized'', tbl)
      | Some jti \<Rightarrow>
          if jti = [] then (HTTPError StatusUnauthorized ''Unauthorized'', tbl)
          else
            (case ctx_jwt_exp c of
               None \<Rightarrow> (HTTPError StatusUnauthorized ''Unauthorized'', tbl)
             | Some expiry \<Rightarrow>
                 (case RevokeToken fault tbl jti (time_Unix expiry) of
                    (Some e, tbl') \<Rightarrow>
                      (HTTPError StatusInternalServerError ''Failed to revoke session'', tbl')
                  | (None, tbl') \<Rightarrow>
                      (JSON StatusOK [(''message'', ''Logged out successfully'')], tbl'))))"

text \<open>
  The revocation row of a JTI is in force at time \<open>now\<close>: it exists, has the type the
  revocation query selects, and its recorded expiry is still in the future.
\<close>

definition revoked_until :: "sessions \<Rightarrow> string \<Rightarrow> time \<Rightarrow> bool" where
  "revoked_until tbl jti now \<longleftrightarrow>
     (\<exists>row. tbl (''revoked:'' @ jti) = Some row \<and> row_state_type row = ''revoked_token''
            \<and> row_expires_at row > now)"


section \<open>Concrete inputs\<close>

definition failing_github_env :: github_env where
  "failing_github_env =
     \<lparr>gh_now = 0,
      gh_db_fault = (\<lambda>q. Some (Upstream ''connection refused'')),
      gh_ListRepositories = (\<lambda>tok priv. Inr []),
      gh_marshal_repos = (\<lambda>rs. Inr ''[]''),
      gh_unmarshal_repos = (\<lambda>j. None)\<rparr>"

definition empty_github_state :: github_state where
  "empty_github_state = \<lparr>repository_list_cache = Map.empty, service_log = []\<rparr>"

text \<open>
  An analysis callee for examples: the state counts the calls, repository \<open>gone\<close> fails, any
  other analysis is the owner, the name and the number of the call.
\<close>

definition example_analyze :: "(string \<times> string \<times> nat, nat) analyze" where
  "example_analyze accessToken owner repo n =
     (if repo = ''gone'' then (Inl (Upstream ''404 Not Found''), Suc n)
      else (Inr (owner, repo, n), Suc n))"

definition example_ctx :: ctx where
  "example_ctx = empty_ctx\<lparr>ctx_user_id := Some 7, ctx_access_token := Some ''gho_token''\<rparr>"

definition eleven_repos :: "string list" where
  "eleven_repos = replicate 11 ''octo/app''"

text \<open>A service that agrees with the real one on lists of one to ten names only.\<close>

definition capped_service :: "(string \<times> string \<times> nat, nat) batch_service" where
  "capped_service accessToken repos n =
     (if 1 \<le> length repos \<and> length repos \<le> 10
      then BatchAnalyzeRepositories example_analyze accessToken repos n
      else ((Map.empty, Some (Errorf ''unreachable'')), 0))"


section \<open>A stand-in library for concrete runs\<close>

text \<open>
  Hexadecimal coding in the place of base64, key-prefixing in the place of HMAC-SHA256 and a
  JSON coder that knows one claims value: enough to run the middleware on a concrete token.
\<close>

definition hex_value :: "char \<Rightarrow> nat option" where
  "hex_value c = map_of (zip ''0123456789abcdef'' [0..<16]) c"

fun hex_DecodeString :: "string \<Rightarrow> string option" where
  "hex_DecodeString [] = Some []"
| "hex_DecodeString [a] = None"
| "hex_DecodeString (a # b # rest) =
     (case (hex_value a, hex_value b, hex_DecodeString rest) of
        (Some x, Some y, Some bs) \<Rightarrow> Some (char_of (16 * x + y) # bs)
      | _ \<Rightarrow> None)"

definition example_secret :: string where
  "example_secret = ''s3cret''"

definition example_jti :: string where
  "example_jti = hex_EncodeToString ''0123456789abcdef''"

definition example_claims :: JWTClaims where
  "example_claims = \<lparr>claims_UserID = 7, claims_Username = ''octocat'',
     claims_JTI = example_jti, claims_ExpiresAt = 86400\<rparr>"

definition example_payload :: string where
  \<open>example_payload =
     ''{"user_id":7,"username":"octocat","jti":"'' @ example_jti @ ''","exp":86400}''\<close>

definition example_lib :: jwt_lib where
  "example_lib =
     \<lparr>hmac_sha256 = (\<lambda>key message. key @ message),
      b64_EncodeToString = hex_EncodeToString,
      b64_DecodeString = hex_DecodeString,
      json_Marshal = (\<lambda>cl. if cl = example_claims then Inr example_payload
                            else Inl (Errorf ''unsupported value'')),
      json_Unmarshal = (\<lambda>p. if p = example_payload then Some example_claims else None)\<rparr>"

definition example_source :: random_source where
  "example_source = Inr (\<lambda>i. ''0123456789abcdef'' ! (i mod 16))"

text \<open>
  A second stand-in, whose JSON coder takes every claims value: the numbers in decimal and the
  strings in hexadecimal, separated by commas. As \<open>encoding/json\<close> does, it writes a string
  coerced to valid UTF-8.
\<close>

definition digit_value :: "char \<Rightarrow> nat option" where
  "digit_value c = map_of (zip ''0123456789'' [0..<10]) c"

definition dec_step :: "nat option \<Rightarrow> char \<Rightarrow> nat option" where
  "dec_step a d =
     (case (a, digit_value d) of
        (Some x, Some y) \<Rightarrow> Some (10 * x + y)
      | _ \<Rightarrow> None)"

definition dec_to_nat :: "string \<Rightarrow> nat option" where
  "dec_to_nat ds = (if ds = [] then None else foldl dec_step (Some 0) ds)"

definition atoi :: "string \<Rightarrow> int option" where
  "atoi s =
     (case s of
        [] \<Rightarrow> None
      | c # cs \<Rightarrow>
          if c = CHR ''-'' then map_option (\<lambda>n. - int n) (dec_to_nat cs)
          else map_option int (dec_to_nat s))"

definition codec_Marshal :: "JWTClaims \<Rightarrow> error + string" where
  "codec_Marshal cl =
     Inr (itoa (claims_UserID cl) @ '','' @ hex_EncodeToString (coerce_utf8 (claims_Username cl))
          @ '','' @ hex_EncodeToString (coerce_utf8 (claims_JTI cl)) @ '',''
          @ itoa (claims_ExpiresAt cl))"

definition codec_Unmarshal :: "string \<Rightarrow> JWTClaims option" where
  "codec_Unmarshal p =
     (case Split p (CHR '','') of
        [i, u, j, e] \<Rightarrow>
          (case (atoi i, hex_DecodeString u, hex_DecodeString j, atoi e) of
             (Some userID, Some username, Some jti, Some expiresAt) \<Rightarrow>
               Some \<lparr>claims_UserID = userID, claims_Username = username, claims_JTI = jti,
                     claims_ExpiresAt = expiresAt\<rparr>
           | _ \<Rightarrow> None)
      | _ \<Rightarrow> None)"

definition codec_lib :: jwt_lib where
  "codec_lib =
     \<lparr>hmac_sha256 = (\<lambda>key message. key @ message),
      b64_EncodeToString = hex_EncodeToString,
      b64_DecodeString = hex_DecodeString,
      json_Marshal = codec_Marshal,
      json_Unmarshal = codec_Unmarshal\<rparr>"

definition example_message :: string where
  "example_message =
     hex_EncodeToString jwt_header_json @ ''.'' @ hex_EncodeToString example_payload"

definition example_token :: string where
  "example_token =
     example_message @ ''.'' @ hex_EncodeToString (example_secret @ example_message)"

definition example_user :: User where
  "example_user = \<lparr>usr_ID = 7, usr_GitHubID = 583231, usr_Username = ''octocat'',
     usr_Email = ''octo@example.com'', usr_AvatarURL = [], usr_Bio = [], usr_Location = [],
     usr_Company = [], usr_Blog = [], usr_AccessToken = ''gho_token'', usr_RefreshToken = [],
     usr_TokenExpiresAt = 0, usr_CreatedAt = 0, usr_UpdatedAt = 0, usr_LastLoginAt = 0\<rparr>"

definition example_auth_env :: auth_env where
  "example_auth_env = \<lparr>au_now = 5 * second, au_revocation_fault = None,
     au_users = [7 \<mapsto> example_user], au_users_fault = None\<rparr>"

definition example_auth_ctx :: ctx where
  "example_auth_ctx = \<lparr>ctx_user = Some example_user, ctx_user_id = Some 7,
     ctx_username = Some ''octocat'', ctx_access_token = Some ''gho_token'',
     ctx_jwt_jti = Some example_jti, ctx_jwt_exp = Some 86400\<rparr>"

definition example_revoked_sessions :: sessions where
  "example_revoked_sessions =
     [''revoked:'' @ example_jti \<mapsto>
        \<lparr>row_state_type = ''revoked_token'', row_state_value = ''revoked'',
         row_expires_at = time_Unix 86400\<rparr>]"

definition example_ops :: "(time \<times> session_op) list" where
  "example_ops = [(1 * second, OpCleanup), (2 * second, OpCreateOAuthState ''xyz'' (600 * second)),
                  (3 * second, OpDeleteOAuthState ''xyz''), (4 * second, OpCleanup)]"

definition full_channel :: "ProgressUpdate chan" where
  "full_channel =
     \<lparr>chan_buf = replicate 10 \<lparr>pu_Stage = ''init'', pu_Progress = 0, pu_Message = [], pu_Error = []\<rparr>,
      chan_cap = 10\<rparr>"


text \<open>
  Two runs of the profile service that differ only in the order in which \<open>range\<close> visits the
  badge map, and the inputs they are run on.
\<close>

text \<open>A case table that maps nothing; the examples are ASCII and do not consult it.\<close>

definition example_case_table :: case_table where
  "example_case_table = (\<lambda>r. r)"

definition ord_id :: map_order where
  "ord_id = \<lparr>range_languages = (\<lambda>m. m), range_dependencies = (\<lambda>m. m), range_badges = (\<lambda>m. m)\<rparr>"

definition ord_rev :: map_order where
  "ord_rev = \<lparr>range_languages = (\<lambda>m. m), range_dependencies = (\<lambda>m. m), range_badges = rev\<rparr>"

definition no_contact :: ContactPreferences where
  "no_contact = \<lparr>cp_LinkedIn = [], cp_PersonalWebsite = [], cp_Email = [], cp_Twitter = [],
     cp_PreferredOrder = []\<rparr>"

definition example_project :: RepositoryAnalysis where
  "example_project = \<lparr>ra_Repository = None, ra_Languages = [(''Go'', 1000), (''Python'', 500)],
     ra_Files = [], ra_Dependencies = [], ra_KeyFiles = [], ra_CommitCount = 0,
     ra_ContributorCount = 0\<rparr>"

definition example_request :: ContentGenerationRequest where
  "example_request = \<lparr>req_TargetRole = ''Backend Engineer'', req_EmphasizedSkills = [],
     req_ToneOfVoice = ''professional'', req_ContactPrefs = no_contact,
     req_Projects = [example_project], req_UserAPIKey = ''key''\<rparr>"

definition example_config :: ProfileConfig where
  "example_config = \<lparr>cfg_TargetRole = ''Backend Engineer'', cfg_SkillsEmphasis = [],
     cfg_ToneOfVoice = ''professional'', cfg_ContactPrefs = no_contact\<rparr>"

definition example_summaries :: "ProjectSummary list" where
  "example_summaries = [\<lparr>ps_Repository = None, ps_Summary = ''A service.'', ps_TechStack = [''Go'']\<rparr>]"

definition example_batch_response :: BatchProfileResponse where
  "example_batch_response =
     \<lparr>br_ProfilePitch = ''I build things.'',
      br_ProjectSummaries =
        [\<lparr>psd_ProjectName = ''app'', psd_Summary = ''A service.'', psd_Skills = [''Go'']\<rparr>],
      br_ExtractedSkills = [], br_Confidence = 0.9\<rparr>"

text \<open>
  A request whose project carries its repository, the database as the migrations create it,
  and a GitHub listing with one public and one private repository whose cache write fails.
\<close>

definition example_github_repository :: github_Repository where
  "example_github_repository =
     \<lparr>gr_ID = 1296269, gr_Name = ''app'', gr_FullName = ''octocat/app'',
      gr_Description = ''A service.'', gr_Private = False, gr_Fork = False, gr_Language = ''Go'',
      gr_StargazersCount = 0, gr_ForksCount = 0, gr_OpenIssuesCount = 0,
      gr_DefaultBranch = ''main'', gr_Topics = [],
      gr_HTMLURL = ''https://github.com/octocat/app'',
      gr_CloneURL = ''https://github.com/octocat/app.git'',
      gr_CreatedAt = 0, gr_UpdatedAt = 0, gr_PushedAt = 0\<rparr>"

definition private_github_repository :: github_Repository where
  "private_github_repository =
     example_github_repository\<lparr>gr_ID := 1296270, gr_Name := ''notes'',
       gr_FullName := ''octocat/notes'', gr_Private := True\<rparr>"

definition example_repository :: Repository where
  "example_repository = to_Repository example_github_repository"

definition listing_github_env :: github_env where
  \<open>listing_github_env =
     \<lparr>gh_now = 0,
      gh_db_fault = (\<lambda>q. if q = SetRepositoryListQ then Some (Upstream ''connection refused'')
                          else None),
      gh_ListRepositories =
        (\<lambda>tok priv. Inr [example_github_repository, private_github_repository]),
      gh_marshal_repos = (\<lambda>rs. Inr ''[{"id":1296269}]''),
      gh_unmarshal_repos = (\<lambda>j. None)\<rparr>\<close>

definition analysed_project :: RepositoryAnalysis where
  "analysed_project = example_project\<lparr>ra_Repository := Some example_repository\<rparr>"

definition analysed_request :: ContentGenerationRequest where
  "analysed_request = example_request\<lparr>req_Projects := [analysed_project]\<rparr>"

definition other_request :: ContentGenerationRequest where
  "other_request =
     \<lparr>req_TargetRole = ''Backend Engineer'', req_EmphasizedSkills = [''Docker''],
      req_ToneOfVoice = ''professional'',
      req_ContactPrefs = no_contact\<lparr>cp_LinkedIn := ''https://linkedin.com/in/octocat''\<rparr>,
      req_Projects = [analysed_project\<lparr>ra_Languages := [(''Rust'', 42)]\<rparr>],
      req_UserAPIKey = ''another-key''\<rparr>"

definition example_profile_env :: profile_env where
  \<open>example_profile_env =
     \<lparr>pe_now = 0,
      pe_db_fault = (\<lambda>q. None),
      pe_NewGeminiClient = (\<lambda>apiKey. None),
      pe_generate = (\<lambda>apiKey batchReq. Inr example_batch_response),
      pe_marshal_response = (\<lambda>r. Inr ''{"markdown":"..."}''),
      pe_unmarshal_response = (\<lambda>j. None),
      pe_LowerCase = example_case_table,
      pe_map_order = ord_id\<rparr>\<close>

definition later_profile_env :: profile_env where
  "later_profile_env =
     example_profile_env\<lparr>pe_now := 1 * hour,
       pe_generate := (\<lambda>apiKey batchReq. Inl (Upstream ''quota exceeded''))\<rparr>"

definition empty_profile_state :: profile_state where
  "empty_profile_state =
     \<lparr>generated_profiles = Map.empty, profile_configs = {}, profile_log = []\<rparr>"


section \<open>Properties of the GitHub service and handlers\<close>

lemma ClearUserCache_nil: "fst (ClearUserCache E s userID) = None"
  by (simp add: ClearUserCache_def split: prod.splits option.splits)

subsection \<open>Batch analysis: partial results and the joined error\<close>









section \<open>Properties of the JWT scheme and the auth middleware\<close>

subsection \<open>\<open>strings.Split\<close>\<close>

lemma Split_not_Nil: "Split s sep \<noteq> []"
  by (induction s) (auto split: list.splits)

lemma Split_no_sep: "sep \<notin> set a \<Longrightarrow> Split a sep = [a]"
  by (induction a) auto

lemma Split_append_sep: "sep \<notin> set a \<Longrightarrow> Split (a @ sep # rest) sep = a # Split rest sep"
  by (induction a) auto

lemma Split_head: "Split s sep = p # ps \<Longrightarrow> sep \<notin> set p \<and> (if ps = [] then s = p else \<exists>rest. s = p @ sep # rest \<and> Split rest sep = ps)"
proof (induction s arbitrary: p ps)
  case Nil
  then show ?case by auto
next
  case (Cons c cs)
  show ?case
  proof (cases "c = sep")
    case True
    with Cons.prems have "p = []" "Split cs sep = ps" by auto
    with True show ?thesis using Split_not_Nil [of cs sep] by auto
  next
    case False
    obtain q qs where q: "Split cs sep = q # qs"
      using Split_not_Nil [of cs sep] by (cases "Split cs sep") auto
    with False Cons.prems have p: "p = c # q" "ps = qs" by auto
    from Cons.IH [OF q] p False show ?thesis by auto
  qed
qed

lemma Split_two_iff:
  "Split s sep = [a, b] \<longleftrightarrow> s = a @ sep # b \<and> sep \<notin> set a \<and> sep \<notin> set b"
proof
  assume h: "Split s sep = [a, b]"
  from Split_head [OF h] obtain rest where r: "sep \<notin> set a" "s = a @ sep # rest" "Split rest sep = [b]"
    by auto
  from Split_head [OF r(3)] have "sep \<notin> set b" "rest = b" by auto
  with r show "s = a @ sep # b \<and> sep \<notin> set a \<and> sep \<notin> set b" by simp
next
  assume "s = a @ sep # b \<and> sep \<notin> set a \<and> sep \<notin> set b"
  then show "Split s sep = [a, b]" by (simp add: Split_append_sep Split_no_sep)
qed

lemma Split_three:
  "sep \<notin> set a \<Longrightarrow> sep \<notin> set b \<Longrightarrow> sep \<notin> set c \<Longrightarrow> Split (a @ sep # b @ sep # c) sep = [a, b, c]"
  by (simp add: Split_append_sep Split_no_sep)

lemma Split_three_iff:
  "Split s sep = [a, b, c] \<longleftrightarrow> s = a @ sep # b @ sep # c \<and> sep \<notin> set a \<and> sep \<notin> set b \<and> sep \<notin> set c"
proof
  assume h: "Split s sep = [a, b, c]"
  from Split_head [OF h] obtain rest where r: "sep \<notin> set a" "s = a @ sep # rest" "Split rest sep = [b, c]"
    by auto
  with Split_two_iff [of rest sep b c] show "s = a @ sep # b @ sep # c \<and> sep \<notin> set a \<and> sep \<notin> set b \<and> sep \<notin> set c"
    by simp
next
  assume "s = a @ sep # b @ sep # c \<and> sep \<notin> set a \<and> sep \<notin> set b \<and> sep \<notin> set c"
  then show "Split s sep = [a, b, c]" by (simp add: Split_three)
qed

subsection \<open>The middleware\<close>

lemma AuthMiddleware_not_bearer:
  assumes "\<not> (\<exists>token. Split authHeader (CHR '' '') = [''Bearer'', token])"
  shows "AuthMiddleware L E secret tbl next authHeader c = ErrUnauthorized"
  using assms by (auto simp: AuthMiddleware_def split: list.splits)

lemma AuthMiddleware_bearer:
  assumes "Split authHeader (CHR '' '') = [''Bearer'', token]"
  shows "AuthMiddleware L E secret tbl next authHeader c =
     (case validateJWT L token secret of
        Inl e \<Rightarrow> ErrUnauthorized
      | Inr claims \<Rightarrow>
          if Unix (au_now E) > claims_ExpiresAt claims then ErrUnauthorized
          else if claims_JTI claims \<noteq> []
                \<and> (case IsTokenRevoked (au_revocation_fault E) (au_now E) tbl (claims_JTI claims) of
                     Inl e \<Rightarrow> True | Inr revoked \<Rightarrow> revoked)
          then ErrUnauthorized
          else
            (case GetByID E (claims_UserID claims) of
               Inl e \<Rightarrow> ErrUnauthorized
             | Inr user \<Rightarrow>
                 Forwarded (next (c\<lparr>ctx_user := Some user,
                                    ctx_user_id := Some (claims_UserID claims),
                                    ctx_username := Some (claims_Username claims),
                                    ctx_access_token := Some (usr_AccessToken user),
                                    ctx_jwt_jti := Some (claims_JTI claims),
                                    ctx_jwt_exp := Some (claims_ExpiresAt claims)\<rparr>))))"
proof -
  from assms have "authHeader \<noteq> []" by auto
  with assms show ?thesis by (simp add: AuthMiddleware_def)
qed

lemma bearer_split:
  "Split authHeader (CHR '' '') = [''Bearer'', token]
     \<longleftrightarrow> authHeader = ''Bearer '' @ token \<and> CHR '' '' \<notin> set token"
  by (auto simp: Split_two_iff)


subsection \<open>The stand-in library\<close>

lemma hex_digit_in: "hex_digit n \<in> set ''0123456789abcdef''"
  unfolding hex_digit_def by (rule nth_mem) simp

lemma hex_digit_not_dot: "hex_digit n \<noteq> CHR ''.''"
  using hex_digit_in [of n] by auto

lemma hex_no_dot: "CHR ''.'' \<notin> set (hex_EncodeToString x)"
  by (induction x) (auto simp: hex_EncodeToString_def hex_digit_not_dot [symmetric])

lemma hex_value_digit_all: "\<forall>n \<in> set [0..<16]. hex_value (hex_digit n) = Some n"
  by code_simp

lemma hex_value_digit: "n < 16 \<Longrightarrow> hex_value (hex_digit n) = Some n"
  using hex_value_digit_all by simp

lemma hex_roundtrip: "hex_DecodeString (hex_EncodeToString x) = Some x"
proof (induction x)
  case Nil
  then show ?case by (simp add: hex_EncodeToString_def)
next
  case (Cons b bs)
  have lt: "(of_char b :: nat) < 256" by simp
  then have d: "(of_char b :: nat) div 16 < 16" by arith
  have m: "(of_char b :: nat) mod 16 < 16" by simp
  have "char_of (16 * ((of_char b :: nat) div 16) + of_char b mod 16) = b"
    by simp
  with Cons d m show ?case
    by (simp add: hex_EncodeToString_def hex_value_digit)
qed

lemma example_source_bytes: "rand_Read example_source 16 = Inr ''0123456789abcdef''"
  by code_simp

lemma example_token_generated:
  "GenerateJWT example_lib example_source 0 7 ''octocat'' example_secret (24 * hour)
     = Inr example_token"
  by (simp add: GenerateJWT_def example_source_bytes example_lib_def example_claims_def
      example_jti_def Unix_def hour_def minute_def second_def example_token_def
      example_message_def createSignature_def Let_def)

lemma example_token_valid:
  "validateJWT example_lib example_token example_secret = Inr example_claims"
proof -
  have "Split example_token (CHR ''.'')
      = [hex_EncodeToString jwt_header_json, hex_EncodeToString example_payload,
         hex_EncodeToString (example_secret @ example_message)]"
    unfolding example_token_def example_message_def
    using Split_three [of "CHR ''.''" "hex_EncodeToString jwt_header_json"
        "hex_EncodeToString example_payload"]
    by (simp add: hex_no_dot)
  then show ?thesis
    by (simp add: validateJWT_def example_lib_def createSignature_def example_message_def
        hex_roundtrip)
qed

lemma hex_chars: "set (hex_EncodeToString x) \<subseteq> set ''0123456789abcdef''"
  using hex_digit_in by (induction x) (auto simp: hex_EncodeToString_def)

lemma hex_no_space: "CHR '' '' \<notin> set (hex_EncodeToString x)"
  using hex_chars [of x] by auto

lemma example_token_no_space: "CHR '' '' \<notin> set example_token"
  by (simp add: example_token_def example_message_def hex_no_space)

lemma example_header_split:
  "Split (''Bearer '' @ example_token) (CHR '' '') = [''Bearer'', example_token]"
  using bearer_split [of "''Bearer '' @ example_token" example_token] example_token_no_space
  by blast


text \<open>
  Claim C5. The middleware returns 401 exactly when the Authorization header is missing, or is
  not \<open>Bearer\<close>, one space and a token without a space, or the token fails validation, or its
  expiry is in the past, or it carries a JTI that is revoked or whose revocation check errors, or
  the user lookup fails; in every other case it returns what the next handler returns on the
  context holding the user, the user id, the username, the access token, the JTI and the expiry.
\<close>

theorem AuthMiddleware_unauthorized_iff:
  "(AuthMiddleware L E secret tbl next authHeader c = ErrUnauthorized \<longleftrightarrow>
      authHeader = []
    \<or> (\<forall>token. CHR '' '' \<in> set token \<or> authHeader \<noteq> ''Bearer '' @ token)
    \<or> (\<exists>token e. authHeader = ''Bearer '' @ token \<and> validateJWT L token secret = Inl e)
    \<or> (\<exists>token claims. authHeader = ''Bearer '' @ token \<and> validateJWT L token secret = Inr claims
          \<and> (Unix (au_now E) > claims_ExpiresAt claims
             \<or> (claims_JTI claims \<noteq> []
                  \<and> (IsTokenRevoked (au_revocation_fault E) (au_now E) tbl (claims_JTI claims) = Inr True
                     \<or> (\<exists>e. IsTokenRevoked (au_revocation_fault E) (au_now E) tbl (claims_JTI claims) = Inl e)))
             \<or> (\<exists>e. GetByID E (claims_UserID claims) = Inl e))))
   \<and> (AuthMiddleware L E secret tbl next authHeader c \<noteq> ErrUnauthorized \<longrightarrow>
        (\<exists>token claims user.
           authHeader = ''Bearer '' @ token \<and> validateJWT L token secret = Inr claims
           \<and> GetByID E (claims_UserID claims) = Inr user
           \<and> AuthMiddleware L E secret tbl next authHeader c
               = Forwarded (next (c\<lparr>ctx_user := Some user,
                                    ctx_user_id := Some (claims_UserID claims),
                                    ctx_username := Some (claims_Username claims),
                                    ctx_access_token := Some (usr_AccessToken user),
                                    ctx_jwt_jti := Some (claims_JTI claims),
                                    ctx_jwt_exp := Some (claims_ExpiresAt claims)\<rparr>))))"
proof (cases "\<exists>token. Split authHeader (CHR '' '') = [''Bearer'', token]")
  case False
  then have rej: "AuthMiddleware L E secret tbl next authHeader c = ErrUnauthorized"
    by (rule AuthMiddleware_not_bearer)
  from False have "\<forall>token. CHR '' '' \<in> set token \<or> authHeader \<noteq> ''Bearer '' @ token"
    by (simp add: bearer_split) blast
  with rej show ?thesis by simp
next
  case True
  then obtain token where sp: "Split authHeader (CHR '' '') = [''Bearer'', token]" by blast
  then have hdr: "authHeader = ''Bearer '' @ token" and nosp: "CHR '' '' \<notin> set token"
    by (simp_all add: bearer_split)
  have ne: "authHeader \<noteq> []" using hdr by simp
  have form: "\<not> (\<forall>token. CHR '' '' \<in> set token \<or> authHeader \<noteq> ''Bearer '' @ token)"
    using hdr nosp by blast
  have ex1: "(\<exists>t. authHeader = ''Bearer '' @ t \<and> P t) \<longleftrightarrow> P token" for P
    unfolding hdr by simp
  note mw = AuthMiddleware_bearer [OF sp, of L E secret tbl "next" c]
  let ?R = "IsTokenRevoked (au_revocation_fault E) (au_now E) tbl"
  have lhs: "AuthMiddleware L E secret tbl next authHeader c = ErrUnauthorized \<longleftrightarrow>
      (\<exists>e. validateJWT L token secret = Inl e)
      \<or> (\<exists>claims. validateJWT L token secret = Inr claims
          \<and> (Unix (au_now E) > claims_ExpiresAt claims
             \<or> (claims_JTI claims \<noteq> []
                  \<and> (?R (claims_JTI claims) = Inr True \<or> (\<exists>e. ?R (claims_JTI claims) = Inl e)))
             \<or> (\<exists>e. GetByID E (claims_UserID claims) = Inl e)))"
    unfolding mw
    by (cases "validateJWT L token secret")
       (auto split: sum.splits)
  have fwd: "\<exists>claims user.
           validateJWT L token secret = Inr claims
           \<and> GetByID E (claims_UserID claims) = Inr user
           \<and> AuthMiddleware L E secret tbl next authHeader c
               = Forwarded (next (c\<lparr>ctx_user := Some user,
                                    ctx_user_id := Some (claims_UserID claims),
                                    ctx_username := Some (claims_Username claims),
                                    ctx_access_token := Some (usr_AccessToken user),
                                    ctx_jwt_jti := Some (claims_JTI claims),
                                    ctx_jwt_exp := Some (claims_ExpiresAt claims)\<rparr>))"
    if "AuthMiddleware L E secret tbl next authHeader c \<noteq> ErrUnauthorized"
    using that unfolding mw
    by (cases "validateJWT L token secret")
       (auto split: sum.splits if_splits)
  have A: "(AuthMiddleware L E secret tbl next authHeader c = ErrUnauthorized \<longleftrightarrow>
      authHeader = []
    \<or> (\<forall>token. CHR '' '' \<in> set token \<or> authHeader \<noteq> ''Bearer '' @ token)
    \<or> (\<exists>token e. authHeader = ''Bearer '' @ token \<and> validateJWT L token secret = Inl e)
    \<or> (\<exists>token claims. authHeader = ''Bearer '' @ token \<and> validateJWT L token secret = Inr claims
          \<and> (Unix (au_now E) > claims_ExpiresAt claims
             \<or> (claims_JTI claims \<noteq> []
                  \<and> (?R (claims_JTI claims) = Inr True \<or> (\<exists>e. ?R (claims_JTI claims) = Inl e)))
             \<or> (\<exists>e. GetByID E (claims_UserID claims) = Inl e))))"
  proof -
    have e3: "(\<exists>t e. authHeader = ''Bearer '' @ t \<and> validateJWT L t secret = Inl e)
        \<longleftrightarrow> (\<exists>e. validateJWT L token secret = Inl e)"
      using ex1 [of "\<lambda>t. \<exists>e. validateJWT L t secret = Inl e"] by blast
    have e4: "(\<exists>t claims. authHeader = ''Bearer '' @ t \<and> validateJWT L t secret = Inr claims
          \<and> (Unix (au_now E) > claims_ExpiresAt claims
             \<or> (claims_JTI claims \<noteq> []
                  \<and> (?R (claims_JTI claims) = Inr True \<or> (\<exists>e. ?R (claims_JTI claims) = Inl e)))
             \<or> (\<exists>e. GetByID E (claims_UserID claims) = Inl e)))
        \<longleftrightarrow> (\<exists>claims. validateJWT L token secret = Inr claims
          \<and> (Unix (au_now E) > claims_ExpiresAt claims
             \<or> (claims_JTI claims \<noteq> []
                  \<and> (?R (claims_JTI claims) = Inr True \<or> (\<exists>e. ?R (claims_JTI claims) = Inl e)))
             \<or> (\<exists>e. GetByID E (claims_UserID claims) = Inl e)))"
      using ex1 [of "\<lambda>t. \<exists>claims. validateJWT L t secret = Inr claims
          \<and> (Unix (au_now E) > claims_ExpiresAt claims
             \<or> (claims_JTI claims \<noteq> []
                  \<and> (?R (claims_JTI claims) = Inr True \<or> (\<exists>e. ?R (claims_JTI claims) = Inl e)))
             \<or> (\<exists>e. GetByID E (claims_UserID claims) = Inl e))"]
      by blast
    show ?thesis
      unfolding e3 e4 lhs using ne form by blast
  qed
  have B: "AuthMiddleware L E secret tbl next authHeader c \<noteq> ErrUnauthorized \<longrightarrow>
        (\<exists>token claims user.
           authHeader = ''Bearer '' @ token \<and> validateJWT L token secret = Inr claims
           \<and> GetByID E (claims_UserID claims) = Inr user
           \<and> AuthMiddleware L E secret tbl next authHeader c
               = Forwarded (next (c\<lparr>ctx_user := Some user,
                                    ctx_user_id := Some (claims_UserID claims),
                                    ctx_username := Some (claims_Username claims),
                                    ctx_access_token := Some (usr_AccessToken user),
                                    ctx_jwt_jti := Some (claims_JTI claims),
                                    ctx_jwt_exp := Some (claims_ExpiresAt claims)\<rparr>)))"
  proof
    assume "AuthMiddleware L E secret tbl next authHeader c \<noteq> ErrUnauthorized"
    from fwd [OF this] hdr show "\<exists>token claims user.
           authHeader = ''Bearer '' @ token \<and> validateJWT L token secret = Inr claims
           \<and> GetByID E (claims_UserID claims) = Inr user
           \<and> AuthMiddleware L E secret tbl next authHeader c
               = Forwarded (next (c\<lparr>ctx_user := Some user,
                                    ctx_user_id := Some (claims_UserID claims),
                                    ctx_username := Some (claims_Username claims),
                                    ctx_access_token := Some (usr_AccessToken user),
                                    ctx_jwt_jti := Some (claims_JTI claims),
                                    ctx_jwt_exp := Some (claims_ExpiresAt claims)\<rparr>))"
      by blast
  qed
  from A B show ?thesis by (rule conjI)
qed

theorem AuthMiddleware_unauthorized_iff_witness:
  "AuthMiddleware example_lib example_auth_env example_secret Map.empty (\<lambda>c. c)
       (''Bearer '' @ example_token) empty_ctx \<noteq> ErrUnauthorized
   \<and> AuthMiddleware example_lib example_auth_env example_secret Map.empty (\<lambda>c. c)
       (''Bearer '' @ example_token) empty_ctx = Forwarded example_auth_ctx"
proof -
  have run: "AuthMiddleware example_lib example_auth_env example_secret Map.empty (\<lambda>c. c)
       (''Bearer '' @ example_token) empty_ctx = Forwarded example_auth_ctx"
    unfolding AuthMiddleware_bearer [OF example_header_split]
    by (simp add: example_token_valid example_claims_def example_auth_env_def Unix_def second_def
        IsTokenRevoked_def GetByID_def example_auth_ctx_def empty_ctx_def example_user_def)
  then have ok: "AuthMiddleware example_lib example_auth_env example_secret Map.empty (\<lambda>c. c)
       (''Bearer '' @ example_token) empty_ctx \<noteq> ErrUnauthorized"
    by simp
  from AuthMiddleware_unauthorized_iff [of example_lib example_auth_env example_secret Map.empty
      "\<lambda>c. c" "''Bearer '' @ example_token" empty_ctx] ok run
  show ?thesis by blast
qed


subsection \<open>UTF-8 and the second stand-in library\<close>

lemma coerce_valid: "ValidString s \<Longrightarrow> coerce_utf8 s = s"
  by (induction s rule: coerce_utf8.induct) (auto split: prod.splits)

lemma ValidString_ascii: "\<forall>c \<in> set s. (of_char c :: nat) < 0x80 \<Longrightarrow> ValidString s"
  by (induction s) (auto simp: Let_def RuneError_def)

lemma length_coerce: "length s \<le> length (coerce_utf8 s)"
  by (induction s rule: coerce_utf8.induct) (auto split: prod.splits)

lemma length_coerce_invalid: "\<not> ValidString s \<Longrightarrow> length s < length (coerce_utf8 s)"
proof (induction s rule: coerce_utf8.induct)
  case 1
  then show ?case by simp
next
  case (2 c cs)
  obtain r n where d: "DecodeRune (c # cs) = (r, n)" by (cases "DecodeRune (c # cs)")
  show ?case
  proof (cases "r = RuneError \<and> n = 1")
    case True
    with d length_coerce [of cs] show ?thesis by simp
  next
    case False
    with 2 d have "length (drop (n - 1) cs) < length (coerce_utf8 (drop (n - 1) cs))"
      by auto
    with d False show ?thesis by auto
  qed
qed

lemma coerce_eq_iff: "coerce_utf8 s = s \<longleftrightarrow> ValidString s"
  using coerce_valid [of s] length_coerce_invalid [of s] by (cases "ValidString s") auto

lemma coerce_hex: "coerce_utf8 (hex_EncodeToString x) = hex_EncodeToString x"
proof -
  have "\<forall>c \<in> set (hex_EncodeToString x). (of_char c :: nat) < 0x80"
    using hex_chars [of x] by auto
  then show ?thesis by (intro coerce_valid ValidString_ascii)
qed

lemma length_hex: "length (hex_EncodeToString x) = 2 * length x"
  by (induction x) (simp_all add: hex_EncodeToString_def)

lemma hex_no_comma: "CHR '','' \<notin> set (hex_EncodeToString x)"
  using hex_chars [of x] by auto

lemma digit_value_digit_all: "\<forall>n \<in> set [0..<10]. digit_value (''0123456789'' ! n) = Some n"
  by code_simp

lemma digit_value_digit: "n < 10 \<Longrightarrow> digit_value (''0123456789'' ! n) = Some n"
  using digit_value_digit_all by simp

lemma dec_nat_to_dec: "foldl dec_step (Some 0) (nat_to_dec n) = Some n"
proof (induction n rule: nat_to_dec.induct)
  case (1 n)
  show ?case
  proof (cases "n < 10")
    case True
    then show ?thesis
      by (subst nat_to_dec.simps) (simp add: dec_step_def digit_value_digit)
  next
    case False
    with 1 have ih: "foldl dec_step (Some 0) (nat_to_dec (n div 10)) = Some (n div 10)"
      by simp
    have "n mod 10 < 10" by simp
    with False ih show ?thesis
      by (subst nat_to_dec.simps) (simp add: dec_step_def digit_value_digit)
  qed
qed

lemma nat_to_dec_chars: "set (nat_to_dec n) \<subseteq> set ''0123456789''"
proof (induction n rule: nat_to_dec.induct)
  case (1 n)
  have d: "''0123456789'' ! k \<in> set ''0123456789''" if "k < 10" for k
    using that by (intro nth_mem) simp
  show ?case
  proof (cases "n < 10")
    case True
    with d [of n] show ?thesis by (subst nat_to_dec.simps) simp
  next
    case False
    with 1 have "set (nat_to_dec (n div 10)) \<subseteq> set ''0123456789''" by simp
    with False d [of "n mod 10"] show ?thesis by (subst nat_to_dec.simps) simp
  qed
qed

lemma nat_to_dec_not_Nil: "nat_to_dec n \<noteq> []"
  by (subst nat_to_dec.simps) simp

lemma dec_to_nat_nat_to_dec: "dec_to_nat (nat_to_dec n) = Some n"
  by (simp add: dec_to_nat_def nat_to_dec_not_Nil dec_nat_to_dec)

lemma atoi_itoa: "atoi (itoa i) = Some i"
proof (cases "i < 0")
  case True
  then show ?thesis by (simp add: atoi_def itoa_def dec_to_nat_nat_to_dec)
next
  case False
  obtain c cs where s: "nat_to_dec (nat i) = c # cs"
    using nat_to_dec_not_Nil [of "nat i"] by (cases "nat_to_dec (nat i)") auto
  then have "c \<in> set ''0123456789''"
    using nat_to_dec_chars [of "nat i"] by auto
  then have "c \<noteq> CHR ''-''" by auto
  with False s dec_to_nat_nat_to_dec [of "nat i"] show ?thesis
    by (simp add: atoi_def itoa_def)
qed

lemma itoa_no_comma: "CHR '','' \<notin> set (itoa i)"
  using nat_to_dec_chars [of "nat i"] nat_to_dec_chars [of "nat (- i)"]
  by (auto simp: itoa_def)

lemma Split_four:
  "sep \<notin> set a \<Longrightarrow> sep \<notin> set b \<Longrightarrow> sep \<notin> set c \<Longrightarrow> sep \<notin> set d
     \<Longrightarrow> Split (a @ sep # b @ sep # c @ sep # d) sep = [a, b, c, d]"
  by (simp add: Split_append_sep Split_no_sep)

lemma codec_roundtrip:
  "codec_Marshal cl = Inr p \<Longrightarrow>
   codec_Unmarshal p = Some (cl\<lparr>claims_Username := coerce_utf8 (claims_Username cl),
                                claims_JTI := coerce_utf8 (claims_JTI cl)\<rparr>)"
proof -
  assume "codec_Marshal cl = Inr p"
  then have p: "p = itoa (claims_UserID cl) @ CHR '','' #
                    hex_EncodeToString (coerce_utf8 (claims_Username cl)) @ CHR '','' #
                    hex_EncodeToString (coerce_utf8 (claims_JTI cl)) @ CHR '','' #
                    itoa (claims_ExpiresAt cl)"
    by (simp add: codec_Marshal_def)
  have "Split p (CHR '','') =
      [itoa (claims_UserID cl), hex_EncodeToString (coerce_utf8 (claims_Username cl)),
       hex_EncodeToString (coerce_utf8 (claims_JTI cl)), itoa (claims_ExpiresAt cl)]"
    unfolding p by (intro Split_four itoa_no_comma hex_no_comma)
  then show ?thesis
    by (simp add: codec_Unmarshal_def atoi_itoa hex_roundtrip)
qed

lemma codec_lib_props:
  "\<forall>x. CHR ''.'' \<notin> set (b64_EncodeToString codec_lib x)"
  "\<forall>x. b64_DecodeString codec_lib (b64_EncodeToString codec_lib x) = Some x"
  "\<forall>cl p. json_Marshal codec_lib cl = Inr p \<longrightarrow>
     json_Unmarshal codec_lib p
       = Some (cl\<lparr>claims_Username := coerce_utf8 (claims_Username cl),
                  claims_JTI := coerce_utf8 (claims_JTI cl)\<rparr>)"
  by (simp_all add: codec_lib_def hex_no_dot hex_roundtrip codec_roundtrip)

lemma codec_token_generated:
  "\<exists>token. GenerateJWT codec_lib example_source now userID username secret expiresIn = Inr token"
  by (simp add: GenerateJWT_def example_source_bytes codec_lib_def codec_Marshal_def Let_def)

text \<open>
  The claims of an issued token, read back. The library contracts are the ones
  \<open>base64.RawURLEncoding\<close> and \<open>encoding/json\<close> meet for every input: the encoder writes no
  dot, the decoder inverts it, and \<open>json.Unmarshal\<close> of what \<open>json.Marshal\<close> wrote returns
  the claims with their strings coerced to valid UTF-8.
\<close>

lemma issued_token_claims:
  assumes nodot: "\<forall>x. CHR ''.'' \<notin> set (b64_EncodeToString L x)"
      and b64: "\<forall>x. b64_DecodeString L (b64_EncodeToString L x) = Some x"
      and json: "\<forall>cl p. json_Marshal L cl = Inr p \<longrightarrow>
                   json_Unmarshal L p
                     = Some (cl\<lparr>claims_Username := coerce_utf8 (claims_Username cl),
                                claims_JTI := coerce_utf8 (claims_JTI cl)\<rparr>)"
      and gen: "GenerateJWT L src now userID username secret expiresIn = Inr token"
  shows "\<exists>jtiBytes. rand_Read src 16 = Inr jtiBytes \<and> length jtiBytes = 16
           \<and> validateJWT L token secret
               = Inr \<lparr>claims_UserID = userID, claims_Username = coerce_utf8 username,
                      claims_JTI = hex_EncodeToString jtiBytes,
                      claims_ExpiresAt = Unix (now + expiresIn)\<rparr>"
proof -
  from gen obtain jtiBytes where r: "rand_Read src 16 = Inr jtiBytes"
    by (cases "rand_Read src 16") (auto simp: GenerateJWT_def)
  then have len: "length jtiBytes = 16"
    by (auto simp: rand_Read_def split: sum.splits)
  let ?claims = "\<lparr>claims_UserID = userID, claims_Username = username,
                   claims_JTI = hex_EncodeToString jtiBytes,
                   claims_ExpiresAt = Unix (now + expiresIn)\<rparr>"
  from gen r obtain payloadBytes where m: "json_Marshal L ?claims = Inr payloadBytes"
    by (cases "json_Marshal L ?claims") (auto simp: GenerateJWT_def Let_def)
  let ?header = "b64_EncodeToString L jwt_header_json"
  let ?payload = "b64_EncodeToString L payloadBytes"
  let ?message = "?header @ ''.'' @ ?payload"
  from gen r m have tok: "token = ?message @ ''.'' @ createSignature L ?message secret"
    by (simp add: GenerateJWT_def Let_def)
  have sp: "Split token (CHR ''.'') = [?header, ?payload, createSignature L ?message secret]"
    unfolding tok using nodot Split_three [of "CHR ''.''" ?header ?payload "createSignature L ?message secret"]
    by (simp add: createSignature_def)
  from json m have um: "json_Unmarshal L payloadBytes
      = Some (?claims\<lparr>claims_Username := coerce_utf8 (claims_Username ?claims),
                      claims_JTI := coerce_utf8 (claims_JTI ?claims)\<rparr>)"
    by blast
  have "validateJWT L token secret
      = Inr \<lparr>claims_UserID = userID, claims_Username = coerce_utf8 username,
             claims_JTI = hex_EncodeToString jtiBytes,
             claims_ExpiresAt = Unix (now + expiresIn)\<rparr>"
    using sp b64 um by (simp add: validateJWT_def coerce_hex)
  with r len show ?thesis by blast
qed


text \<open>
  Claim C3, as the code has it. A token produced by \<open>GenerateJWT\<close> is accepted by
  \<open>validateJWT\<close> under the same secret; the claims returned carry the same user id, the
  username coerced to valid UTF-8 (the same username exactly when it is valid UTF-8), a JTI of
  32 hexadecimal digits and the expiry \<open>(now + expiresIn).Unix()\<close>. Any token is rejected
  whose third part is not the signature of its first two parts under the secret, or that does
  not have three parts.
\<close>

theorem GenerateJWT_validateJWT_roundtrip:
  assumes nodot: "\<forall>x. CHR ''.'' \<notin> set (b64_EncodeToString L x)"
      and b64: "\<forall>x. b64_DecodeString L (b64_EncodeToString L x) = Some x"
      and json: "\<forall>cl p. json_Marshal L cl = Inr p \<longrightarrow>
                   json_Unmarshal L p
                     = Some (cl\<lparr>claims_Username := coerce_utf8 (claims_Username cl),
                                claims_JTI := coerce_utf8 (claims_JTI cl)\<rparr>)"
      and gen: "GenerateJWT L src now userID username secret expiresIn = Inr token"
  shows "(\<exists>claims. validateJWT L token secret = Inr claims
            \<and> claims_UserID claims = userID
            \<and> claims_Username claims = coerce_utf8 username
            \<and> (claims_Username claims = username \<longleftrightarrow> ValidString username)
            \<and> length (claims_JTI claims) = 32
            \<and> set (claims_JTI claims) \<subseteq> set ''0123456789abcdef''
            \<and> claims_ExpiresAt claims = Unix (now + expiresIn))
       \<and> (\<forall>tok p0 p1 p2.
             Split tok (CHR ''.'') = [p0, p1, p2] \<and> p2 \<noteq> createSignature L (p0 @ ''.'' @ p1) secret
               \<longrightarrow> validateJWT L tok secret = Inl (Errorf ''invalid signature''))
       \<and> (\<forall>tok. length (Split tok (CHR ''.'')) \<noteq> 3
               \<longrightarrow> validateJWT L tok secret = Inl (Errorf ''invalid token format''))"
proof (intro conjI allI impI)
  from issued_token_claims [OF nodot b64 json gen]
  obtain jtiBytes where len: "length jtiBytes = 16"
    and v: "validateJWT L token secret
               = Inr \<lparr>claims_UserID = userID, claims_Username = coerce_utf8 username,
                      claims_JTI = hex_EncodeToString jtiBytes,
                      claims_ExpiresAt = Unix (now + expiresIn)\<rparr>"
    by blast
  from len have "length (hex_EncodeToString jtiBytes) = 32"
    by (simp add: length_hex)
  with v hex_chars [of jtiBytes] coerce_eq_iff [of username]
  show "\<exists>claims. validateJWT L token secret = Inr claims
            \<and> claims_UserID claims = userID
            \<and> claims_Username claims = coerce_utf8 username
            \<and> (claims_Username claims = username \<longleftrightarrow> ValidString username)
            \<and> length (claims_JTI claims) = 32
            \<and> set (claims_JTI claims) \<subseteq> set ''0123456789abcdef''
            \<and> claims_ExpiresAt claims = Unix (now + expiresIn)"
    by simp
next
  fix tok p0 p1 p2
  assume "Split tok (CHR ''.'') = [p0, p1, p2] \<and> p2 \<noteq> createSignature L (p0 @ ''.'' @ p1) secret"
  then show "validateJWT L tok secret = Inl (Errorf ''invalid signature'')"
    by (simp add: validateJWT_def)
next
  fix tok
  assume "length (Split tok (CHR ''.'')) \<noteq> 3"
  then show "validateJWT L tok secret = Inl (Errorf ''invalid token format'')"
    by (auto simp: validateJWT_def split: list.splits)
qed

theorem GenerateJWT_validateJWT_roundtrip_witness:
  "\<not> isl (GenerateJWT codec_lib example_source 0 7 ''octocat'' example_secret (24 * hour))
   \<and> ValidString ''octocat''
   \<and> \<not> isl (validateJWT codec_lib
              (projr (GenerateJWT codec_lib example_source 0 7 ''octocat'' example_secret
                        (24 * hour)))
              example_secret)
   \<and> claims_UserID (projr (validateJWT codec_lib
              (projr (GenerateJWT codec_lib example_source 0 7 ''octocat'' example_secret
                        (24 * hour)))
              example_secret)) = 7
   \<and> claims_Username (projr (validateJWT codec_lib
              (projr (GenerateJWT codec_lib example_source 0 7 ''octocat'' example_secret
                        (24 * hour)))
              example_secret)) = ''octocat''
   \<and> length (claims_JTI (projr (validateJWT codec_lib
              (projr (GenerateJWT codec_lib example_source 0 7 ''octocat'' example_secret
                        (24 * hour)))
              example_secret))) = 32
   \<and> claims_ExpiresAt (projr (validateJWT codec_lib
              (projr (GenerateJWT codec_lib example_source 0 7 ''octocat'' example_secret
                        (24 * hour)))
              example_secret)) = 86400"
proof -
  obtain token where
    g: "GenerateJWT codec_lib example_source 0 7 ''octocat'' example_secret (24 * hour) = Inr token"
    using codec_token_generated by blast
  have valid: "ValidString ''octocat''"
    by (simp add: RuneError_def)
  have unix: "Unix (0 + 24 * hour) = 86400"
    by (simp add: Unix_def hour_def minute_def second_def)
  from GenerateJWT_validateJWT_roundtrip [OF codec_lib_props g] valid
  obtain claims where "validateJWT codec_lib token example_secret = Inr claims"
    "claims_UserID claims = 7" "claims_Username claims = ''octocat''"
    "length (claims_JTI claims) = 32" "claims_ExpiresAt claims = Unix (0 + 24 * hour)"
    by blast
  with g valid unix show ?thesis by simp
qed

text \<open>
  The claim, as stated for every username, fails at a username that is not valid UTF-8. With
  the one byte \<open>0xFF\<close> as username, and the stand-in library whose JSON coder coerces
  strings as \<open>encoding/json\<close> does, the token is issued and accepted, and the claims
  returned carry the username U+FFFD, the three bytes \<open>0xEF 0xBF 0xBD\<close>.
\<close>

theorem username_not_preserved:
  "\<not> isl (GenerateJWT codec_lib example_source 0 7 [CHR 0xFF] example_secret (24 * hour))
   \<and> validateJWT codec_lib
       (projr (GenerateJWT codec_lib example_source 0 7 [CHR 0xFF] example_secret (24 * hour)))
       example_secret
     = Inr \<lparr>claims_UserID = 7, claims_Username = [CHR 0xEF, CHR 0xBF, CHR 0xBD],
            claims_JTI = example_jti, claims_ExpiresAt = 86400\<rparr>
   \<and> claims_Username (projr (validateJWT codec_lib
        (projr (GenerateJWT codec_lib example_source 0 7 [CHR 0xFF] example_secret (24 * hour)))
        example_secret)) \<noteq> [CHR 0xFF]"
proof -
  obtain token where
    g: "GenerateJWT codec_lib example_source 0 7 [CHR 0xFF] example_secret (24 * hour) = Inr token"
    using codec_token_generated by blast
  have unix: "Unix (24 * hour) = 86400"
    by (simp add: Unix_def hour_def minute_def second_def)
  have c: "coerce_utf8 [CHR 0xFF] = [CHR 0xEF, CHR 0xBF, CHR 0xBD]"
    by (simp add: RuneError_def)
  from issued_token_claims [OF codec_lib_props g]
  have "validateJWT codec_lib token example_secret
     = Inr \<lparr>claims_UserID = 7, claims_Username = [CHR 0xEF, CHR 0xBF, CHR 0xBD],
            claims_JTI = example_jti, claims_ExpiresAt = 86400\<rparr>"
    by (simp add: example_source_bytes example_jti_def unix c)
  with g show ?thesis by simp
qed

subsection \<open>Revocation\<close>

lemma RevokeToken_revoked_until:
  assumes "revoked_rows_typed tbl" "expiresAt > now"
  shows "revoked_until (snd (RevokeToken None tbl jti expiresAt)) jti now"
  using assms
  by (auto simp: revoked_until_def RevokeToken_def upsert_session_def revoked_rows_typed_def
      split: option.splits)

lemma apply_op_revoked_until:
  assumes "revoked_until tbl jti now" "t \<le> now"
    and "\<forall>e'. op = OpRevokeToken jti e' \<longrightarrow> e' > now"
  shows "revoked_until (apply_op tbl (t, op)) jti now"
proof (cases op)
  case (OpRevokeToken j e)
  show ?thesis
  proof (cases "j = jti")
    case True
    with OpRevokeToken assms show ?thesis
      by (auto simp: revoked_until_def RevokeToken_def upsert_session_def)
  next
    case False
    with OpRevokeToken assms show ?thesis
      by (auto simp: revoked_until_def RevokeToken_def upsert_session_def)
  qed
next
  case (OpCreateOAuthState st e)
  with assms show ?thesis
    by (auto simp: revoked_until_def CreateOAuthState_def upsert_session_def)
next
  case (OpDeleteOAuthState st)
  with assms show ?thesis
    by (auto simp: revoked_until_def DeleteOAuthState_def split: option.splits)
next
  case OpCleanup
  with assms show ?thesis
    by (auto simp: revoked_until_def CleanupExpiredSessions_def)
qed

lemma run_ops_revoked_until:
  assumes "revoked_until tbl jti now"
    and "\<forall>x \<in> set ops. fst x \<le> now \<and> (\<forall>e'. snd x = OpRevokeToken jti e' \<longrightarrow> e' > now)"
  shows "revoked_until (run_ops tbl ops) jti now"
  using assms unfolding run_ops_def
proof (induction ops arbitrary: tbl)
  case Nil
  then show ?case by simp
next
  case (Cons x xs)
  obtain t op where x: "x = (t, op)" by (cases x)
  with Cons.prems have "revoked_until (apply_op tbl (t, op)) jti now"
    by (intro apply_op_revoked_until) auto
  with Cons x show ?case by simp
qed

lemma revoked_until_rejected:
  assumes "revoked_until tbl jti (au_now E)" "jti \<noteq> []"
    and "validateJWT L token secret = Inr claims" "claims_JTI claims = jti"
  shows "AuthMiddleware L E secret tbl next (''Bearer '' @ token) c = ErrUnauthorized"
proof (cases "CHR '' '' \<in> set token")
  case True
  have "\<not> (\<exists>t. Split (''Bearer '' @ token) (CHR '' '') = [''Bearer'', t])"
  proof
    assume "\<exists>t. Split (''Bearer '' @ token) (CHR '' '') = [''Bearer'', t]"
    then obtain t where "Split (''Bearer '' @ token) (CHR '' '') = [''Bearer'', t]" by blast
    then have "''Bearer '' @ token = ''Bearer '' @ t \<and> CHR '' '' \<notin> set t"
      using bearer_split [of "''Bearer '' @ token" t] by blast
    with True show False by simp
  qed
  then show ?thesis by (rule AuthMiddleware_not_bearer)
next
  case False
  then have sp: "Split (''Bearer '' @ token) (CHR '' '') = [''Bearer'', token]"
    using bearer_split [of "''Bearer '' @ token" token] by blast
  from assms(1) have "IsTokenRevoked (au_revocation_fault E) (au_now E) tbl jti = Inr True
     \<or> (\<exists>e. IsTokenRevoked (au_revocation_fault E) (au_now E) tbl jti = Inl e)"
    by (auto simp: revoked_until_def IsTokenRevoked_def split: option.splits)
  with assms show ?thesis
    unfolding AuthMiddleware_bearer [OF sp] by auto
qed


text \<open>
  What revocation does guarantee. After a successful \<open>Logout\<close> on a context holding the
  token's JTI and expiry, and after any further statements on the sessions table run no later
  than the request (a later revocation of the same JTI recording an expiry that is still in the
  future), every request presenting a valid token with that JTI while the recorded expiry is
  in the future is answered 401 by the middleware.
\<close>

lemma revoked_token_rejected:
  assumes logout: "Logout fault c tbl = (JSON StatusOK body, tbl1)"
      and jti: "ctx_jwt_jti c = Some jti"
      and exp: "ctx_jwt_exp c = Some expiry"
      and typed: "revoked_rows_typed tbl"
      and later: "\<forall>x \<in> set ops. fst x \<le> au_now E
                    \<and> (\<forall>e'. snd x = OpRevokeToken jti e' \<longrightarrow> e' > au_now E)"
      and future: "time_Unix expiry > au_now E"
      and valid: "validateJWT L token secret = Inr claims"
      and same: "claims_JTI claims = jti"
  shows "AuthMiddleware L E secret (run_ops tbl1 ops) next (''Bearer '' @ token) c'
           = ErrUnauthorized"
proof -
  from logout jti have ne: "jti \<noteq> []"
    by (auto simp: Logout_def StatusOK_def StatusUnauthorized_def split: if_splits)
  from logout jti exp ne have f: "fault = None"
    by (cases fault) (auto simp: Logout_def RevokeToken_def StatusOK_def StatusInternalServerError_def)
  with logout jti exp ne have tbl1: "tbl1 = snd (RevokeToken None tbl jti (time_Unix expiry))"
    by (auto simp: Logout_def split: prod.splits option.splits)
  from typed future have "revoked_until tbl1 jti (au_now E)"
    unfolding tbl1 by (intro RevokeToken_revoked_until)
  then have "revoked_until (run_ops tbl1 ops) jti (au_now E)"
    using later by (rule run_ops_revoked_until)
  then show ?thesis
    using ne valid same by (intro revoked_until_rejected)
qed

lemma revoked_token_rejected_example:
  "Logout None example_auth_ctx Map.empty
     = (JSON StatusOK [(''message'', ''Logged out successfully'')], example_revoked_sessions)
   \<and> time_Unix 86400 > au_now example_auth_env
   \<and> validateJWT example_lib example_token example_secret = Inr example_claims
   \<and> AuthMiddleware example_lib example_auth_env example_secret
         (run_ops example_revoked_sessions example_ops) (\<lambda>c. c)
         (''Bearer '' @ example_token) empty_ctx = ErrUnauthorized"
proof -
  have logout: "Logout None example_auth_ctx Map.empty
     = (JSON StatusOK [(''message'', ''Logged out successfully'')], example_revoked_sessions)"
    by (simp add: Logout_def example_auth_ctx_def example_jti_def hex_EncodeToString_def
        RevokeToken_def upsert_session_def example_revoked_sessions_def)
  have typed: "revoked_rows_typed Map.empty"
    by (simp add: revoked_rows_typed_def)
  have later: "\<forall>x \<in> set example_ops. fst x \<le> au_now example_auth_env
        \<and> (\<forall>e'. snd x = OpRevokeToken example_jti e' \<longrightarrow> e' > au_now example_auth_env)"
    by (simp add: example_ops_def example_auth_env_def second_def)
  have future: "time_Unix 86400 > au_now example_auth_env"
    by (simp add: time_Unix_def example_auth_env_def second_def)
  have jti: "ctx_jwt_jti example_auth_ctx = Some example_jti"
    and exp: "ctx_jwt_exp example_auth_ctx = Some 86400"
    by (simp_all add: example_auth_ctx_def)
  have same: "claims_JTI example_claims = example_jti"
    by (simp add: example_claims_def)
  from revoked_token_rejected [OF logout jti exp typed later future example_token_valid same]
    logout future example_token_valid
  show ?thesis by simp
qed

text \<open>
  Claim C2, where it fails. \<open>Logout\<close> records the expiry \<open>time.Unix(exp, 0)\<close> and the
  revocation query selects the row only while \<open>expires_at > NOW()\<close>, but the middleware
  counts the token as expired only when \<open>now.Unix() > exp\<close>. During the second that begins
  at the recorded expiry the token is revoked and not yet expired, the row no longer matches,
  and the middleware accepts the token: for every valid token that carries a JTI, after a
  successful \<open>Logout\<close>, a request made in that second by a user the lookup finds is passed
  to the next handler.
\<close>

theorem revoked_token_accepted_in_last_second:
  assumes valid: "validateJWT L token secret = Inr claims"
      and nosp: "CHR '' '' \<notin> set token"
      and jti: "ctx_jwt_jti c = Some (claims_JTI claims)"
      and exp: "ctx_jwt_exp c = Some (claims_ExpiresAt claims)"
      and logout: "Logout fault c tbl = (JSON StatusOK body, tbl1)"
      and now: "time_Unix (claims_ExpiresAt claims) \<le> au_now E"
               "au_now E < time_Unix (claims_ExpiresAt claims + 1)"
      and nofault: "au_revocation_fault E = None"
      and user: "GetByID E (claims_UserID claims) = Inr user"
  shows "claims_JTI claims \<noteq> []
       \<and> \<not> Unix (au_now E) > claims_ExpiresAt claims
       \<and> (\<exists>row. tbl1 (''revoked:'' @ claims_JTI claims) = Some row
                \<and> row_expires_at row = time_Unix (claims_ExpiresAt claims))
       \<and> AuthMiddleware L E secret tbl1 handler (''Bearer '' @ token) c'
           = Forwarded (handler (c'\<lparr>ctx_user := Some user,
                                  ctx_user_id := Some (claims_UserID claims),
                                  ctx_username := Some (claims_Username claims),
                                  ctx_access_token := Some (usr_AccessToken user),
                                  ctx_jwt_jti := Some (claims_JTI claims),
                                  ctx_jwt_exp := Some (claims_ExpiresAt claims)\<rparr>))"
proof -
  let ?jti = "claims_JTI claims" and ?exp = "claims_ExpiresAt claims"
  from logout jti have ne: "?jti \<noteq> []"
    by (auto simp: Logout_def StatusOK_def StatusUnauthorized_def split: if_splits)
  from logout jti exp ne have f: "fault = None"
    by (cases fault) (auto simp: Logout_def RevokeToken_def StatusOK_def StatusInternalServerError_def)
  with logout jti exp ne have tbl1: "tbl1 = snd (RevokeToken None tbl ?jti (time_Unix ?exp))"
    by (auto simp: Logout_def split: prod.splits option.splits)
  then obtain row where row: "tbl1 (''revoked:'' @ ?jti) = Some row"
      "row_expires_at row = time_Unix ?exp"
    by (auto simp: RevokeToken_def upsert_session_def split: option.splits)
  from now have "?exp * second \<le> au_now E" "au_now E < (?exp + 1) * second"
    by (simp_all add: time_Unix_def)
  then have "au_now E div second = ?exp"
    by (simp add: second_def)
  then have unexpired: "\<not> Unix (au_now E) > ?exp"
    by (simp add: Unix_def)
  have notrev: "IsTokenRevoked (au_revocation_fault E) (au_now E) tbl1 ?jti = Inr False"
    using row now(1) nofault by (simp add: IsTokenRevoked_def)
  have sp: "Split (''Bearer '' @ token) (CHR '' '') = [''Bearer'', token]"
    using nosp bearer_split [of "''Bearer '' @ token" token] by blast
  have "AuthMiddleware L E secret tbl1 handler (''Bearer '' @ token) c'
           = Forwarded (handler (c'\<lparr>ctx_user := Some user,
                                  ctx_user_id := Some (claims_UserID claims),
                                  ctx_username := Some (claims_Username claims),
                                  ctx_access_token := Some (usr_AccessToken user),
                                  ctx_jwt_jti := Some (claims_JTI claims),
                                  ctx_jwt_exp := Some (claims_ExpiresAt claims)\<rparr>))"
    unfolding AuthMiddleware_bearer [OF sp] using valid unexpired notrev user by simp
  with ne unexpired row show ?thesis by blast
qed

theorem revoked_token_accepted_in_last_second_witness:
  "validateJWT example_lib example_token example_secret = Inr example_claims
   \<and> Logout None example_auth_ctx Map.empty
       = (JSON StatusOK [(''message'', ''Logged out successfully'')], example_revoked_sessions)
   \<and> IsTokenRevoked None (time_Unix 86400 - 1) example_revoked_sessions example_jti = Inr True
   \<and> AuthMiddleware example_lib (example_auth_env\<lparr>au_now := time_Unix 86400 - 1\<rparr>) example_secret
         example_revoked_sessions (\<lambda>c. c) (''Bearer '' @ example_token) empty_ctx
       = ErrUnauthorized
   \<and> \<not> Unix (time_Unix 86400 + 500000000) > claims_ExpiresAt example_claims
   \<and> AuthMiddleware example_lib (example_auth_env\<lparr>au_now := time_Unix 86400 + 500000000\<rparr>)
         example_secret example_revoked_sessions (\<lambda>c. c) (''Bearer '' @ example_token) empty_ctx
       = Forwarded example_auth_ctx"
proof -
  let ?E = "example_auth_env\<lparr>au_now := time_Unix 86400 + 500000000\<rparr>"
  have logout: "Logout None example_auth_ctx Map.empty
     = (JSON StatusOK [(''message'', ''Logged out successfully'')], example_revoked_sessions)"
    by (simp add: Logout_def example_auth_ctx_def example_jti_def hex_EncodeToString_def
        RevokeToken_def upsert_session_def example_revoked_sessions_def)
  have jti: "ctx_jwt_jti example_auth_ctx = Some (claims_JTI example_claims)"
    and exp: "ctx_jwt_exp example_auth_ctx = Some (claims_ExpiresAt example_claims)"
    by (simp_all add: example_auth_ctx_def example_claims_def)
  have now: "time_Unix (claims_ExpiresAt example_claims) \<le> au_now ?E"
      "au_now ?E < time_Unix (claims_ExpiresAt example_claims + 1)"
    by (simp_all add: example_claims_def time_Unix_def second_def)
  have nofault: "au_revocation_fault ?E = None"
    by (simp add: example_auth_env_def)
  have user: "GetByID ?E (claims_UserID example_claims) = Inr example_user"
    by (simp add: GetByID_def example_auth_env_def example_claims_def)
  have before: "IsTokenRevoked None (time_Unix 86400 - 1) example_revoked_sessions example_jti
      = Inr True"
    by (simp add: IsTokenRevoked_def example_revoked_sessions_def)
  have rejected: "AuthMiddleware example_lib (example_auth_env\<lparr>au_now := time_Unix 86400 - 1\<rparr>)
         example_secret example_revoked_sessions (\<lambda>c. c) (''Bearer '' @ example_token) empty_ctx
       = ErrUnauthorized"
    unfolding AuthMiddleware_bearer [OF example_header_split]
    by (simp add: example_token_valid example_claims_def example_auth_env_def Unix_def time_Unix_def
        second_def IsTokenRevoked_def example_revoked_sessions_def example_jti_def
        hex_EncodeToString_def)
  have filled: "empty_ctx\<lparr>ctx_user := Some example_user,
                  ctx_user_id := Some (claims_UserID example_claims),
                  ctx_username := Some (claims_Username example_claims),
                  ctx_access_token := Some (usr_AccessToken example_user),
                  ctx_jwt_jti := Some (claims_JTI example_claims),
                  ctx_jwt_exp := Some (claims_ExpiresAt example_claims)\<rparr> = example_auth_ctx"
    by (simp add: empty_ctx_def example_auth_ctx_def example_claims_def example_user_def)
  from revoked_token_accepted_in_last_second [where handler = "\<lambda>c. c" and c' = empty_ctx,
      OF example_token_valid example_token_no_space jti exp logout now nofault user]
    example_token_valid logout before rejected filled
  show ?thesis by simp
qed


subsection \<open>Handlers behind the middleware\<close>

lemma AuthMiddleware_cases:
  "AuthMiddleware L A secret tbl next authHeader c = ErrUnauthorized
   \<or> (\<exists>c' accessToken userID.
         ctx_access_token c' = Some accessToken \<and> ctx_user_id c' = Some userID
         \<and> AuthMiddleware L A secret tbl next authHeader c = Forwarded (next c'))"
proof (cases "\<exists>token. Split authHeader (CHR '' '') = [''Bearer'', token]")
  case False
  then show ?thesis by (simp add: AuthMiddleware_not_bearer)
next
  case True
  then obtain token where sp: "Split authHeader (CHR '' '') = [''Bearer'', token]" by blast
  note mw = AuthMiddleware_bearer [OF sp, of L A secret tbl "next" c]
  show ?thesis
  proof (cases "validateJWT L token secret")
    case (Inl e)
    with mw show ?thesis by simp
  next
    case (Inr claims)
    show ?thesis
    proof (cases "GetByID A (claims_UserID claims)")
      case (Inl e)
      with mw Inr show ?thesis by simp
    next
      case gr: (Inr user)
      let ?c = "c\<lparr>ctx_user := Some user,
                  ctx_user_id := Some (claims_UserID claims),
                  ctx_username := Some (claims_Username claims),
                  ctx_access_token := Some (usr_AccessToken user),
                  ctx_jwt_jti := Some (claims_JTI claims),
                  ctx_jwt_exp := Some (claims_ExpiresAt claims)\<rparr>"
      from mw Inr gr
      have "AuthMiddleware L A secret tbl next authHeader c = ErrUnauthorized
          \<or> AuthMiddleware L A secret tbl next authHeader c = Forwarded (next ?c)"
        by (simp split: if_splits)
      moreover have "ctx_access_token ?c = Some (usr_AccessToken user)"
        "ctx_user_id ?c = Some (claims_UserID claims)"
        by simp_all
      ultimately show ?thesis by blast
    qed
  qed
qed


text \<open>
  Claim C10. \<open>ClearUserCache\<close> returns nil for every input, whatever the store answers to the
  invalidation; hence \<open>ClearCache\<close> never answers 500 "Failed to clear cache", and a request
  to DELETE /cache is answered 401 by the auth middleware or 200 by the handler.
\<close>

theorem ClearUserCache_always_nil:
  "fst (ClearUserCache E s userID) = None
   \<and> fst (ClearCache E c s) \<noteq> HTTPError StatusInternalServerError ''Failed to clear cache''
   \<and> (AuthMiddleware L A secret tbl (\<lambda>c'. fst (ClearCache E c' s)) authHeader c = ErrUnauthorized
      \<or> AuthMiddleware L A secret tbl (\<lambda>c'. fst (ClearCache E c' s)) authHeader c
          = Forwarded (JSON StatusOK [(''message'', ''Cache cleared successfully'')]))"
proof (intro conjI)
  show "fst (ClearUserCache E s userID) = None"
    by (rule ClearUserCache_nil)
next
  show "fst (ClearCache E c s) \<noteq> HTTPError StatusInternalServerError ''Failed to clear cache''"
  proof (cases "ctx_user_id c")
    case None
    then show ?thesis
      by (simp add: ClearCache_def StatusUnauthorized_def StatusInternalServerError_def)
  next
    case (Some u)
    obtain r s' where cu: "ClearUserCache E s u = (r, s')"
      by (cases "ClearUserCache E s u")
    with ClearUserCache_nil [of E s u] have "r = None" by simp
    with Some cu show ?thesis by (simp add: ClearCache_def)
  qed
next
  have ok: "fst (ClearCache E c' s) = JSON StatusOK [(''message'', ''Cache cleared successfully'')]"
    if "ctx_user_id c' = Some u" for c' u
  proof -
    obtain r s' where cu: "ClearUserCache E s u = (r, s')"
      by (cases "ClearUserCache E s u")
    with ClearUserCache_nil [of E s u] have "r = None" by simp
    with cu that show ?thesis by (simp add: ClearCache_def)
  qed
  from AuthMiddleware_cases [of L A secret tbl "\<lambda>c'. fst (ClearCache E c' s)" authHeader c] ok
  show "AuthMiddleware L A secret tbl (\<lambda>c'. fst (ClearCache E c' s)) authHeader c = ErrUnauthorized
      \<or> AuthMiddleware L A secret tbl (\<lambda>c'. fst (ClearCache E c' s)) authHeader c
          = Forwarded (JSON StatusOK [(''message'', ''Cache cleared successfully'')])"
    by auto
qed

theorem ClearUserCache_always_nil_witness:
  "fst (ClearUserCache failing_github_env empty_github_state 7) = None
   \<and> AuthMiddleware example_lib example_auth_env example_secret Map.empty
        (\<lambda>c'. fst (ClearCache failing_github_env c' empty_github_state))
        (''Bearer '' @ example_token) empty_ctx
       = Forwarded (JSON StatusOK [(''message'', ''Cache cleared successfully'')])"
proof -
  have passes: "AuthMiddleware example_lib example_auth_env example_secret Map.empty next
        (''Bearer '' @ example_token) empty_ctx \<noteq> ErrUnauthorized" for "next" :: "ctx \<Rightarrow> 'r"
    unfolding AuthMiddleware_bearer [OF example_header_split]
    by (simp add: example_token_valid example_claims_def example_auth_env_def Unix_def second_def
        IsTokenRevoked_def GetByID_def)
  from ClearUserCache_always_nil [where E = failing_github_env and s = empty_github_state
      and userID = 7 and L = example_lib and A = example_auth_env and secret = example_secret
      and tbl = Map.empty and authHeader = "''Bearer '' @ example_token" and c = empty_ctx]
    passes
  show ?thesis by blast
qed

text \<open>
  Claim C6. A request to the batch-analyze route that passes the auth middleware is answered 400,
  with the state untouched, when the body does not bind, when the list is empty and when it has
  more than ten entries; and the handler's outcome is the same for any two services that agree
  on lists of one to ten names, so no longer list is ever passed to the analysis service.
\<close>

theorem BatchAnalyze_validation:
  "(AuthMiddleware L A secret tbl (\<lambda>c'. BatchAnalyze service c' (Inl e) s) authHeader c
      = ErrUnauthorized
    \<or> AuthMiddleware L A secret tbl (\<lambda>c'. BatchAnalyze service c' (Inl e) s) authHeader c
      = Forwarded (HTTPError StatusBadRequest ''Invalid request body'', s))
   \<and> (AuthMiddleware L A secret tbl (\<lambda>c'. BatchAnalyze service c' (Inr []) s) authHeader c
      = ErrUnauthorized
    \<or> AuthMiddleware L A secret tbl (\<lambda>c'. BatchAnalyze service c' (Inr []) s) authHeader c
      = Forwarded (HTTPError StatusBadRequest ''At least one repository is required'', s))
   \<and> (length repos > 10 \<longrightarrow>
        AuthMiddleware L A secret tbl (\<lambda>c'. BatchAnalyze service c' (Inr repos) s) authHeader c
          = ErrUnauthorized
        \<or> AuthMiddleware L A secret tbl (\<lambda>c'. BatchAnalyze service c' (Inr repos) s) authHeader c
          = Forwarded (HTTPError StatusBadRequest ''Maximum 10 repositories allowed'', s))
   \<and> ((\<forall>tok rs st. 1 \<le> length rs \<and> length rs \<le> 10 \<longrightarrow> service tok rs st = service' tok rs st)
        \<longrightarrow> BatchAnalyze service c body s = BatchAnalyze service' c body s)"
proof (intro conjI impI)
  have invalid: "BatchAnalyze service c' (Inl e) s
      = (HTTPError StatusBadRequest ''Invalid request body'', s)"
    if "ctx_access_token c' = Some t" for c' t
    using that by (simp add: BatchAnalyze_def)
  from AuthMiddleware_cases [of L A secret tbl "\<lambda>c'. BatchAnalyze service c' (Inl e) s" authHeader c]
    invalid
  show "AuthMiddleware L A secret tbl (\<lambda>c'. BatchAnalyze service c' (Inl e) s) authHeader c
      = ErrUnauthorized
    \<or> AuthMiddleware L A secret tbl (\<lambda>c'. BatchAnalyze service c' (Inl e) s) authHeader c
      = Forwarded (HTTPError StatusBadRequest ''Invalid request body'', s)"
    by auto
next
  have empty: "BatchAnalyze service c' (Inr []) s
      = (HTTPError StatusBadRequest ''At least one repository is required'', s)"
    if "ctx_access_token c' = Some t" for c' t
    using that by (simp add: BatchAnalyze_def)
  from AuthMiddleware_cases [of L A secret tbl "\<lambda>c'. BatchAnalyze service c' (Inr []) s" authHeader c]
    empty
  show "AuthMiddleware L A secret tbl (\<lambda>c'. BatchAnalyze service c' (Inr []) s) authHeader c
      = ErrUnauthorized
    \<or> AuthMiddleware L A secret tbl (\<lambda>c'. BatchAnalyze service c' (Inr []) s) authHeader c
      = Forwarded (HTTPError StatusBadRequest ''At least one repository is required'', s)"
    by auto
next
  assume long: "length repos > 10"
  have many: "BatchAnalyze service c' (Inr repos) s
      = (HTTPError StatusBadRequest ''Maximum 10 repositories allowed'', s)"
    if "ctx_access_token c' = Some t" for c' t
    using that long by (auto simp: BatchAnalyze_def)
  from AuthMiddleware_cases [of L A secret tbl "\<lambda>c'. BatchAnalyze service c' (Inr repos) s" authHeader c]
    many
  show "AuthMiddleware L A secret tbl (\<lambda>c'. BatchAnalyze service c' (Inr repos) s) authHeader c
          = ErrUnauthorized
        \<or> AuthMiddleware L A secret tbl (\<lambda>c'. BatchAnalyze service c' (Inr repos) s) authHeader c
          = Forwarded (HTTPError StatusBadRequest ''Maximum 10 repositories allowed'', s)"
    by auto
next
  assume agree: "\<forall>tok rs st. 1 \<le> length rs \<and> length rs \<le> 10 \<longrightarrow> service tok rs st = service' tok rs st"
  show "BatchAnalyze service c body s = BatchAnalyze service' c body s"
  proof (cases "ctx_access_token c")
    case None
    then show ?thesis by (simp add: BatchAnalyze_def)
  next
    case (Some accessToken)
    show ?thesis
    proof (cases body)
      case (Inl e')
      with Some show ?thesis by (simp add: BatchAnalyze_def)
    next
      case (Inr rs)
      show ?thesis
      proof (cases "1 \<le> length rs \<and> length rs \<le> 10")
        case True
        with agree have "service accessToken rs s = service' accessToken rs s" by blast
        with Inr Some show ?thesis by (simp add: BatchAnalyze_def)
      next
        case False
        then have "rs = [] \<or> length rs > 10" by (cases rs) auto
        with Inr Some show ?thesis by (auto simp: BatchAnalyze_def)
      qed
    qed
  qed
qed

theorem BatchAnalyze_validation_witness:
  "length eleven_repos > 10
   \<and> AuthMiddleware example_lib example_auth_env example_secret Map.empty
        (\<lambda>c'. BatchAnalyze capped_service c' (Inl (Errorf ''unexpected EOF'')) 0)
        (''Bearer '' @ example_token) empty_ctx
       = Forwarded (HTTPError StatusBadRequest ''Invalid request body'', 0)
   \<and> AuthMiddleware example_lib example_auth_env example_secret Map.empty
        (\<lambda>c'. BatchAnalyze capped_service c' (Inr []) 0)
        (''Bearer '' @ example_token) empty_ctx
       = Forwarded (HTTPError StatusBadRequest ''At least one repository is required'', 0)
   \<and> AuthMiddleware example_lib example_auth_env example_secret Map.empty
        (\<lambda>c'. BatchAnalyze capped_service c' (Inr eleven_repos) 0)
        (''Bearer '' @ example_token) empty_ctx
       = Forwarded (HTTPError StatusBadRequest ''Maximum 10 repositories allowed'', 0)
   \<and> BatchAnalyze capped_service example_ctx (Inr [''octo/app'']) 0
       = BatchAnalyze (BatchAnalyzeRepositories example_analyze) example_ctx (Inr [''octo/app'']) 0"
proof -
  have len: "length eleven_repos > 10"
    by (simp add: eleven_repos_def)
  have agree: "\<forall>tok rs st. 1 \<le> length rs \<and> length rs \<le> 10 \<longrightarrow>
      capped_service tok rs st = BatchAnalyzeRepositories example_analyze tok rs st"
    by (simp add: capped_service_def)
  have passes: "AuthMiddleware example_lib example_auth_env example_secret Map.empty next
        (''Bearer '' @ example_token) empty_ctx \<noteq> ErrUnauthorized" for "next" :: "ctx \<Rightarrow> 'r"
    unfolding AuthMiddleware_bearer [OF example_header_split]
    by (simp add: example_token_valid example_claims_def example_auth_env_def Unix_def second_def
        IsTokenRevoked_def GetByID_def)
  note w1 = BatchAnalyze_validation [where L = example_lib and A = example_auth_env
      and secret = example_secret and tbl = Map.empty and service = capped_service
      and e = "Errorf ''unexpected EOF''" and s = "0 :: nat"
      and authHeader = "''Bearer '' @ example_token" and c = empty_ctx and repos = eleven_repos
      and service' = "BatchAnalyzeRepositories example_analyze"]
  note w2 = BatchAnalyze_validation [where service = capped_service and s = "0 :: nat"
      and c = example_ctx and body = "Inr [''octo/app'']"
      and service' = "BatchAnalyzeRepositories example_analyze"]
  from w1 w2 len agree passes show ?thesis by blast
qed


section \<open>Properties of the progress channel\<close>

lemma select_send_default_cases:
  "select_send_default ch v =
     (if length (chan_buf ch) < chan_cap ch then (ch\<lparr>chan_buf := chan_buf ch @ [v]\<rparr>, True)
      else (ch, False))"
  by (simp add: select_send_default_def chan_send_def)

lemma send_bounded:
  assumes "length (chan_buf ch) \<le> chan_cap ch"
  shows "length (chan_buf (fst (send ch stage pct msg))) \<le> chan_cap ch
       \<and> chan_cap (fst (send ch stage pct msg)) = chan_cap ch"
  using assms by (simp add: send_def select_send_default_cases)

lemma chan_receive_bounded:
  assumes "length (chan_buf ch) \<le> chan_cap ch"
  shows "length (chan_buf (chan_receive k ch)) \<le> chan_cap ch
       \<and> chan_cap (chan_receive k ch) = chan_cap ch"
  using assms by (simp add: chan_receive_def)

lemma generateWithProgress_bounded:
  assumes "length (chan_buf ch) \<le> chan_cap ch"
  shows "length (chan_buf (fst (snd (generateWithProgress generated projects consumed ch))))
           \<le> chan_cap ch"
proof -
  let ?c0 = "chan_receive (consumed 0) ch"
  let ?s1 = "fst (send ?c0 ''init'' 0.0 ''Starting profile generation...'')"
  let ?c1 = "chan_receive (consumed 1) ?s1"
  let ?s2 = "fst (send ?c1 ''analyzing'' 0.1
                        (''Preparing '' @ itoa (int projects) @ '' project(s) for analysis...''))"
  let ?c2 = "chan_receive (consumed 2) ?s2"
  let ?s3 = "fst (send ?c2 ''generating'' 0.4 (''Sending to AI '' @ em_dash @ '' this may take up to 30 seconds...''))"
  let ?c3 = "chan_receive (consumed 3) ?s3"
  let ?s4 = "fst (send ?c3 ''finalizing'' 0.95 ''Assembling final profile...'')"
  have b0: "length (chan_buf ?c0) \<le> chan_cap ?c0" "chan_cap ?c0 = chan_cap ch"
    using chan_receive_bounded [OF assms] by simp_all
  have b1: "length (chan_buf ?s1) \<le> chan_cap ?s1" "chan_cap ?s1 = chan_cap ch"
    using send_bounded [OF b0(1)] b0(2) by simp_all
  have b1': "length (chan_buf ?c1) \<le> chan_cap ?c1" "chan_cap ?c1 = chan_cap ch"
    using chan_receive_bounded [OF b1(1)] b1(2) by simp_all
  have b2: "length (chan_buf ?s2) \<le> chan_cap ?s2" "chan_cap ?s2 = chan_cap ch"
    using send_bounded [OF b1'(1)] b1'(2) by simp_all
  have b2': "length (chan_buf ?c2) \<le> chan_cap ?c2" "chan_cap ?c2 = chan_cap ch"
    using chan_receive_bounded [OF b2(1)] b2(2) by simp_all
  have b3: "length (chan_buf ?s3) \<le> chan_cap ?s3" "chan_cap ?s3 = chan_cap ch"
    using send_bounded [OF b2'(1)] b2'(2) by simp_all
  have b3': "length (chan_buf ?c3) \<le> chan_cap ?c3" "chan_cap ?c3 = chan_cap ch"
    using chan_receive_bounded [OF b3(1)] b3(2) by simp_all
  have b4: "length (chan_buf ?s4) \<le> chan_cap ?s4" "chan_cap ?s4 = chan_cap ch"
    using send_bounded [OF b3'(1)] b3'(2) by simp_all
  show ?thesis
  proof (cases generated)
    case (Inl err)
    then have "fst (snd (generateWithProgress generated projects consumed ch)) = ?s3"
      by (simp add: generateWithProgress_def Let_def split: prod.splits)
    with b3 show ?thesis by simp
  next
    case (Inr response)
    then have "fst (snd (generateWithProgress generated projects consumed ch)) = ?s4"
      by (simp add: generateWithProgress_def Let_def split: prod.splits)
    with b4 show ?thesis by simp
  qed
qed


text \<open>
  Claim C8. The progress channel is created with capacity 10 and empty; every send of
  \<open>generateWithProgress\<close> queues its update when the buffer has room and otherwise returns at
  once with the update dropped, in particular where the plain send would block; and whatever
  the consumer does, the buffer never holds more than 10 updates.
\<close>

theorem progress_channel_nonblocking:
  "chan_cap progressCh = 10 \<and> chan_buf progressCh = []
   \<and> send ch stage pct msg =
       (if length (chan_buf ch) < chan_cap ch
        then (ch\<lparr>chan_buf := chan_buf ch
                 @ [\<lparr>pu_Stage = stage, pu_Progress = pct, pu_Message = msg, pu_Error = []\<rparr>]\<rparr>, True)
        else (ch, False))
   \<and> (chan_send ch \<lparr>pu_Stage = stage, pu_Progress = pct, pu_Message = msg, pu_Error = []\<rparr> = None
        \<longrightarrow> send ch stage pct msg = (ch, False))
   \<and> length (chan_buf (fst (snd (generateWithProgress generated projects consumed progressCh))))
        \<le> 10
   \<and> length (snd (snd (generateWithProgress generated projects consumed progressCh)))
        = (if isl generated then 3 else 4)"
proof (intro conjI)
  show "chan_cap progressCh = 10" "chan_buf progressCh = []"
    by (simp_all add: progressCh_def make_chan_def)
  show "send ch stage pct msg =
       (if length (chan_buf ch) < chan_cap ch
        then (ch\<lparr>chan_buf := chan_buf ch
                 @ [\<lparr>pu_Stage = stage, pu_Progress = pct, pu_Message = msg, pu_Error = []\<rparr>]\<rparr>, True)
        else (ch, False))"
    by (simp add: send_def select_send_default_cases)
  show "chan_send ch \<lparr>pu_Stage = stage, pu_Progress = pct, pu_Message = msg, pu_Error = []\<rparr> = None
        \<longrightarrow> send ch stage pct msg = (ch, False)"
    by (simp add: send_def select_send_default_def)
  have "length (chan_buf (progressCh :: ProgressUpdate chan)) \<le> chan_cap progressCh"
    by (simp add: progressCh_def make_chan_def)
  from generateWithProgress_bounded [OF this, of generated projects consumed]
  show "length (chan_buf (fst (snd (generateWithProgress generated projects consumed progressCh))))
        \<le> 10"
    by (simp add: progressCh_def make_chan_def)
  show "length (snd (snd (generateWithProgress generated projects consumed progressCh)))
        = (if isl generated then 3 else 4)"
    by (cases generated) (simp_all add: generateWithProgress_def Let_def split: prod.splits)
qed

theorem progress_channel_nonblocking_witness:
  "chan_send full_channel \<lparr>pu_Stage = ''finalizing'', pu_Progress = 0.95,
       pu_Message = ''Assembling final profile...'', pu_Error = []\<rparr> = None
   \<and> send full_channel ''finalizing'' 0.95 ''Assembling final profile...'' = (full_channel, False)"
proof -
  have blocked: "chan_send full_channel \<lparr>pu_Stage = ''finalizing'', pu_Progress = 0.95,
       pu_Message = ''Assembling final profile...'', pu_Error = []\<rparr> = None"
    by (simp add: chan_send_def full_channel_def)
  from progress_channel_nonblocking [of full_channel "''finalizing''" "0.95"
      "''Assembling final profile...''"] blocked
  show ?thesis by blast
qed


section \<open>Properties of the profile service\<close>

subsection \<open>Cache writes\<close>

lemma fst_GenerateProfile:
  "fst (GenerateProfile E s req user) =
     (if req_UserAPIKey req = []
      then Inl (Errorf ''API key required - get free key: https://aistudio.google.com/app/apikey'')
      else if length (req_Projects req) = 0 then Inl (Errorf ''at least one project required'')
      else (case profile_cache_Get E s
                   (GetCacheKey (usr_Username user) (req_TargetRole req) (req_ToneOfVoice req)
                      (length (req_Projects req))) of
              Inr (Some cached) \<Rightarrow> Inr cached
            | _ \<Rightarrow>
               (case GenerateBatchedProfile E (req_UserAPIKey req) (batch_request user req) of
                  Inl err \<Rightarrow> Inl (wrap_returned ''generation failed'' err)
                | Inr batchResp \<Rightarrow> Inr (assemble_response (pe_LowerCase E) (pe_map_order E) user req batchResp))))"
  by (auto simp: GenerateProfile_def Let_def split: sum.splits option.splits prod.splits)

lemma snd_GenerateProfile_generated:
  assumes "req_UserAPIKey req \<noteq> []" "req_Projects req \<noteq> []"
    and "\<forall>cached. profile_cache_Get E s
                   (GetCacheKey (usr_Username user) (req_TargetRole req) (req_ToneOfVoice req)
                      (length (req_Projects req))) \<noteq> Inr (Some cached)"
    and "GenerateBatchedProfile E (req_UserAPIKey req) (batch_request user req) = Inr batchResp"
  shows "snd (GenerateProfile E s req user) =
     (case profile_cache_Set E s (usr_ID user) 0
             (GetCacheKey (usr_Username user) (req_TargetRole req) (req_ToneOfVoice req)
                (length (req_Projects req)))
             (assemble_response (pe_LowerCase E) (pe_map_order E) user req batchResp) (24 * hour) of
        (Some e, s') \<Rightarrow>
          s'\<lparr>profile_log := profile_log s' @ [''Failed to cache profile generation result'']\<rparr>
      | (None, s') \<Rightarrow> s')"
  using assms
  by (auto simp: GenerateProfile_def Let_def split: sum.splits option.splits prod.splits)

lemma profile_cache_Set_failed:
  "fst (profile_cache_Set E s userID configID cacheKey response ttl) \<noteq> None
     \<Longrightarrow> snd (profile_cache_Set E s userID configID cacheKey response ttl) = s"
  by (auto simp: profile_cache_Set_def split: sum.splits option.splits if_splits)

lemma fst_ListUserRepositories:
  "fst (ListUserRepositories G t userID accessToken includePrivate) =
     (case GetRepositoryList G t userID includePrivate of
        Inr (Some cachedRepos) \<Rightarrow> Inr cachedRepos
      | _ \<Rightarrow>
          (case gh_ListRepositories G accessToken includePrivate of
             Inl e \<Rightarrow> Inl (Wrap ''failed to list repositories'' e)
           | Inr githubRepos \<Rightarrow>
               Inr (map to_Repository
                      (filter (\<lambda>gr. includePrivate \<or> \<not> gr_Private gr) githubRepos))))"
  by (auto simp: ListUserRepositories_def Let_def split: sum.splits option.splits prod.splits)

lemma snd_ListUserRepositories_fetched:
  assumes "\<forall>cachedRepos. GetRepositoryList G t userID includePrivate \<noteq> Inr (Some cachedRepos)"
    and "gh_ListRepositories G accessToken includePrivate = Inr githubRepos"
  shows "snd (ListUserRepositories G t userID accessToken includePrivate) =
     (case SetRepositoryList G t userID includePrivate
             (map to_Repository
                (filter (\<lambda>gr. includePrivate \<or> \<not> gr_Private gr) githubRepos)) of
        (Some e, s') \<Rightarrow> slog_Warn ''Failed to cache repository list'' s'
      | (None, s') \<Rightarrow> s')"
  using assms
  by (auto simp: ListUserRepositories_def Let_def split: sum.splits option.splits prod.splits)

lemma SetRepositoryList_failed:
  "fst (SetRepositoryList G t userID includePrivate repos) \<noteq> None
     \<Longrightarrow> snd (SetRepositoryList G t userID includePrivate repos) = t"
  by (auto simp: SetRepositoryList_def split: sum.splits option.splits)


text \<open>
  Claim C7. A generation that succeeded (the request has an API key and projects, the cache
  did not answer, and the LLM call returned a batch response) makes \<open>GenerateProfile\<close> return
  the response assembled from that batch response, whatever the cache write does; when the
  write fails, the state is the one before the call with one more line in the log, and when it
  succeeds, the state is the one the write left. Likewise a listing that succeeded (the cache
  did not answer and GitHub returned the repositories) makes \<open>ListUserRepositories\<close> return
  the fetched repositories, private ones dropped unless asked for; when \<open>SetRepositoryList\<close>
  fails, the state is the one before the call with one more line in the log.
\<close>

theorem cache_write_best_effort:
  "(req_UserAPIKey req \<noteq> [] \<and> req_Projects req \<noteq> []
      \<and> (\<forall>cached. profile_cache_Get E s
                     (GetCacheKey (usr_Username user) (req_TargetRole req) (req_ToneOfVoice req)
                        (length (req_Projects req))) \<noteq> Inr (Some cached))
      \<and> GenerateBatchedProfile E (req_UserAPIKey req) (batch_request user req) = Inr batchResp
    \<longrightarrow> fst (GenerateProfile E s req user)
          = Inr (assemble_response (pe_LowerCase E) (pe_map_order E) user req batchResp)
        \<and> (fst (profile_cache_Set E s (usr_ID user) 0
                   (GetCacheKey (usr_Username user) (req_TargetRole req) (req_ToneOfVoice req)
                      (length (req_Projects req)))
                   (assemble_response (pe_LowerCase E) (pe_map_order E) user req batchResp) (24 * hour)) \<noteq> None
             \<longrightarrow> snd (GenerateProfile E s req user)
                   = s\<lparr>profile_log := profile_log s
                          @ [''Failed to cache profile generation result'']\<rparr>)
        \<and> (fst (profile_cache_Set E s (usr_ID user) 0
                   (GetCacheKey (usr_Username user) (req_TargetRole req) (req_ToneOfVoice req)
                      (length (req_Projects req)))
                   (assemble_response (pe_LowerCase E) (pe_map_order E) user req batchResp) (24 * hour)) = None
             \<longrightarrow> snd (GenerateProfile E s req user)
                   = snd (profile_cache_Set E s (usr_ID user) 0
                            (GetCacheKey (usr_Username user) (req_TargetRole req)
                               (req_ToneOfVoice req) (length (req_Projects req)))
                            (assemble_response (pe_LowerCase E) (pe_map_order E) user req batchResp) (24 * hour))))
   \<and> ((\<forall>cachedRepos. GetRepositoryList G t userID includePrivate \<noteq> Inr (Some cachedRepos))
      \<and> gh_ListRepositories G accessToken includePrivate = Inr githubRepos
    \<longrightarrow> fst (ListUserRepositories G t userID accessToken includePrivate)
          = Inr (map to_Repository
                   (filter (\<lambda>gr. includePrivate \<or> \<not> gr_Private gr) githubRepos))
        \<and> (fst (SetRepositoryList G t userID includePrivate
                   (map to_Repository
                      (filter (\<lambda>gr. includePrivate \<or> \<not> gr_Private gr) githubRepos))) \<noteq> None
             \<longrightarrow> snd (ListUserRepositories G t userID accessToken includePrivate)
                   = slog_Warn ''Failed to cache repository list'' t)
        \<and> (fst (SetRepositoryList G t userID includePrivate
                   (map to_Repository
                      (filter (\<lambda>gr. includePrivate \<or> \<not> gr_Private gr) githubRepos))) = None
             \<longrightarrow> snd (ListUserRepositories G t userID accessToken includePrivate)
                   = snd (SetRepositoryList G t userID includePrivate
                            (map to_Repository
                               (filter (\<lambda>gr. includePrivate \<or> \<not> gr_Private gr) githubRepos)))))"
proof (intro conjI impI)
  let ?key = "GetCacheKey (usr_Username user) (req_TargetRole req) (req_ToneOfVoice req)
                (length (req_Projects req))"
  let ?resp = "assemble_response (pe_LowerCase E) (pe_map_order E) user req batchResp"
  let ?set = "profile_cache_Set E s (usr_ID user) 0 ?key ?resp (24 * hour)"
  assume h: "req_UserAPIKey req \<noteq> [] \<and> req_Projects req \<noteq> []
      \<and> (\<forall>cached. profile_cache_Get E s ?key \<noteq> Inr (Some cached))
      \<and> GenerateBatchedProfile E (req_UserAPIKey req) (batch_request user req) = Inr batchResp"
  then have miss: "(case profile_cache_Get E s ?key of Inr (Some cached) \<Rightarrow> a cached | _ \<Rightarrow> b) = b"
    for a :: "ContentGenerationResponse \<Rightarrow> error + ContentGenerationResponse" and b
    by (auto split: sum.splits option.splits)
  from h show "fst (GenerateProfile E s req user) = Inr ?resp"
    unfolding fst_GenerateProfile miss by simp
  from h have st: "snd (GenerateProfile E s req user) =
       (case ?set of
          (Some e, s') \<Rightarrow>
            s'\<lparr>profile_log := profile_log s' @ [''Failed to cache profile generation result'']\<rparr>
        | (None, s') \<Rightarrow> s')"
    by (intro snd_GenerateProfile_generated) simp_all
  {
    assume f: "fst ?set \<noteq> None"
    from profile_cache_Set_failed [OF f] f
    show "snd (GenerateProfile E s req user)
        = s\<lparr>profile_log := profile_log s @ [''Failed to cache profile generation result'']\<rparr>"
      unfolding st by (cases ?set) auto
  }
  {
    assume "fst ?set = None"
    then show "snd (GenerateProfile E s req user) = snd ?set"
      unfolding st by (cases ?set) auto
  }
next
  let ?repos = "map to_Repository
                  (filter (\<lambda>gr. includePrivate \<or> \<not> gr_Private gr) githubRepos)"
  let ?set = "SetRepositoryList G t userID includePrivate ?repos"
  assume h: "(\<forall>cachedRepos. GetRepositoryList G t userID includePrivate \<noteq> Inr (Some cachedRepos))
      \<and> gh_ListRepositories G accessToken includePrivate = Inr githubRepos"
  then have miss: "(case GetRepositoryList G t userID includePrivate of
                      Inr (Some cachedRepos) \<Rightarrow> a cachedRepos | _ \<Rightarrow> b) = b"
    for a :: "Repository list \<Rightarrow> error + Repository list" and b
    by (auto split: sum.splits option.splits)
  from h show "fst (ListUserRepositories G t userID accessToken includePrivate) = Inr ?repos"
    unfolding fst_ListUserRepositories miss by simp
  from h have st: "snd (ListUserRepositories G t userID accessToken includePrivate) =
       (case ?set of
          (Some e, s') \<Rightarrow> slog_Warn ''Failed to cache repository list'' s'
        | (None, s') \<Rightarrow> s')"
    by (intro snd_ListUserRepositories_fetched) simp_all
  {
    assume f: "fst ?set \<noteq> None"
    from SetRepositoryList_failed [OF f] f
    show "snd (ListUserRepositories G t userID accessToken includePrivate)
        = slog_Warn ''Failed to cache repository list'' t"
      unfolding st by (cases ?set) auto
  }
  {
    assume "fst ?set = None"
    then show "snd (ListUserRepositories G t userID accessToken includePrivate) = snd ?set"
      unfolding st by (cases ?set) auto
  }
qed

lemma analysed_request_generated:
  "GenerateBatchedProfile example_profile_env (req_UserAPIKey analysed_request)
       (batch_request example_user analysed_request)
     = Inr example_batch_response"
  by (simp add: GenerateBatchedProfile_def example_profile_env_def batch_request_def
      analysed_request_def example_request_def analysed_project_def example_batch_response_def)

theorem cache_write_best_effort_witness:
  "None \<notin> set (map ra_Repository (req_Projects analysed_request))
   \<and> fst (profile_cache_Set example_profile_env empty_profile_state (usr_ID example_user) 0
            (GetCacheKey (usr_Username example_user) (req_TargetRole analysed_request)
               (req_ToneOfVoice analysed_request) (length (req_Projects analysed_request)))
            (assemble_response example_case_table ord_id example_user analysed_request example_batch_response)
            (24 * hour)) \<noteq> None
   \<and> GenerateProfile example_profile_env empty_profile_state analysed_request example_user
       = (Inr (assemble_response example_case_table ord_id example_user analysed_request example_batch_response),
          empty_profile_state\<lparr>profile_log := [''Failed to cache profile generation result'']\<rparr>)
   \<and> fst (SetRepositoryList listing_github_env empty_github_state 7 False [example_repository])
       \<noteq> None
   \<and> ListUserRepositories listing_github_env empty_github_state 7 ''gho_token'' False
       = (Inr [example_repository],
          empty_github_state\<lparr>service_log := [''Failed to cache repository list'']\<rparr>)"
proof -
  let ?key = "GetCacheKey (usr_Username example_user) (req_TargetRole analysed_request)
                (req_ToneOfVoice analysed_request) (length (req_Projects analysed_request))"
  let ?resp = "assemble_response example_case_table ord_id example_user analysed_request example_batch_response"
  have repo: "None \<notin> set (map ra_Repository (req_Projects analysed_request))"
    by (simp add: analysed_request_def analysed_project_def)
  have pre: "req_UserAPIKey analysed_request \<noteq> [] \<and> req_Projects analysed_request \<noteq> []
      \<and> (\<forall>cached. profile_cache_Get example_profile_env empty_profile_state ?key
                     \<noteq> Inr (Some cached))"
    by (simp add: analysed_request_def example_request_def profile_cache_Get_def
        example_profile_env_def empty_profile_state_def)
  have ord: "pe_map_order example_profile_env = ord_id"
      "pe_LowerCase example_profile_env = example_case_table"
    by (simp_all add: example_profile_env_def)
  have failed: "fst (profile_cache_Set example_profile_env empty_profile_state
                       (usr_ID example_user) 0 ?key ?resp (24 * hour)) \<noteq> None"
    by (simp add: profile_cache_Set_def example_profile_env_def empty_profile_state_def)
  have log: "profile_log empty_profile_state = []"
    by (simp add: empty_profile_state_def)
  have kept: "filter (\<lambda>gr. False \<or> \<not> gr_Private gr)
                [example_github_repository, private_github_repository]
              = [example_github_repository]"
    by (simp add: example_github_repository_def private_github_repository_def)
  have pre': "(\<forall>cachedRepos. GetRepositoryList listing_github_env empty_github_state 7 False
                               \<noteq> Inr (Some cachedRepos))
      \<and> gh_ListRepositories listing_github_env ''gho_token'' False
          = Inr [example_github_repository, private_github_repository]"
    by (simp add: GetRepositoryList_def listing_github_env_def empty_github_state_def)
  have failed': "fst (SetRepositoryList listing_github_env empty_github_state 7 False
                        [example_repository]) \<noteq> None"
    by (simp add: SetRepositoryList_def listing_github_env_def)
  have log': "slog_Warn ''Failed to cache repository list'' empty_github_state
      = empty_github_state\<lparr>service_log := [''Failed to cache repository list'']\<rparr>"
    by (simp add: slog_Warn_def empty_github_state_def)
  note w = cache_write_best_effort [where E = example_profile_env and s = empty_profile_state
      and req = analysed_request and user = example_user and batchResp = example_batch_response
      and G = listing_github_env and t = empty_github_state and userID = 7
      and includePrivate = False and accessToken = "''gho_token''"
      and githubRepos = "[example_github_repository, private_github_repository]"]
  from w pre analysed_request_generated failed ord log
  have g: "GenerateProfile example_profile_env empty_profile_state analysed_request example_user
       = (Inr ?resp,
          empty_profile_state\<lparr>profile_log := [''Failed to cache profile generation result'']\<rparr>)"
    by (simp add: prod_eq_iff)
  from w pre' failed' kept log'
  have l: "ListUserRepositories listing_github_env empty_github_state 7 ''gho_token'' False
       = (Inr [example_repository],
          empty_github_state\<lparr>service_log := [''Failed to cache repository list'']\<rparr>)"
    by (simp add: prod_eq_iff example_repository_def)
  from repo failed g failed' l show ?thesis by simp
qed


subsection \<open>The cache key and the cache that is never written\<close>

lemma GenerateProfile_keeps_cache_empty:
  assumes "generated_profiles s = Map.empty" "0 \<notin> profile_configs s"
  shows "generated_profiles (snd (GenerateProfile E s req user)) = Map.empty
       \<and> profile_configs (snd (GenerateProfile E s req user)) = profile_configs s"
  using assms
  by (auto simp: GenerateProfile_def Let_def profile_cache_Set_def
      split: sum.splits option.splits prod.splits if_splits)

lemma profile_cache_Get_empty:
  "generated_profiles s = Map.empty \<Longrightarrow> profile_cache_Get E s k \<noteq> Inr (Some cached)"
  by (simp add: profile_cache_Get_def split: option.splits)


text \<open>
  Claim C9, where it fails. Two requests that agree on username, target role, tone of voice
  and number of projects do have the same cache key. But the cache write of
  \<open>GenerateProfile\<close> inserts \<open>config_id = 0\<close>, which the reference to \<open>profile_configs\<close>
  rejects in the database the migrations create (no row of \<open>profile_configs\<close> is ever written,
  and none has id 0): whatever the first request does, the table stays empty, and the second
  request is never answered from the cache. It is generated anew from its own inputs, and it
  fails when its own LLM call fails.
\<close>

theorem profile_cache_never_written:
  assumes empty: "generated_profiles s = Map.empty"
      and nocfg: "0 \<notin> profile_configs s"
      and same: "usr_Username user2 = usr_Username user1"
                "req_TargetRole req2 = req_TargetRole req1"
                "req_ToneOfVoice req2 = req_ToneOfVoice req1"
                "length (req_Projects req2) = length (req_Projects req1)"
      and first: "GenerateProfile E1 s req1 user1 = (r1, s1)"
      and apikey: "req_UserAPIKey req2 \<noteq> []"
      and projects: "req_Projects req2 \<noteq> []"
  shows "GetCacheKey (usr_Username user2) (req_TargetRole req2) (req_ToneOfVoice req2)
           (length (req_Projects req2))
         = GetCacheKey (usr_Username user1) (req_TargetRole req1) (req_ToneOfVoice req1)
             (length (req_Projects req1))
       \<and> generated_profiles s1 = Map.empty
       \<and> profile_configs s1 = profile_configs s
       \<and> (\<forall>cached. profile_cache_Get E2 s1
                      (GetCacheKey (usr_Username user2) (req_TargetRole req2)
                         (req_ToneOfVoice req2) (length (req_Projects req2)))
                    \<noteq> Inr (Some cached))
       \<and> fst (GenerateProfile E2 s1 req2 user2)
           = (case GenerateBatchedProfile E2 (req_UserAPIKey req2) (batch_request user2 req2) of
                Inl err \<Rightarrow> Inl (wrap_returned ''generation failed'' err)
              | Inr batchResp \<Rightarrow>
                  Inr (assemble_response (pe_LowerCase E2) (pe_map_order E2) user2 req2 batchResp))"
proof -
  let ?key = "GetCacheKey (usr_Username user2) (req_TargetRole req2) (req_ToneOfVoice req2)
                (length (req_Projects req2))"
  have keys: "?key = GetCacheKey (usr_Username user1) (req_TargetRole req1)
                       (req_ToneOfVoice req1) (length (req_Projects req1))"
    using same by simp
  from GenerateProfile_keeps_cache_empty [OF empty nocfg, of E1 req1 user1] first
  have s1: "generated_profiles s1 = Map.empty" "profile_configs s1 = profile_configs s"
    by simp_all
  have never: "profile_cache_Get E2 s1 ?key \<noteq> Inr (Some cached)" for cached
    using s1(1) by (rule profile_cache_Get_empty)
  then have miss: "(case profile_cache_Get E2 s1 ?key of Inr (Some cached) \<Rightarrow> a cached | _ \<Rightarrow> b) = b"
    for a :: "ContentGenerationResponse \<Rightarrow> error + ContentGenerationResponse" and b
    by (auto split: sum.splits option.splits)
  have "fst (GenerateProfile E2 s1 req2 user2)
           = (case GenerateBatchedProfile E2 (req_UserAPIKey req2) (batch_request user2 req2) of
                Inl err \<Rightarrow> Inl (wrap_returned ''generation failed'' err)
              | Inr batchResp \<Rightarrow>
                  Inr (assemble_response (pe_LowerCase E2) (pe_map_order E2) user2 req2 batchResp))"
    unfolding fst_GenerateProfile miss using apikey projects by simp
  with keys s1 never show ?thesis by blast
qed

theorem profile_cache_never_written_witness:
  "generated_profiles empty_profile_state = Map.empty
   \<and> 0 \<notin> profile_configs empty_profile_state
   \<and> GenerateProfile example_profile_env empty_profile_state analysed_request example_user
       = (Inr (assemble_response example_case_table ord_id example_user analysed_request example_batch_response),
          empty_profile_state\<lparr>profile_log := [''Failed to cache profile generation result'']\<rparr>)
   \<and> req_Projects other_request \<noteq> req_Projects analysed_request
   \<and> req_EmphasizedSkills other_request \<noteq> req_EmphasizedSkills analysed_request
   \<and> req_ContactPrefs other_request \<noteq> req_ContactPrefs analysed_request
   \<and> GetCacheKey (usr_Username example_user) (req_TargetRole other_request)
         (req_ToneOfVoice other_request) (length (req_Projects other_request))
       = GetCacheKey (usr_Username example_user) (req_TargetRole analysed_request)
           (req_ToneOfVoice analysed_request) (length (req_Projects analysed_request))
   \<and> fst (GenerateProfile later_profile_env
            (empty_profile_state\<lparr>profile_log := [''Failed to cache profile generation result'']\<rparr>)
            other_request example_user)
       = Inl (Wrap ''generation failed'' (Upstream ''quota exceeded''))"
proof -
  let ?s1 = "empty_profile_state\<lparr>profile_log := [''Failed to cache profile generation result'']\<rparr>"
  let ?resp = "assemble_response example_case_table ord_id example_user analysed_request example_batch_response"
  have empty: "generated_profiles empty_profile_state = Map.empty"
    and nocfg: "0 \<notin> profile_configs empty_profile_state"
    by (simp_all add: empty_profile_state_def)
  have same: "usr_Username example_user = usr_Username example_user"
      "req_TargetRole other_request = req_TargetRole analysed_request"
      "req_ToneOfVoice other_request = req_ToneOfVoice analysed_request"
      "length (req_Projects other_request) = length (req_Projects analysed_request)"
    by (simp_all add: other_request_def analysed_request_def example_request_def)
  have differ: "req_Projects other_request \<noteq> req_Projects analysed_request"
      "req_EmphasizedSkills other_request \<noteq> req_EmphasizedSkills analysed_request"
      "req_ContactPrefs other_request \<noteq> req_ContactPrefs analysed_request"
    by (simp_all add: other_request_def analysed_request_def example_request_def
        analysed_project_def example_project_def no_contact_def)
  have f1: "fst (GenerateProfile example_profile_env empty_profile_state analysed_request
                   example_user) = Inr ?resp"
    unfolding fst_GenerateProfile analysed_request_generated
    by (simp add: analysed_request_def example_request_def profile_cache_Get_def
        example_profile_env_def empty_profile_state_def)
  have s1: "snd (GenerateProfile example_profile_env empty_profile_state analysed_request
                   example_user) = ?s1"
    using snd_GenerateProfile_generated [where E = example_profile_env
        and s = empty_profile_state and req = analysed_request and user = example_user,
        OF _ _ _ analysed_request_generated]
    by (simp add: analysed_request_def example_request_def profile_cache_Get_def
        profile_cache_Set_def example_profile_env_def empty_profile_state_def)
  from f1 s1 have first: "GenerateProfile example_profile_env empty_profile_state
      analysed_request example_user = (Inr ?resp, ?s1)"
    by (simp add: prod_eq_iff)
  have apikey: "req_UserAPIKey other_request \<noteq> []" and projects: "req_Projects other_request \<noteq> []"
    by (simp_all add: other_request_def)
  have llm: "GenerateBatchedProfile later_profile_env (req_UserAPIKey other_request)
               (batch_request example_user other_request) = Inl (Upstream ''quota exceeded'')"
    by (simp add: GenerateBatchedProfile_def later_profile_env_def example_profile_env_def
        batch_request_def other_request_def analysed_project_def)
  from profile_cache_never_written [OF empty nocfg same first apikey projects,
      where ?E2.0 = later_profile_env]
  have "fst (GenerateProfile later_profile_env ?s1 other_request example_user)
      = Inl (Wrap ''generation failed'' (Upstream ''quota exceeded''))"
    by (simp add: llm wrap_returned_def)
  with empty nocfg first differ same show ?thesis by simp
qed

subsection \<open>The order of map iteration\<close>

lemma example_projects_valid:
  "valid_analysis example_project" "valid_analysis analysed_project"
  by (simp_all add: valid_analysis_def go_map_def analysed_project_def example_project_def)

lemma catalog_go: "buildBadgeCatalog lc ''go'' = Some (mk_badge (''Go'', ''00ADD8''))"
  by code_simp

lemma catalog_python: "buildBadgeCatalog lc ''python'' = Some (mk_badge (''Python'', ''3776AB''))"
  by code_simp

lemma ToLower_Go: "ToLower lc ''Go'' = ''go''" "ToLower lc ''Python'' = ''python''"
  by (simp_all add: ToLower_def ascii_lower_def upper_to_lower_def)

lemma badges_ord_id:
  "buildBadgesFromProjectData lc ord_id [example_project] [] []
     = [mk_badge (''Go'', ''00ADD8''), mk_badge (''Python'', ''3776AB'')]"
  by (simp add: buildBadgesFromProjectData_def ord_id_def example_project_def Let_def
      add_badge_def ToLower_Go catalog_go catalog_python mk_badge_def)

lemma badges_ord_rev:
  "buildBadgesFromProjectData lc ord_rev [example_project] [] []
     = [mk_badge (''Python'', ''3776AB''), mk_badge (''Go'', ''00ADD8'')]"
  by (simp add: buildBadgesFromProjectData_def ord_rev_def example_project_def Let_def
      add_badge_def ToLower_Go catalog_go catalog_python mk_badge_def)

lemma tech_stack_differs:
  "tech_stack_block lc [mk_badge (''Go'', ''00ADD8''), mk_badge (''Python'', ''3776AB'')]
     \<noteq> tech_stack_block lc [mk_badge (''Python'', ''3776AB''), mk_badge (''Go'', ''00ADD8'')]"
  by code_simp

lemma buildMarkdown_range_languages:
  assumes "range_languages ord' = range_languages ord"
  shows "buildMarkdown lc ord' user req pitch summaries badges config
           = buildMarkdown lc ord user req pitch summaries badges config"
proof -
  have top: "collectTopLanguages ord' ps n = collectTopLanguages ord ps n" for ps n
    by (simp add: collectTopLanguages_def assms)
  have fp: "featured_project ord' u r m i x = featured_project ord u r m i x" for u r m i x
    unfolding featured_project_def top ..
  have fb: "featured_block ord' u r xs = featured_block ord u r xs" for u r xs
    unfolding featured_block_def fp ..
  show ?thesis
    unfolding buildMarkdown_def top fb ..
qed

lemma buildMarkdown_badges_differ:
  assumes "tech_stack_block lc badges \<noteq> tech_stack_block lc badges'"
  shows "buildMarkdown lc ord user req pitch summaries badges config
           \<noteq> buildMarkdown lc ord user req pitch summaries badges' config"
  using assms by (simp add: buildMarkdown_def Let_def)


text \<open>
  Claim C1, at a failing input. One project with languages Go and Python: the run whose
  \<open>range\<close> over the badge map takes the insertion order and the run that takes the reverse
  order build the badge lists in opposite orders and different Markdown documents.
\<close>

theorem buildMarkdown_depends_on_map_order:
  "is_map_order ord_id \<and> is_map_order ord_rev
   \<and> buildBadgesFromProjectData lc ord_id (req_Projects example_request) [] (req_EmphasizedSkills example_request)
       = [mk_badge (''Go'', ''00ADD8''), mk_badge (''Python'', ''3776AB'')]
   \<and> buildBadgesFromProjectData lc ord_rev (req_Projects example_request) [] (req_EmphasizedSkills example_request)
       = [mk_badge (''Python'', ''3776AB''), mk_badge (''Go'', ''00ADD8'')]
   \<and> buildMarkdown lc ord_id example_user example_request ''I build things.'' example_summaries
         (buildBadgesFromProjectData lc ord_id (req_Projects example_request) []
            (req_EmphasizedSkills example_request)) example_config
     \<noteq> buildMarkdown lc ord_rev example_user example_request ''I build things.'' example_summaries
         (buildBadgesFromProjectData lc ord_rev (req_Projects example_request) []
            (req_EmphasizedSkills example_request)) example_config"
proof -
  have o1: "is_map_order ord_id" by (simp add: is_map_order_def ord_id_def)
  have o2: "is_map_order ord_rev" by (simp add: is_map_order_def ord_rev_def)
  have rq: "req_Projects example_request = [example_project]"
    "req_EmphasizedSkills example_request = []"
    by (simp_all add: example_request_def)
  have rl: "range_languages ord_rev = range_languages ord_id"
    by (simp add: ord_rev_def ord_id_def)
  have "buildMarkdown lc ord_id example_user example_request ''I build things.'' example_summaries
          [mk_badge (''Go'', ''00ADD8''), mk_badge (''Python'', ''3776AB'')] example_config
      \<noteq> buildMarkdown lc ord_id example_user example_request ''I build things.'' example_summaries
          [mk_badge (''Python'', ''3776AB''), mk_badge (''Go'', ''00ADD8'')] example_config"
    using tech_stack_differs by (rule buildMarkdown_badges_differ)
  then show ?thesis
    unfolding rq badges_ord_id badges_ord_rev buildMarkdown_range_languages [OF rl]
    using o1 o2 by simp
qed

end
